theory Spec2Isabelle
  imports Main
begin

section \<open>Values shared by the route handlers\<close>

text \<open>
  The handlers of \<^verbatim>\<open>routes/doctor.js\<close>, \<^verbatim>\<open>routes/patient.js\<close> and \<^verbatim>\<open>app.js\<close> are
  asynchronous functions over Mongoose documents. They are embedded as functions over an
  explicit world (the collections, the mail outbox, the calendar, the console), in a
  state-and-exception style: every awaited call either returns or throws, and what a call
  outside the repository does (the database driver, the mail transport, the calendar API)
  is read from an environment record, so that each \<^verbatim>\<open>throw\<close> is a branch of the model.
\<close>

type_synonym id = string

datatype exn = Error (message: string)

datatype response =
    Redirect string
  | Send nat string
  | SendJson nat "(string \<times> string) list"
  | Render string

datatype console_arg = Str string | Err exn

type_synonym log_entry = "console_arg list"

subsection \<open>Documents\<close>

text \<open>
  The model files (\<^verbatim>\<open>models/Booking\<close>, \<^verbatim>\<open>models/Doctor\<close>, \<^verbatim>\<open>models/Patient\<close>,
  \<^verbatim>\<open>models/Chat\<close>) are not among the sources; the records below hold the fields the
  handlers read and write, typed as the handlers use them. A date is a value of an
  arbitrary type \<open>'d\<close>; what \<^verbatim>\<open>Date\<close> and \<^verbatim>\<open>moment\<close> compute on it is a parameter
  (record \<open>lib\<close> below). A time slot may lack its date (the patient router guards
  \<^verbatim>\<open>slot && slot.date\<close>), a populated reference may be null, and a booking may lack its
  hospital and its meeting link.
\<close>

record 'd timeSlot =
  slot_date :: "'d option"
  startTime :: string
  endTime :: string
  slot_status :: string

record 'd doctor =
  doctor_name :: string
  doctor_email :: string
  timeSlots :: "'d timeSlot list"

record patient =
  patient_name :: string
  patient_email :: string
  favoriteDoctors :: "id list option"

record location =
  street :: string
  city :: string
  state :: string
  country :: string
  zip :: string

record hospital =
  hospital_name :: string
  hospital_location :: location

record 'd booking =
  booking_patient :: id
  booking_doctor :: id
  date :: 'd
  time :: string
  consultationType :: string
  status :: string
  meetingLink :: "string option"
  booking_hospital :: "hospital option"

record chat_message =
  senderId :: id
  msg_text :: string

record mail =
  mail_to :: string
  mail_subject :: string
  mail_html :: "string list"

record calendar_event =
  summary :: string
  description :: string
  event_start :: string
  event_end :: string
  attendees :: "string list"

record 'd world =
  bookings :: "id \<rightharpoonup> 'd booking"
  doctors :: "id \<rightharpoonup> 'd doctor"
  patients :: "id \<rightharpoonup> patient"
  chats :: "(id \<times> id) \<rightharpoonup> chat_message list"
  outbox :: "mail list"
  calendar :: "calendar_event list"
  console :: "log_entry list"

subsection \<open>The library interface and the environment\<close>

text \<open>
  \<open>lib\<close> holds the functions of \<^verbatim>\<open>Date\<close> and of the \<^verbatim>\<open>moment\<close> package that the
  handlers call: \<open>'m\<close> is a moment, \<open>'n\<close> a JavaScript number (an hour or a minute, or
  NaN). \<open>moment_HHmm\<close> is \<^verbatim>\<open>moment(s, 'HH:mm')\<close>, whose argument is undefined (\<open>None\<close>)
  when the split has no such element.
\<close>

record ('d, 'm, 'n) lib =
  toISOString :: "'d \<Rightarrow> string"
  toDateString :: "'d \<Rightarrow> string"
  newDate :: "string \<Rightarrow> 'd"
  addMilliseconds :: "'d \<Rightarrow> nat \<Rightarrow> 'd"
  moment_of :: "'d \<Rightarrow> 'm"
  moment_HHmm :: "string option \<Rightarrow> 'm"
  get_hour :: "'m \<Rightarrow> 'n"
  get_minute :: "'m \<Rightarrow> 'n"
  set_hour_minute :: "'m \<Rightarrow> 'n \<Rightarrow> 'n \<Rightarrow> 'm"
  isAfter :: "'m \<Rightarrow> 'm \<Rightarrow> bool"

text \<open>
  \<open>env\<close> holds the outcome of every call that leaves the process: \<open>Some e\<close> (or
  \<open>Inl e\<close>) when the call rejects with \<open>e\<close>. \<open>newId\<close> is the \<^verbatim>\<open>_id\<close> that
  \<^verbatim>\<open>new Booking\<close> draws.
\<close>

record env =
  findBooking_err :: "exn option"
  findDoctor_err :: "exn option"
  findPatient_err :: "exn option"
  bookingSave_err :: "exn option"
  doctorSave_err :: "exn option"
  patientSave_err :: "exn option"
  chatUpdate_err :: "exn option"
  sendMail_err :: "string \<Rightarrow> exn option"
  calendarInsert :: "exn + string option"
  newId :: id

subsection \<open>Actions: state passing with exceptions\<close>

type_synonym ('a, 'w) act = "'w \<Rightarrow> (exn + 'a) \<times> 'w"

definition ret :: "'a \<Rightarrow> ('a, 'w) act" where
  "ret x w = (Inr x, w)"

definition throw :: "exn \<Rightarrow> ('a, 'w) act" where
  "throw e w = (Inl e, w)"

definition bnd :: "('a, 'w) act \<Rightarrow> ('a \<Rightarrow> ('b, 'w) act) \<Rightarrow> ('b, 'w) act" where
  "bnd m f w = (case m w of (Inl e, w') \<Rightarrow> (Inl e, w') | (Inr x, w') \<Rightarrow> f x w')"

definition await :: "exn option \<Rightarrow> ('w \<Rightarrow> 'a \<times> 'w) \<Rightarrow> ('a, 'w) act" where
  "await failure run w =
     (case failure of Some e \<Rightarrow> (Inl e, w) | None \<Rightarrow> (case run w of (x, w') \<Rightarrow> (Inr x, w')))"

text \<open>\<open>keeps g m\<close>: the action \<open>m\<close> leaves the component \<open>g\<close> of the world as it was.\<close>

definition keeps :: "('w \<Rightarrow> 'b) \<Rightarrow> ('a, 'w) act \<Rightarrow> bool" where
  "keeps g m = (\<forall>w. g (snd (m w)) = g w)"

definition console_error :: "log_entry \<Rightarrow> (unit, 'd world) act" where
  "console_error entry w = (Inr (), w\<lparr>console := console w @ [entry]\<rparr>)"

text \<open>
  \<^verbatim>\<open>try { body } catch (error) { handler }\<close>: the world at the \<^verbatim>\<open>throw\<close> is the
  world the catch block starts from.
\<close>

definition tryCatch ::
  "(response, 'w) act \<Rightarrow> (exn \<Rightarrow> 'w \<Rightarrow> response \<times> 'w) \<Rightarrow> 'w \<Rightarrow> response \<times> 'w" where
  "tryCatch body handler w =
     (case body w of (Inl e, w') \<Rightarrow> handler e w' | (Inr r, w') \<Rightarrow> (r, w'))"

text \<open>
  The catch block of the booking handlers:
  \<^verbatim>\<open>console.error(error.message); res.status(500).send('Server Error');\<close>
\<close>

definition serverError :: "exn \<Rightarrow> 'd world \<Rightarrow> response \<times> 'd world" where
  "serverError e w =
     (Send 500 ''Server Error'', w\<lparr>console := console w @ [[Str (message e)]]\<rparr>)"

subsection \<open>Strings and arrays of JavaScript\<close>

text \<open>
  \<^verbatim>\<open>s.split(' - ')\<close>: the pieces of \<open>s\<close> between the occurrences of the separator, found
  from left to right; the result has at least one element.
\<close>

fun split_dash_acc :: "string \<Rightarrow> string \<Rightarrow> string list" where
  "split_dash_acc acc [] = [rev acc]"
| "split_dash_acc acc (c # cs) =
     (if take 3 (c # cs) = '' - '' then rev acc # split_dash_acc [] (drop 2 cs)
      else split_dash_acc (c # acc) cs)"

definition split_dash :: "string \<Rightarrow> string list" where
  "split_dash s = split_dash_acc [] s"

text \<open>\<^verbatim>\<open>xs[i]\<close>: undefined out of range.\<close>

definition at_index :: "'a list \<Rightarrow> nat \<Rightarrow> 'a option" where
  "at_index xs i = (if i < length xs then Some (xs ! i) else None)"

text \<open>A string property is truthy when it is defined and not empty.\<close>

definition truthy :: "string option \<Rightarrow> bool" where
  "truthy v = (case v of None \<Rightarrow> False | Some s \<Rightarrow> s \<noteq> [])"

text \<open>A template literal prints an undefined value as \<^verbatim>\<open>undefined\<close>.\<close>

definition interpolate :: "string option \<Rightarrow> string" where
  "interpolate v = (case v of None \<Rightarrow> ''undefined'' | Some s \<Rightarrow> s)"

text \<open>
  \<^verbatim>\<open>xs.findIndex(p)\<close> with a predicate that may throw: the index of the first element
  that satisfies \<open>p\<close>, \<open>None\<close> for \<^verbatim>\<open>-1\<close>; the elements are visited in order and the
  first throw ends the search.
\<close>

fun findIndex_from :: "('a \<Rightarrow> exn + bool) \<Rightarrow> 'a list \<Rightarrow> nat \<Rightarrow> exn + nat option" where
  "findIndex_from p [] i = Inr None"
| "findIndex_from p (x # xs) i =
     (case p x of
        Inl e \<Rightarrow> Inl e
      | Inr True \<Rightarrow> Inr (Some i)
      | Inr False \<Rightarrow> findIndex_from p xs (Suc i))"

definition findIndex :: "('a \<Rightarrow> exn + bool) \<Rightarrow> 'a list \<Rightarrow> exn + nat option" where
  "findIndex p xs = findIndex_from p xs 0"

section \<open>The booking-status-update handler: \<^verbatim>\<open>POST /doctor/bookings/:id\<close>\<close>

subsection \<open>The database calls of the handler\<close>

text \<open>
  \<^verbatim>\<open>Booking.findById(bookingId).populate('doctor').populate('patient')\<close>: the booking
  (\<open>None\<close> for null) with the documents its two references point to, each null when
  no such document exists.
\<close>

definition findBookingPopulated ::
  "env \<Rightarrow> id \<Rightarrow> (('d booking \<times> 'd doctor option \<times> patient option) option, 'd world) act" where
  "findBookingPopulated E bookingId =
     await (findBooking_err E)
       (\<lambda>w. (case bookings w bookingId of
                None \<Rightarrow> None
              | Some b \<Rightarrow> Some (b, doctors w (booking_doctor b), patients w (booking_patient b)),
             w))"

definition saveBooking :: "env \<Rightarrow> id \<Rightarrow> 'd booking \<Rightarrow> (unit, 'd world) act" where
  "saveBooking E bookingId b =
     await (bookingSave_err E) (\<lambda>w. ((), w\<lparr>bookings := (bookings w)(bookingId \<mapsto> b)\<rparr>))"

definition saveDoctor :: "env \<Rightarrow> id \<Rightarrow> 'd doctor \<Rightarrow> (unit, 'd world) act" where
  "saveDoctor E doctorId d =
     await (doctorSave_err E) (\<lambda>w. ((), w\<lparr>doctors := (doctors w)(doctorId \<mapsto> d)\<rparr>))"

text \<open>
  \<^verbatim>\<open>Chat.findOneAndUpdate({ doctorId, patientId }, { $push: { messages: ... } },
  { upsert: true, new: true })\<close>: the message is appended to the chat of the pair, which
  is created when it does not exist.
\<close>

definition pushChat :: "env \<Rightarrow> id \<Rightarrow> id \<Rightarrow> string \<Rightarrow> (unit, 'd world) act" where
  "pushChat E doctorId patientId chatMessage =
     await (chatUpdate_err E)
       (\<lambda>w. ((), w\<lparr>chats := (chats w)((doctorId, patientId) \<mapsto>
                 (case chats w (doctorId, patientId) of None \<Rightarrow> [] | Some ms \<Rightarrow> ms)
                   @ [\<lparr>senderId = doctorId, msg_text = chatMessage\<rparr>])\<rparr>))"

subsection \<open>The two helpers of \<^verbatim>\<open>routes/doctor.js\<close>\<close>

definition nullProperty :: exn where
  "nullProperty = Error ''Cannot read properties of null''"

definition undefinedProperty :: exn where
  "undefinedProperty = Error ''Cannot read properties of undefined''"

text \<open>
  \<^verbatim>\<open>createGoogleMeetLink(booking)\<close>: the event literal reads \<^verbatim>\<open>booking.doctor.name\<close> and
  \<^verbatim>\<open>booking.patient.name\<close> outside the function's own \<^verbatim>\<open>try\<close>; a failure of
  \<^verbatim>\<open>calendar.events.insert\<close> is logged and thrown again under a fixed message.
\<close>

definition createGoogleMeetLink ::
  "('d, 'm, 'n) lib \<Rightarrow> env \<Rightarrow> 'd booking \<Rightarrow> 'd doctor option \<Rightarrow> patient option
     \<Rightarrow> (string option, 'd world) act" where
  "createGoogleMeetLink L E b doc pat =
     (case doc of
        None \<Rightarrow> throw nullProperty
      | Some d \<Rightarrow>
          (case pat of
             None \<Rightarrow> throw nullProperty
           | Some p \<Rightarrow>
               (let event = \<lparr>summary = ''Appointment with Dr. '' @ doctor_name d,
                             description = ''Appointment with Dr. '' @ doctor_name d
                               @ '' and patient '' @ patient_name p,
                             event_start = toISOString L (date b),
                             event_end = toISOString L (addMilliseconds L (date b) (30 * 60000)),
                             attendees = [doctor_email d, patient_email p]\<rparr>
                in case calendarInsert E of
                     Inr hangoutLink \<Rightarrow>
                       (\<lambda>w. (Inr hangoutLink, w\<lparr>calendar := calendar w @ [event]\<rparr>))
                   | Inl e \<Rightarrow>
                       bnd (console_error [Str ''Error creating Google Meet link:'', Err e])
                         (\<lambda>_. throw (Error ''Unable to create Google Meet link'')))))"

definition sendAppointmentEmail ::
  "env \<Rightarrow> string \<Rightarrow> string \<Rightarrow> string \<Rightarrow> string list \<Rightarrow> (unit, 'd world) act" where
  "sendAppointmentEmail E recipient name subject content =
     (case sendMail_err E recipient of
        None \<Rightarrow>
          (\<lambda>w. (Inr (), w\<lparr>outbox := outbox w
                   @ [\<lparr>mail_to = recipient, mail_subject = subject, mail_html = content\<rparr>]\<rparr>))
      | Some e \<Rightarrow>
          bnd (console_error [Str ''Error sending email:'', Err e])
            (\<lambda>_. throw (Error ''Unable to send email'')))"

subsection \<open>The steps of the handler\<close>

text \<open>
  Lines 190 to 204: the end of the booking, \<^verbatim>\<open>moment(bookingDate)\<close> with the hour and the
  minute of \<^verbatim>\<open>moment(booking.time.split(' - ')[1], 'HH:mm')\<close>. (The start, computed
  beside it, is never read.)
\<close>

definition bookingEndDateTime :: "('d, 'm, 'n) lib \<Rightarrow> 'd booking \<Rightarrow> 'm" where
  "bookingEndDateTime L b =
     (let bookingDate = moment_of L (date b);
          bookingTimeEnd = moment_HHmm L (at_index (split_dash (time b)) 1)
      in set_hour_minute L bookingDate (get_hour L bookingTimeEnd) (get_minute L bookingTimeEnd))"

text \<open>Lines 206 to 210.\<close>

definition assignStatus :: "('d, 'm, 'n) lib \<Rightarrow> 'm \<Rightarrow> string \<Rightarrow> 'd booking \<Rightarrow> 'd booking" where
  "assignStatus L now requested b =
     (if isAfter L now (bookingEndDateTime L b) then b\<lparr>status := ''completed''\<rparr>
      else b\<lparr>status := requested\<rparr>)"

text \<open>Lines 212 to 214.\<close>

definition needsMeetingLink :: "string \<Rightarrow> 'd booking \<Rightarrow> bool" where
  "needsMeetingLink requested b =
     (requested = ''accepted'' \<and> \<not> truthy (meetingLink b) \<and> consultationType b = ''Video call'')"

definition attachMeetingLink ::
  "('d, 'm, 'n) lib \<Rightarrow> env \<Rightarrow> string \<Rightarrow> 'd booking \<Rightarrow> 'd doctor option \<Rightarrow> patient option
     \<Rightarrow> ('d booking, 'd world) act" where
  "attachMeetingLink L E requested b doc pat =
     (if needsMeetingLink requested b
      then bnd (createGoogleMeetLink L E b doc pat) (\<lambda>link. ret (b\<lparr>meetingLink := link\<rparr>))
      else ret b)"

text \<open>
  Lines 224 to 227, the predicate of \<^verbatim>\<open>findIndex\<close>: reading \<^verbatim>\<open>toISOString\<close> of a
  slot without a date throws.
\<close>

definition slotMatches :: "('d, 'm, 'n) lib \<Rightarrow> 'd booking \<Rightarrow> 'd timeSlot \<Rightarrow> exn + bool" where
  "slotMatches L b slot =
     (case slot_date slot of
        None \<Rightarrow> Inl undefinedProperty
      | Some d \<Rightarrow>
          Inr (toISOString L d = toISOString L (date b)
               \<and> Some (startTime slot) = at_index (split_dash (time b)) 0))"

text \<open>Lines 230 to 236: the status the matching slot is given.\<close>

definition reconcileSlotStatus :: "string \<Rightarrow> string \<Rightarrow> string" where
  "reconcileSlotStatus currentStatus requested =
     (if currentStatus = ''rejected'' \<and> (requested = ''waiting'' \<or> requested = ''accepted'')
      then ''booked''
      else if requested = ''rejected'' then ''free''
      else ''booked'')"

text \<open>
  The simpler rule the three branches are compared with: free for a rejection, booked for
  every other requested status.
\<close>

definition slotStatusRule :: "string \<Rightarrow> string" where
  "slotStatusRule requested = (if requested = ''rejected'' then ''free'' else ''booked'')"

text \<open>
  The lifecycle as the specification words it, waiting, then accepted or rejected, then
  completed: the moves it allows from one status to another.
\<close>

definition lifecycleStep :: "string \<Rightarrow> string \<Rightarrow> bool" where
  "lifecycleStep old new =
     ((old = ''waiting'' \<and> (new = ''accepted'' \<or> new = ''rejected'' \<or> new = ''completed''))
      \<or> ((old = ''accepted'' \<or> old = ''rejected'') \<and> new = ''completed''))"

definition setSlotStatus :: "'d doctor \<Rightarrow> nat \<Rightarrow> string \<Rightarrow> 'd doctor" where
  "setSlotStatus d i s = d\<lparr>timeSlots := (timeSlots d)[i := (timeSlots d ! i)\<lparr>slot_status := s\<rparr>]\<rparr>"

text \<open>
  Lines 240 to 298. The HTML of a mail is held as the list of its paragraphs, the white
  space between them left out. A null patient or a missing hospital throws where the
  template reads a property of it, before anything is sent.
\<close>

definition hospitalAddress :: "hospital \<Rightarrow> string" where
  "hospitalAddress h =
     hospital_name h @ '', '' @ street (hospital_location h) @ '', ''
       @ city (hospital_location h) @ '', '' @ state (hospital_location h) @ '', ''
       @ country (hospital_location h) @ '', '' @ zip (hospital_location h)"

definition appointmentLine :: "('d, 'm, 'n) lib \<Rightarrow> 'd booking \<Rightarrow> string" where
  "appointmentLine L b = '' on '' @ toDateString L (date b) @ '' at '' @ time b"

definition notifyVideoCall ::
  "('d, 'm, 'n) lib \<Rightarrow> env \<Rightarrow> 'd booking \<Rightarrow> 'd doctor \<Rightarrow> patient option \<Rightarrow> (unit, 'd world) act" where
  "notifyVideoCall L E b d pat =
     (case pat of
        None \<Rightarrow> throw nullProperty
      | Some p \<Rightarrow>
          (let link = interpolate (meetingLink b);
               joinLine = ''<p>Join the meeting using the following link: <a href=\"''
                 @ link @ ''\">'' @ link @ ''</a></p>'';
               emailContent =
                 [''<p>Dear '' @ patient_name p @ '',</p>'',
                  ''<p>Your appointment with Dr. '' @ doctor_name d @ appointmentLine L b
                    @ '' has been confirmed.</p>'',
                  joinLine,
                  ''<p>Best regards,</p>'',
                  ''<p>Global Wellness Alliance Team</p>''];
               acceptanceEmailContent =
                 [''<p>Dear Dr. '' @ doctor_name d @ '',</p>'',
                  ''<p>The appointment with '' @ patient_name p @ appointmentLine L b
                    @ '' has been confirmed.</p>'',
                  joinLine,
                  ''<p>Best regards,</p>'',
                  ''<p>Global Wellness Alliance Team</p>''];
               chatMessage = ''Your appointment with Dr. '' @ doctor_name d @ appointmentLine L b
                 @ '' has been confirmed. Join the meeting using the following link: '' @ link
           in bnd (sendAppointmentEmail E (patient_email p) (patient_name p)
                     ''Appointment Confirmation'' emailContent)
                (\<lambda>_. bnd (sendAppointmentEmail E (doctor_email d) (doctor_name d)
                             ''Appointment Confirmation Notification'' acceptanceEmailContent)
                (\<lambda>_. pushChat E (booking_doctor b) (booking_patient b) chatMessage))))"

definition notifyInPerson ::
  "('d, 'm, 'n) lib \<Rightarrow> env \<Rightarrow> 'd booking \<Rightarrow> 'd doctor \<Rightarrow> patient option \<Rightarrow> (unit, 'd world) act" where
  "notifyInPerson L E b d pat =
     (case pat of
        None \<Rightarrow> throw nullProperty
      | Some p \<Rightarrow>
          (case booking_hospital b of
             None \<Rightarrow> throw undefinedProperty
           | Some h \<Rightarrow>
               (let emailContent =
                      [''<p>Dear '' @ patient_name p @ '',</p>'',
                       ''<p>Your appointment with Dr. '' @ doctor_name d @ appointmentLine L b
                         @ '' has been confirmed.</p>'',
                       ''<p>Please visit the hospital at '' @ hospitalAddress h @ ''</p>'',
                       ''<p>Best regards,</p>'',
                       ''<p>Global Wellness Alliance Team</p>''];
                    chatMessage = ''Your appointment with Dr. '' @ doctor_name d
                      @ appointmentLine L b
                      @ '' has been confirmed. Please visit the hospital at '' @ hospitalAddress h
                in bnd (sendAppointmentEmail E (patient_email p) (patient_name p)
                          ''Appointment Confirmation'' emailContent)
                     (\<lambda>_. pushChat E (booking_doctor b) (booking_patient b) chatMessage))))"

definition notifyRejected ::
  "('d, 'm, 'n) lib \<Rightarrow> env \<Rightarrow> 'd booking \<Rightarrow> 'd doctor \<Rightarrow> patient option \<Rightarrow> (unit, 'd world) act" where
  "notifyRejected L E b d pat =
     (case pat of
        None \<Rightarrow> throw nullProperty
      | Some p \<Rightarrow>
          (let emailContent =
                 [''<p>Dear '' @ patient_name p @ '',</p>'',
                  ''<p>We regret to inform you that your appointment with Dr. '' @ doctor_name d
                    @ appointmentLine L b @ '' has been rejected.</p>'',
                  ''<p>Please contact us for further assistance.</p>'',
                  ''<p>Best regards,</p>'',
                  ''<p>Global Wellness Alliance Team</p>''];
               chatMessage = ''Your appointment with Dr. '' @ doctor_name d @ appointmentLine L b
                 @ '' has been rejected. Please contact us for further assistance.''
           in bnd (sendAppointmentEmail E (patient_email p) (patient_name p)
                     ''Appointment Rejection'' emailContent)
                (\<lambda>_. pushChat E (booking_doctor b) (booking_patient b) chatMessage)))"

definition notify ::
  "('d, 'm, 'n) lib \<Rightarrow> env \<Rightarrow> string \<Rightarrow> 'd booking \<Rightarrow> 'd doctor \<Rightarrow> patient option
     \<Rightarrow> (unit, 'd world) act" where
  "notify L E requested b d pat =
     (if requested = ''accepted'' \<or> requested = ''rejected'' then
        (if requested = ''accepted'' then
           (if consultationType b = ''Video call'' then notifyVideoCall L E b d pat
            else if consultationType b = ''In-person'' then notifyInPerson L E b d pat
            else ret ())
         else if requested = ''rejected'' then notifyRejected L E b d pat
         else ret ())
      else ret ())"

text \<open>
  What lines 240 to 298 send, read off the branches: the subjects of the mails, in order,
  by requested status and consultation type; whether anything is sent at all; and whether
  the search of lines 224 to 227 found a slot.
\<close>

definition noticeSubjects :: "string \<Rightarrow> 'd booking \<Rightarrow> string list" where
  "noticeSubjects requested b =
     (if requested = ''accepted'' then
        (if consultationType b = ''Video call''
         then [''Appointment Confirmation'', ''Appointment Confirmation Notification'']
         else if consultationType b = ''In-person'' then [''Appointment Confirmation'']
         else [])
      else if requested = ''rejected'' then [''Appointment Rejection'']
      else [])"

definition notifies :: "string \<Rightarrow> 'd booking \<Rightarrow> bool" where
  "notifies requested b =
     (requested = ''rejected''
      \<or> (requested = ''accepted''
          \<and> (consultationType b = ''Video call'' \<or> consultationType b = ''In-person'')))"

definition slotFound :: "('d, 'm, 'n) lib \<Rightarrow> 'd booking \<Rightarrow> 'd doctor \<Rightarrow> bool" where
  "slotFound L b d = (\<exists>i. findIndex (slotMatches L b) (timeSlots d) = Inr (Some i))"

subsection \<open>The handler\<close>

text \<open>
  The route is registered behind \<^verbatim>\<open>isLoggedIn\<close> of \<^verbatim>\<open>routes/doctor.js\<close> (a session
  user of role \<^verbatim>\<open>doctor\<close>); what follows is the handler that runs once the check
  has passed. \<open>now\<close> is \<^verbatim>\<open>moment()\<close> at line 190, \<open>requested\<close> is
  \<^verbatim>\<open>req.body.status\<close>.

  Lines 218 to 301, once the booking is saved: \<^verbatim>\<open>doctor\<close> is the populated reference of
  the booking; the slot found is given its status in the document, the document is saved,
  and only then the mails and the chat message follow.
\<close>

definition reconcileAndNotify ::
  "('d, 'm, 'n) lib \<Rightarrow> env \<Rightarrow> string \<Rightarrow> string \<Rightarrow> 'd booking \<Rightarrow> 'd doctor option
     \<Rightarrow> patient option \<Rightarrow> (response, 'd world) act" where
  "reconcileAndNotify L E currentStatus requested b doc pat =
     (case doc of
        None \<Rightarrow> ret (Send 404 ''Doctor not found'')
      | Some d \<Rightarrow>
          (case findIndex (slotMatches L b) (timeSlots d) of
             Inl e \<Rightarrow> throw e
           | Inr None \<Rightarrow>
               bnd (console_error [Str ''Time slot not found for the given date and time''])
                 (\<lambda>_. ret (Redirect ''/doctor/bookings''))
           | Inr (Some timeSlotIndex) \<Rightarrow>
               (let d' = setSlotStatus d timeSlotIndex (reconcileSlotStatus currentStatus requested)
                in bnd (saveDoctor E (booking_doctor b) d')
                     (\<lambda>_. bnd (notify L E requested b d' pat)
                     (\<lambda>_. ret (Redirect ''/doctor/bookings''))))))"

definition updateBookingBody ::
  "('d, 'm, 'n) lib \<Rightarrow> env \<Rightarrow> 'm \<Rightarrow> id \<Rightarrow> string \<Rightarrow> (response, 'd world) act" where
  "updateBookingBody L E now bookingId requested =
     bnd (findBookingPopulated E bookingId)
       (\<lambda>found. case found of
          None \<Rightarrow> ret (Send 404 ''Booking not found'')
        | Some (booking0, doc, pat) \<Rightarrow>
            (let currentStatus = status booking0;
                 booking1 = assignStatus L now requested booking0
             in bnd (attachMeetingLink L E requested booking1 doc pat)
                  (\<lambda>booking2. bnd (saveBooking E bookingId booking2)
                  (\<lambda>_. reconcileAndNotify L E currentStatus requested booking2 doc pat))))"

definition updateBooking ::
  "('d, 'm, 'n) lib \<Rightarrow> env \<Rightarrow> 'm \<Rightarrow> id \<Rightarrow> string \<Rightarrow> 'd world \<Rightarrow> response \<times> 'd world" where
  "updateBooking L E now bookingId requested =
     tryCatch (updateBookingBody L E now bookingId requested) serverError"

section \<open>The patient router\<close>

subsection \<open>The session check\<close>

text \<open>
  \<^verbatim>\<open>isLoggedIn\<close> of \<^verbatim>\<open>routes/patient.js\<close>: the request passes when the session holds a
  user whose role is \<^verbatim>\<open>patient\<close>, and is redirected to the login page otherwise.
\<close>

record user =
  user_id :: id
  user_email :: string
  role :: string

definition patientLoggedIn :: "user option \<Rightarrow> bool" where
  "patientLoggedIn sessionUser =
     (case sessionUser of None \<Rightarrow> False | Some u \<Rightarrow> role u = ''patient'')"

subsection \<open>\<^verbatim>\<open>POST /patient/book\<close>\<close>

text \<open>
  The fields of \<^verbatim>\<open>req.body\<close> the handler reads, as the strings a form submits.
\<close>

record book_request =
  req_doctorId :: id
  req_date :: string
  req_time :: string
  req_consultationType :: string

definition findDoctorById :: "env \<Rightarrow> id \<Rightarrow> ('d doctor option, 'd world) act" where
  "findDoctorById E doctorId = await (findDoctor_err E) (\<lambda>w. (doctors w doctorId, w))"

definition newBooking :: "('d, 'm, 'n) lib \<Rightarrow> id \<Rightarrow> book_request \<Rightarrow> 'd booking" where
  "newBooking L patientId req =
     \<lparr>booking_patient = patientId,
      booking_doctor = req_doctorId req,
      date = newDate L (req_date req),
      time = req_time req,
      consultationType = req_consultationType req,
      status = ''waiting'',
      meetingLink = None,
      booking_hospital = None\<rparr>"

text \<open>
  The predicate of \<^verbatim>\<open>doctor.timeSlots.find\<close> (line 161): the ISO string of the slot's
  date is compared with the \<^verbatim>\<open>date\<close> string of the request itself.
\<close>

definition slotRequested :: "('d, 'm, 'n) lib \<Rightarrow> book_request \<Rightarrow> 'd timeSlot \<Rightarrow> bool" where
  "slotRequested L req slot =
     (case slot_date slot of
        None \<Rightarrow> False
      | Some d \<Rightarrow>
          toISOString L d = req_date req
          \<and> Some (startTime slot) = at_index (split_dash (req_time req)) 0)"

text \<open>
  \<^verbatim>\<open>xs.find(p)\<close> returns the first element that satisfies \<open>p\<close>, by reference: the
  model returns its index, at which the assignment to the element updates the array.
\<close>

fun find_from :: "('a \<Rightarrow> bool) \<Rightarrow> 'a list \<Rightarrow> nat \<Rightarrow> nat option" where
  "find_from p [] i = None"
| "find_from p (x # xs) i = (if p x then Some i else find_from p xs (Suc i))"

definition find_first :: "('a \<Rightarrow> bool) \<Rightarrow> 'a list \<Rightarrow> nat option" where
  "find_first p xs = find_from p xs 0"

definition bookBody ::
  "('d, 'm, 'n) lib \<Rightarrow> env \<Rightarrow> id \<Rightarrow> book_request \<Rightarrow> (response, 'd world) act" where
  "bookBody L E patientId req =
     bnd (saveBooking E (newId E) (newBooking L patientId req))
       (\<lambda>_. bnd (findDoctorById E (req_doctorId req))
       (\<lambda>doc. case doc of
          None \<Rightarrow> ret (Send 404 ''Doctor not found'')
        | Some d \<Rightarrow>
            (case find_first (slotRequested L req) (timeSlots d) of
               None \<Rightarrow> ret (Redirect ''/patient/bookings'')
             | Some slotToUpdate \<Rightarrow>
                 bnd (saveDoctor E (req_doctorId req) (setSlotStatus d slotToUpdate ''booked''))
                   (\<lambda>_. ret (Redirect ''/patient/bookings'')))))"

definition book ::
  "('d, 'm, 'n) lib \<Rightarrow> env \<Rightarrow> user option \<Rightarrow> book_request \<Rightarrow> 'd world \<Rightarrow> response \<times> 'd world" where
  "book L E sessionUser req w =
     (case sessionUser of
        None \<Rightarrow> (Redirect ''/auth/login'', w)
      | Some u \<Rightarrow>
          if patientLoggedIn sessionUser
          then tryCatch (bookBody L E (user_id u) req) serverError w
          else (Redirect ''/auth/login'', w))"

subsection \<open>\<^verbatim>\<open>POST /patient/add-to-favorites\<close>\<close>

definition findPatientById :: "env \<Rightarrow> id \<Rightarrow> (patient option, 'd world) act" where
  "findPatientById E patientId = await (findPatient_err E) (\<lambda>w. (patients w patientId, w))"

definition savePatient :: "env \<Rightarrow> id \<Rightarrow> patient \<Rightarrow> (unit, 'd world) act" where
  "savePatient E patientId p =
     await (patientSave_err E) (\<lambda>w. ((), w\<lparr>patients := (patients w)(patientId \<mapsto> p)\<rparr>))"

text \<open>Lines 238 to 240: a missing list is replaced by the empty one.\<close>

definition favoritesOf :: "patient \<Rightarrow> id list" where
  "favoritesOf p = (case favoriteDoctors p of None \<Rightarrow> [] | Some favs \<Rightarrow> favs)"

definition addToFavoritesBody :: "env \<Rightarrow> id \<Rightarrow> id \<Rightarrow> (response, 'd world) act" where
  "addToFavoritesBody E patientId doctorId =
     bnd (findPatientById E patientId)
       (\<lambda>pat. bnd (findDoctorById E doctorId)
       (\<lambda>doc. case pat of
          None \<Rightarrow> ret (Send 404 ''Patient or Doctor not found'')
        | Some p \<Rightarrow>
            (case doc of
               None \<Rightarrow> ret (Send 404 ''Patient or Doctor not found'')
             | Some d \<Rightarrow>
                 if doctorId \<in> set (favoritesOf p)
                 then ret (Send 400 ''Doctor already in favorites'')
                 else bnd (savePatient E patientId
                             (p\<lparr>favoriteDoctors := Some (favoritesOf p @ [doctorId])\<rparr>))
                        (\<lambda>_. ret (Redirect ''/patient/doctors'')))))"

text \<open>
  The catch block of the route:
  \<^verbatim>\<open>console.error('Error adding to favorites:', error); res.status(500).send('Server error');\<close>
\<close>

definition favoritesError :: "exn \<Rightarrow> 'd world \<Rightarrow> response \<times> 'd world" where
  "favoritesError e w =
     (Send 500 ''Server error'',
      w\<lparr>console := console w @ [[Str ''Error adding to favorites:'', Err e]]\<rparr>)"

definition addToFavorites ::
  "env \<Rightarrow> user option \<Rightarrow> id \<Rightarrow> 'd world \<Rightarrow> response \<times> 'd world" where
  "addToFavorites E sessionUser doctorId w =
     (case sessionUser of
        None \<Rightarrow> (Redirect ''/auth/login'', w)
      | Some u \<Rightarrow>
          if patientLoggedIn sessionUser
          then tryCatch (addToFavoritesBody E (user_id u) doctorId) favoritesError w
          else (Redirect ''/auth/login'', w))"

text \<open>The invariant of the collection: no list of favorites holds an id twice.\<close>

definition noDuplicateFavorites :: "'d world \<Rightarrow> bool" where
  "noDuplicateFavorites w = (\<forall>k p. patients w k = Some p \<longrightarrow> distinct (favoritesOf p))"

section \<open>\<^verbatim>\<open>GET /auth/search-doctors\<close>: the query\<close>

text \<open>
  The handler of \<^verbatim>\<open>app.js\<close> builds a MongoDB filter and passes it to
  \<^verbatim>\<open>Doctor.find\<close>. The filter is an object: a list of properties in insertion order, in
  which an assignment replaces the value of a property that is there and appends one that
  is not. \<open>RegexI s\<close> is \<^verbatim>\<open>{ $regex: new RegExp(s, 'i') }\<close>, \<open>InRegexI s\<close> is
  \<^verbatim>\<open>{ $in: [new RegExp(s, 'i')] }\<close>, and \<open>AnyOf\<close> the list of clauses of \<^verbatim>\<open>$or\<close>.
\<close>

datatype cond =
    Eq string
  | EqBool bool
  | RegexI string
  | InRegexI string
  | AnyOf "(string \<times> cond) list"

type_synonym query = "(string \<times> cond) list"

fun assign :: "string \<Rightarrow> cond \<Rightarrow> query \<Rightarrow> query" where
  "assign k v [] = [(k, v)]"
| "assign k v ((k', v') # q) = (if k = k' then (k, v) # q else (k', v') # assign k v q)"

text \<open>
  The parameters of \<^verbatim>\<open>req.query\<close>, each absent or given once as a string; the empty
  string is falsy and counts as absent in the tests of the handler.
\<close>

record search_params =
  q_what :: "string option"
  q_where :: "string option"
  q_country :: "string option"
  q_state :: "string option"
  q_city :: "string option"
  q_speciality :: "string option"
  q_languages :: "string option"
  q_gender :: "string option"
  q_hospitals :: "string option"
  q_availability :: "string option"
  q_dateAvailability :: "string option"

text \<open>
  \<^verbatim>\<open>new RegExp(s, 'i')\<close> throws a SyntaxError when \<open>s\<close> is no regular expression. Which
  strings are is the engine's matter: the parameter \<open>validPattern\<close>. A regular
  expression is held as its pattern.
\<close>

definition newRegExp :: "(string \<Rightarrow> bool) \<Rightarrow> string \<Rightarrow> exn + string" where
  "newRegExp validPattern s =
     (if validPattern s then Inr s else Inl (Error ''Invalid regular expression''))"

definition andThen :: "exn + 'a \<Rightarrow> ('a \<Rightarrow> exn + 'b) \<Rightarrow> exn + 'b" where
  "andThen r f = (case r of Inl e \<Rightarrow> Inl e | Inr x \<Rightarrow> f x)"

text \<open>\<^verbatim>\<open>if (v) query.k = f(v)\<close>, for a value used as it is.\<close>

definition whenGiven :: "string option \<Rightarrow> string \<Rightarrow> (string \<Rightarrow> cond) \<Rightarrow> query \<Rightarrow> query" where
  "whenGiven v k f q = (case v of None \<Rightarrow> q | Some s \<Rightarrow> if s \<noteq> [] then assign k (f s) q else q)"

text \<open>\<^verbatim>\<open>if (v) query.k = f(new RegExp(v, 'i'))\<close>: the assignment is not reached when the
  constructor throws.\<close>

definition whenGivenPattern ::
  "(string \<Rightarrow> bool) \<Rightarrow> string option \<Rightarrow> string \<Rightarrow> (string \<Rightarrow> cond) \<Rightarrow> query \<Rightarrow> exn + query" where
  "whenGivenPattern validPattern v k f q =
     (case v of
        None \<Rightarrow> Inr q
      | Some s \<Rightarrow>
          if s \<noteq> [] then andThen (newRegExp validPattern s) (\<lambda>re. Inr (assign k (f re) q))
          else Inr q)"

definition whatClauses :: "string \<Rightarrow> cond" where
  "whatClauses s =
     AnyOf [(''speciality'', RegexI s), (''name'', RegexI s), (''conditions'', RegexI s)]"

definition whereClauses :: "string \<Rightarrow> cond" where
  "whereClauses s = AnyOf [(''city'', RegexI s), (''state'', RegexI s), (''country'', RegexI s)]"

definition baseQuery :: query where
  "baseQuery =
     [(''role'', Eq ''doctor''), (''verified'', Eq ''Verified''), (''timeSlots.status'', Eq ''free'')]"

text \<open>
  The statements of the \<^verbatim>\<open>try\<close> block in their order: country, state, city, speciality,
  languages, gender, hospitals, availability, then \<^verbatim>\<open>what\<close> and last \<^verbatim>\<open>where\<close>, both
  assigning \<^verbatim>\<open>query.$or\<close>. The first constructor that throws ends the block.
\<close>

definition searchQuery :: "(string \<Rightarrow> bool) \<Rightarrow> search_params \<Rightarrow> exn + query" where
  "searchQuery validPattern p =
     andThen (whenGivenPattern validPattern (q_country p) ''country'' RegexI baseQuery)
       (\<lambda>q1. andThen (whenGivenPattern validPattern (q_state p) ''state'' RegexI q1)
       (\<lambda>q2. andThen (whenGivenPattern validPattern (q_city p) ''city'' RegexI q2)
       (\<lambda>q3. andThen (whenGivenPattern validPattern (q_speciality p) ''speciality'' InRegexI q3)
       (\<lambda>q4. andThen (whenGivenPattern validPattern (q_languages p) ''languages'' InRegexI q4)
       (\<lambda>q5. andThen (whenGivenPattern validPattern (q_hospitals p) ''hospitals'' RegexI
                        (whenGiven (q_gender p) ''gender'' Eq q5))
       (\<lambda>q7. andThen (whenGivenPattern validPattern (q_what p) ''$or'' whatClauses
                        (whenGiven (q_availability p) ''availability''
                           (\<lambda>s. EqBool (s = ''true'')) q7))
       (\<lambda>q9. whenGivenPattern validPattern (q_where p) ''$or'' whereClauses q9)))))))"

text \<open>
  The handler: \<^verbatim>\<open>res.json(doctors)\<close> with what \<^verbatim>\<open>Doctor.find(query)\<close> returns, or, from
  the catch block, \<^verbatim>\<open>res.status(500).json({ message: 'Error fetching doctors', error })\<close>
  when building the query or the call threw. \<open>doctorFind\<close> is the database's answer to
  a query.
\<close>

datatype 'r search_answer = Doctors 'r | FetchError exn

definition searchDoctors ::
  "(string \<Rightarrow> bool) \<Rightarrow> (query \<Rightarrow> exn + 'r) \<Rightarrow> search_params \<Rightarrow> 'r search_answer" where
  "searchDoctors validPattern doctorFind p =
     (case searchQuery validPattern p of
        Inl e \<Rightarrow> FetchError e
      | Inr q \<Rightarrow> (case doctorFind q of Inl e \<Rightarrow> FetchError e | Inr found \<Rightarrow> Doctors found))"

section \<open>The catch blocks of the two routers\<close>

text \<open>
  Every route of \<^verbatim>\<open>routes/doctor.js\<close> and \<^verbatim>\<open>routes/patient.js\<close>, in the order of the
  files and under the prefix \<^verbatim>\<open>app.js\<close> mounts its router at, with the catch block
  that encloses the body of its handler: what the block passes to \<^verbatim>\<open>console.error\<close>
  (\<^verbatim>\<open>error.message\<close>, the error itself, or a label and the error) and what it answers. \<open>None\<close> stands for a handler whose body is in no \<^verbatim>\<open>try\<close>.
\<close>

datatype catch_log = LogMessage | LogError | LogLabelled string

record catch_block =
  logs :: catch_log
  answer :: response

type_synonym route = "string \<times> string \<times> catch_block option"

definition logged :: "catch_log \<Rightarrow> exn \<Rightarrow> log_entry" where
  "logged l e =
     (case l of
        LogMessage \<Rightarrow> [Str (message e)]
      | LogError \<Rightarrow> [Err e]
      | LogLabelled label \<Rightarrow> [Str label, Err e])"

definition messageThenServerError :: "catch_block option" where
  "messageThenServerError = Some \<lparr>logs = LogMessage, answer = Send 500 ''Server Error''\<rparr>"

definition errorThenServerError :: "catch_block option" where
  "errorThenServerError = Some \<lparr>logs = LogError, answer = Send 500 ''Server Error''\<rparr>"

definition labelThenServerError :: "string \<Rightarrow> catch_block option" where
  "labelThenServerError label =
     Some \<lparr>logs = LogLabelled label, answer = Send 500 ''Server error''\<rparr>"

definition doctorRoutes :: "route list" where
  "doctorRoutes =
     [(''GET'', ''/doctor/doctor-index'', messageThenServerError),
      (''GET'', ''/doctor/profile'', messageThenServerError),
      (''GET'', ''/doctor/edit'', messageThenServerError),
      (''POST'', ''/doctor/profile/update'', messageThenServerError),
      (''POST'', ''/doctor/profile/verify'', messageThenServerError),
      (''GET'', ''/doctor/bookings'', messageThenServerError),
      (''POST'', ''/doctor/bookings/:id'', messageThenServerError),
      (''GET'', ''/doctor/completed-bookings'', messageThenServerError),
      (''GET'', ''/doctor/bookings/:id/prescription'', messageThenServerError),
      (''POST'', ''/doctor/prescriptions/upload'', messageThenServerError),
      (''GET'', ''/doctor/doctor-view/:id/prescriptions'', messageThenServerError),
      (''GET'', ''/doctor/manage-time-slots'', messageThenServerError),
      (''DELETE'', ''/doctor/manage-time-slots/:index'', messageThenServerError),
      (''POST'', ''/doctor/add-time-slot'', messageThenServerError),
      (''GET'', ''/doctor/calendar'', labelThenServerError ''Error fetching calendar data:''),
      (''GET'', ''/doctor/subscribe'', None),
      (''POST'', ''/doctor/subscribe'', messageThenServerError),
      (''GET'', ''/doctor/subscription-success'', messageThenServerError),
      (''GET'', ''/doctor/subscription-failure'', None),
      (''GET'', ''/doctor/blog'', None),
      (''POST'', ''/doctor/blog'',
         Some \<lparr>logs = LogError, answer = SendJson 500 [(''message'', ''Server error'')]\<rparr>),
      (''GET'', ''/doctor/profile/blogs'', messageThenServerError),
      (''GET'', ''/doctor/blogs/edit/:id'', errorThenServerError),
      (''POST'', ''/doctor/blogs/edit/:id'', errorThenServerError),
      (''GET'', ''/doctor/dashboard'', messageThenServerError),
      (''POST'', ''/doctor/chats/:chatId/send-message'', messageThenServerError),
      (''GET'', ''/doctor/chat/:id'', messageThenServerError),
      (''GET'', ''/doctor/blogs/view/:id'', messageThenServerError),
      (''POST'', ''/doctor/blogs/comment/:id'', messageThenServerError),
      (''GET'', ''/doctor/author/:id'', messageThenServerError),
      (''GET'', ''/doctor/priority-blogs'', messageThenServerError),
      (''GET'', ''/doctor/blogs'', messageThenServerError)]"

definition patientRoutes :: "route list" where
  "patientRoutes =
     [(''GET'', ''/patient/profile'', messageThenServerError),
      (''GET'', ''/patient/edit'', messageThenServerError),
      (''POST'', ''/patient/profile/update'', messageThenServerError),
      (''GET'', ''/patient/doctors'', messageThenServerError),
      (''GET'', ''/patient/doctors/:id/slots'', messageThenServerError),
      (''POST'', ''/patient/book'', messageThenServerError),
      (''GET'', ''/patient/bookings'', messageThenServerError),
      (''GET'', ''/patient/search-doctors'', labelThenServerError ''Error searching doctors:''),
      (''POST'', ''/patient/add-to-favorites'', labelThenServerError ''Error adding to favorites:''),
      (''GET'', ''/patient/favorites'', labelThenServerError ''Error fetching favorite doctors:''),
      (''GET'', ''/patient/calendar'', labelThenServerError ''Error fetching calendar data:'')]"

text \<open>
  The three handlers with no \<^verbatim>\<open>try\<close> only render a form or send a fixed text:
  \<^verbatim>\<open>res.render('subscriptionForm')\<close>, \<^verbatim>\<open>res.send('Subscription payment failed. Please
  try again.')\<close> and \<^verbatim>\<open>res.render('blog-upload-form')\<close>.
\<close>

definition staticPages :: "(string \<times> string) list" where
  "staticPages =
     [(''GET'', ''/doctor/subscribe''), (''GET'', ''/doctor/subscription-failure''),
      (''GET'', ''/doctor/blog'')]"

definition runCatch :: "catch_block \<Rightarrow> exn \<Rightarrow> 'd world \<Rightarrow> response \<times> 'd world" where
  "runCatch c e w = (answer c, w\<lparr>console := console w @ [logged (logs c) e]\<rparr>)"

text \<open>
  A handler run on a body: with a catch block the body's exception ends in the block;
  with none it leaves the handler (\<open>Inl\<close>).
\<close>

definition serve ::
  "catch_block option \<Rightarrow> (response, 'd world) act \<Rightarrow> 'd world \<Rightarrow> (exn + response) \<times> 'd world" where
  "serve c body w =
     (case c of
        None \<Rightarrow> body w
      | Some cb \<Rightarrow> (case tryCatch body (runCatch cb) w of (r, w') \<Rightarrow> (Inr r, w')))"

definition genericAnswer :: "response \<Rightarrow> bool" where
  "genericAnswer r =
     (r = Send 500 ''Server Error'' \<or> r = Send 500 ''Server error''
      \<or> r = SendJson 500 [(''message'', ''Server error'')])"

definition mentions :: "exn \<Rightarrow> log_entry \<Rightarrow> bool" where
  "mentions e entry = (Str (message e) \<in> set entry \<or> Err e \<in> set entry)"

section \<open>Two requests at a time\<close>

text \<open>
  A handler runs alone from one \<^verbatim>\<open>await\<close> to the next; while it waits, the handler of
  another request may run. \<^verbatim>\<open>POST /patient/book\<close> awaits three calls:
  \<^verbatim>\<open>booking.save()\<close> (line 154), \<^verbatim>\<open>Doctor.findById(doctorId)\<close> (line 156) and
  \<^verbatim>\<open>doctor.save()\<close> (line 164). A stage says which call the request waits for;
  \<open>AtDoctorSave\<close> carries the document the request holds, with the slot set to
  \<^verbatim>\<open>booked\<close> already (lines 161 to 163).
\<close>

datatype 'd book_stage =
    AtBookingSave
  | AtDoctorLookup
  | AtDoctorSave "'d doctor"
  | Answered response

text \<open>
  One step of a request: the call it waits for is carried out on the database as it is
  then, and the handler runs on to its next \<^verbatim>\<open>await\<close> or to its answer. The calls are
  those of the handler above (\<open>saveBooking\<close>, \<open>findDoctorById\<close>, \<open>saveDoctor\<close>), and
  a call that rejects is answered by the catch block.
\<close>

definition answered :: "response \<times> 'w \<Rightarrow> 'd book_stage \<times> 'w" where
  "answered r = (Answered (fst r), snd r)"

definition bookStep ::
  "('d, 'm, 'n) lib \<Rightarrow> env \<Rightarrow> id \<Rightarrow> book_request \<Rightarrow> 'd book_stage \<Rightarrow> 'd world
     \<Rightarrow> 'd book_stage \<times> 'd world" where
  "bookStep L E patientId req stage w =
     (case stage of
        AtBookingSave \<Rightarrow>
          (case saveBooking E (newId E) (newBooking L patientId req) w of
             (Inl e, w') \<Rightarrow> answered (serverError e w')
           | (Inr _, w') \<Rightarrow> (AtDoctorLookup, w'))
      | AtDoctorLookup \<Rightarrow>
          (case findDoctorById E (req_doctorId req) w of
             (Inl e, w') \<Rightarrow> answered (serverError e w')
           | (Inr None, w') \<Rightarrow> (Answered (Send 404 ''Doctor not found''), w')
           | (Inr (Some d), w') \<Rightarrow>
               (case find_first (slotRequested L req) (timeSlots d) of
                  None \<Rightarrow> (Answered (Redirect ''/patient/bookings''), w')
                | Some slotToUpdate \<Rightarrow>
                    (AtDoctorSave (setSlotStatus d slotToUpdate ''booked''), w')))
      | AtDoctorSave d' \<Rightarrow>
          (case saveDoctor E (req_doctorId req) d' w of
             (Inl e, w') \<Rightarrow> answered (serverError e w')
           | (Inr _, w') \<Rightarrow> (Answered (Redirect ''/patient/bookings''), w'))
      | Answered r \<Rightarrow> (Answered r, w))"

text \<open>
  Two requests, each with its environment (the outcomes of its calls and the id of its
  new booking), the id of its patient and its body. A schedule says whose step comes
  next, \<open>True\<close> for the first request; \<open>interleavings m n\<close> lists the schedules that
  give \<open>m\<close> steps to the first request and \<open>n\<close> to the second, in every order.
\<close>

type_synonym book_call = "env \<times> id \<times> book_request"

fun runSchedule ::
  "('d, 'm, 'n) lib \<Rightarrow> book_call \<Rightarrow> book_call \<Rightarrow> bool list
     \<Rightarrow> 'd book_stage \<times> 'd book_stage \<times> 'd world \<Rightarrow> 'd book_stage \<times> 'd book_stage \<times> 'd world" where
  "runSchedule L c1 c2 [] st = st"
| "runSchedule L (E1, p1, r1) (E2, p2, r2) (first # rest) (s1, s2, w) =
     (if first
      then (case bookStep L E1 p1 r1 s1 w of
              (s1', w') \<Rightarrow> runSchedule L (E1, p1, r1) (E2, p2, r2) rest (s1', s2, w'))
      else (case bookStep L E2 p2 r2 s2 w of
              (s2', w') \<Rightarrow> runSchedule L (E1, p1, r1) (E2, p2, r2) rest (s1, s2', w')))"

fun interleavings :: "nat \<Rightarrow> nat \<Rightarrow> bool list list" where
  "interleavings 0 0 = [[]]"
| "interleavings (Suc m) 0 = map ((#) True) (interleavings m 0)"
| "interleavings 0 (Suc n) = map ((#) False) (interleavings 0 n)"
| "interleavings (Suc m) (Suc n) =
     map ((#) True) (interleavings m (Suc n)) @ map ((#) False) (interleavings (Suc m) n)"

section \<open>A fixture to run the handlers on\<close>

text \<open>
  A stand-in for \<^verbatim>\<open>Date\<close> and \<^verbatim>\<open>moment\<close> on the days of June 2024 in UTC: a date is the
  day of the month at midnight, a moment is a number of minutes since the first of June,
  \<^verbatim>\<open>HH:mm\<close> is read from the first five characters.
\<close>

definition two_digits :: "nat \<Rightarrow> string" where
  "two_digits n = [''0123456789'' ! (n div 10 mod 10), ''0123456789'' ! (n mod 10)]"

definition digit_value :: "char \<Rightarrow> nat" where
  "digit_value c = of_char c - 48"

definition read_two :: "string \<Rightarrow> nat" where
  "read_two s = (case s of a # b # _ \<Rightarrow> digit_value a * 10 + digit_value b | _ \<Rightarrow> 0)"

definition juneLib :: "(nat, nat, nat) lib" where
  "juneLib =
     \<lparr>toISOString = (\<lambda>d. ''2024-06-'' @ two_digits d @ ''T00:00:00.000Z''),
      toDateString = (\<lambda>d. ''Jun '' @ two_digits d @ '' 2024''),
      newDate = (\<lambda>s. read_two (drop 8 s)),
      addMilliseconds = (\<lambda>d n. d + n div 86400000),
      moment_of = (\<lambda>d. (d - 1) * 1440),
      moment_HHmm = (\<lambda>v. case v of None \<Rightarrow> 0 | Some s \<Rightarrow> read_two s * 60 + read_two (drop 3 s)),
      get_hour = (\<lambda>m. m div 60 mod 24),
      get_minute = (\<lambda>m. m mod 60),
      set_hour_minute = (\<lambda>m h mi. m div 1440 * 1440 + h * 60 + mi),
      isAfter = (\<lambda>a b. b < a)\<rparr>"

definition calmEnv :: env where
  "calmEnv =
     \<lparr>findBooking_err = None, findDoctor_err = None, findPatient_err = None,
      bookingSave_err = None, doctorSave_err = None, patientSave_err = None,
      chatUpdate_err = None, sendMail_err = (\<lambda>_. None),
      calendarInsert = Inr (Some ''https://meet.google.com/abc-defg-hij''),
      newId = ''booking2''\<rparr>"

definition sampleSlots :: "nat timeSlot list" where
  "sampleSlots =
     [\<lparr>slot_date = Some 9, startTime = ''10:00'', endTime = ''10:30'', slot_status = ''free''\<rparr>,
      \<lparr>slot_date = Some 10, startTime = ''10:00'', endTime = ''10:30'', slot_status = ''booked''\<rparr>,
      \<lparr>slot_date = Some 10, startTime = ''10:00'', endTime = ''10:30'', slot_status = ''free''\<rparr>]"

definition sampleDoctor :: "nat doctor" where
  "sampleDoctor =
     \<lparr>doctor_name = ''Rao'', doctor_email = ''rao@example.com'', timeSlots = sampleSlots\<rparr>"

definition samplePatient :: patient where
  "samplePatient =
     \<lparr>patient_name = ''Asha'', patient_email = ''asha@example.com'',
      favoriteDoctors = Some [''doctor7'']\<rparr>"

definition sampleHospital :: hospital where
  "sampleHospital =
     \<lparr>hospital_name = ''City Clinic'',
      hospital_location = \<lparr>street = ''1 Main Road'', city = ''Pune'', state = ''MH'',
        country = ''India'', zip = ''411001''\<rparr>\<rparr>"

definition sampleBooking :: "string \<Rightarrow> string \<Rightarrow> nat booking" where
  "sampleBooking st ct =
     \<lparr>booking_patient = ''patient1'', booking_doctor = ''doctor1'', date = 10,
      time = ''10:00 - 10:30'', consultationType = ct, status = st, meetingLink = None,
      booking_hospital = Some sampleHospital\<rparr>"

definition sampleWorld :: "nat booking \<Rightarrow> nat world" where
  "sampleWorld b =
     \<lparr>bookings = [''booking1'' \<mapsto> b],
      doctors = [''doctor1'' \<mapsto> sampleDoctor],
      patients = [''patient1'' \<mapsto> samplePatient],
      chats = Map.empty, outbox = [], calendar = [], console = []\<rparr>"

text \<open>09:00 on the tenth of June, before the sample booking ends, and 11:00, after it.\<close>

definition beforeEnd :: nat where
  "beforeEnd = 9 * 1440 + 9 * 60"

definition afterEnd :: nat where
  "afterEnd = 9 * 1440 + 11 * 60"

definition sampleUser :: user where
  "sampleUser = \<lparr>user_id = ''patient1'', user_email = ''asha@example.com'', role = ''patient''\<rparr>"

definition sampleRequest :: book_request where
  "sampleRequest =
     \<lparr>req_doctorId = ''doctor1'', req_date = ''2024-06-10T00:00:00.000Z'',
      req_time = ''10:00 - 10:30'', req_consultationType = ''Video call''\<rparr>"

text \<open>The same environment, but \<^verbatim>\<open>booking.save()\<close> rejects.\<close>

definition saveFailsEnv :: env where
  "saveFailsEnv = calmEnv\<lparr>bookingSave_err := Some (Error ''write failed'')\<rparr>"

text \<open>A search for a speciality in a city, with no other parameter.\<close>

definition sampleSearch :: search_params where
  "sampleSearch =
     \<lparr>q_what = Some ''cardio'', q_where = Some ''Pune'', q_country = None, q_state = None,
      q_city = None, q_speciality = None, q_languages = None, q_gender = None,
      q_hospitals = None, q_availability = None, q_dateAvailability = None\<rparr>"

text \<open>
  For the runs of the search on the fixture: the constructor \<^verbatim>\<open>RegExp\<close> refuses, among
  others, a pattern with an unmatched parenthesis (\<^verbatim>\<open>new RegExp('(', 'i')\<close> throws a
  \<^verbatim>\<open>SyntaxError\<close>). \<open>balancedPattern\<close> checks the parentheses only; it stands for the
  constructor's check on the patterns of the fixture, and the theorems on the search are
  stated for an arbitrary check. \<open>echoFind\<close> is a database that answers with the query it
  was asked.
\<close>

fun parens_balanced :: "string \<Rightarrow> nat \<Rightarrow> bool" where
  "parens_balanced [] n = (n = 0)"
| "parens_balanced (c # cs) n =
     (if c = CHR ''('' then parens_balanced cs (Suc n)
      else if c = CHR '')'' then (0 < n \<and> parens_balanced cs (n - 1))
      else parens_balanced cs n)"

definition balancedPattern :: "string \<Rightarrow> bool" where
  "balancedPattern s = parens_balanced s 0"

definition echoFind :: "query \<Rightarrow> exn + query" where
  "echoFind q = Inr q"

text \<open>
  The world after the sample booking was rejected: the booking has the status
  \<^verbatim>\<open>rejected\<close> and its slot is free again.
\<close>

definition freedDoctor :: "nat doctor" where
  "freedDoctor = setSlotStatus sampleDoctor 1 ''free''"

definition rejectedWorld :: "nat world" where
  "rejectedWorld =
     (sampleWorld (sampleBooking ''rejected'' ''In-person''))
       \<lparr>doctors := [''doctor1'' \<mapsto> freedDoctor]\<rparr>"

text \<open>
  A second request with its own new booking, a second patient, and an environment in
  which \<^verbatim>\<open>doctor.save()\<close> rejects.
\<close>

definition secondEnv :: env where
  "secondEnv = calmEnv\<lparr>newId := ''booking3''\<rparr>"

definition otherUser :: user where
  "otherUser = \<lparr>user_id = ''patient2'', user_email = ''ben@example.com'', role = ''patient''\<rparr>"

definition doctorSaveFailsEnv :: env where
  "doctorSaveFailsEnv = calmEnv\<lparr>doctorSave_err := Some (Error ''write failed'')\<rparr>"

section \<open>Facts about the actions\<close>

lemma bnd_ret [simp]: "bnd (ret x) f = f x"
  by (rule ext) (simp add: bnd_def ret_def)

lemma bnd_throw [simp]: "bnd (throw e) f = throw e"
  by (rule ext) (simp add: bnd_def throw_def)

lemma keeps_ret [simp]: "keeps g (ret x)"
  by (simp add: keeps_def ret_def)

lemma keeps_throw [simp]: "keeps g (throw e)"
  by (simp add: keeps_def throw_def)

lemma keeps_bnd: "keeps g m \<Longrightarrow> (\<And>x. keeps g (f x)) \<Longrightarrow> keeps g (bnd m f)"
  by (auto simp: keeps_def bnd_def split: prod.splits sum.splits) (metis snd_conv)+

lemma keeps_await: "(\<And>w. g (snd (run w)) = g w) \<Longrightarrow> keeps g (await failure run)"
  by (auto simp: keeps_def await_def split: option.splits prod.splits) (metis snd_conv)

lemma keeps_bookings_console: "keeps bookings (console_error entry)"
  by (simp add: keeps_def console_error_def)

lemma keeps_doctors_console: "keeps doctors (console_error entry)"
  by (simp add: keeps_def console_error_def)

lemma keeps_bookings_mail: "keeps bookings (sendAppointmentEmail E r n s c)"
  by (auto simp: sendAppointmentEmail_def keeps_def bnd_def console_error_def throw_def
      split: option.splits)

lemma keeps_doctors_mail: "keeps doctors (sendAppointmentEmail E r n s c)"
  by (auto simp: sendAppointmentEmail_def keeps_def bnd_def console_error_def throw_def
      split: option.splits)

lemma keeps_bookings_chat: "keeps bookings (pushChat E a b c)"
  by (simp add: pushChat_def keeps_await)

lemma keeps_doctors_chat: "keeps doctors (pushChat E a b c)"
  by (simp add: pushChat_def keeps_await)

lemma keeps_bookings_notify: "keeps bookings (notify L E r b d p)"
  by (auto simp: notify_def notifyVideoCall_def notifyInPerson_def notifyRejected_def Let_def
      keeps_bookings_mail keeps_bookings_chat intro!: keeps_bnd split: option.splits)

lemma keeps_doctors_notify: "keeps doctors (notify L E r b d p)"
  by (auto simp: notify_def notifyVideoCall_def notifyInPerson_def notifyRejected_def Let_def
      keeps_doctors_mail keeps_doctors_chat intro!: keeps_bnd split: option.splits)

lemma keeps_bookings_saveDoctor: "keeps bookings (saveDoctor E i d)"
  by (simp add: saveDoctor_def keeps_await)

lemma keeps_bookings_reconcile: "keeps bookings (reconcileAndNotify L E cur req b doc pat)"
  by (auto simp: reconcileAndNotify_def Let_def keeps_bookings_console
      keeps_bookings_saveDoctor keeps_bookings_notify
      intro!: keeps_bnd split: option.splits sum.splits)

lemma keeps_bookings_meet: "keeps bookings (createGoogleMeetLink L E b doc pat)"
  by (auto simp: createGoogleMeetLink_def Let_def keeps_bookings_console
      intro!: keeps_bnd split: option.splits sum.splits) (simp add: keeps_def)

lemma keeps_bookings_attach: "keeps bookings (attachMeetingLink L E req b doc pat)"
  by (auto simp: attachMeetingLink_def keeps_bookings_meet intro!: keeps_bnd)

lemma keeps_doctors_meet: "keeps doctors (createGoogleMeetLink L E b doc pat)"
  by (auto simp: createGoogleMeetLink_def Let_def keeps_doctors_console
      intro!: keeps_bnd split: option.splits sum.splits) (simp add: keeps_def)

lemma keeps_doctors_attach: "keeps doctors (attachMeetingLink L E req b doc pat)"
  by (auto simp: attachMeetingLink_def keeps_doctors_meet intro!: keeps_bnd)

lemma tryCatch_serverError_bookings:
  "keeps bookings body \<Longrightarrow> bookings (snd (tryCatch body serverError w)) = bookings w"
  by (auto simp: keeps_def tryCatch_def serverError_def split: prod.splits sum.splits)
     (metis snd_conv)+

lemma tryCatch_serverError_doctors:
  "doctors (snd (tryCatch body serverError w)) = doctors (snd (body w))"
  by (auto simp: tryCatch_def serverError_def split: prod.splits sum.splits)

section \<open>Facts about the search and the split\<close>

lemma findIndex_from_Some:
  "findIndex_from p xs k = Inr (Some i) \<Longrightarrow>
     k \<le> i \<and> i - k < length xs \<and> p (xs ! (i - k)) = Inr True
     \<and> (\<forall>j < i - k. p (xs ! j) = Inr False)"
proof (induction xs arbitrary: k)
  case Nil
  then show ?case by simp
next
  case (Cons x xs)
  show ?case
  proof (cases "p x")
    case (Inl e)
    with Cons.prems show ?thesis by simp
  next
    case (Inr t)
    show ?thesis
    proof (cases t)
      case True
      with Inr Cons.prems show ?thesis by simp
    next
      case False
      with Inr Cons.prems have rec: "findIndex_from p xs (Suc k) = Inr (Some i)" by simp
      from Cons.IH[OF rec] have ih: "Suc k \<le> i" "i - Suc k < length xs"
        "p (xs ! (i - Suc k)) = Inr True" "\<forall>j < i - Suc k. p (xs ! j) = Inr False"
        by auto
      from ih(1) have eq: "i - k = Suc (i - Suc k)" by arith
      have "\<forall>j < i - k. p ((x # xs) ! j) = Inr False"
      proof (intro allI impI)
        fix j assume "j < i - k"
        then show "p ((x # xs) ! j) = Inr False"
          using ih(4) Inr False eq by (cases j) auto
      qed
      with ih eq show ?thesis by simp
    qed
  qed
qed

lemma findIndex_Some:
  "findIndex p xs = Inr (Some i) \<Longrightarrow>
     i < length xs \<and> p (xs ! i) = Inr True \<and> (\<forall>j < i. p (xs ! j) = Inr False)"
  using findIndex_from_Some[of p xs 0 i] by (simp add: findIndex_def)

lemma findIndex_from_None:
  "findIndex_from p xs k = Inr None \<Longrightarrow> \<forall>x \<in> set xs. p x = Inr False"
proof (induction xs arbitrary: k)
  case Nil
  then show ?case by simp
next
  case (Cons x xs)
  then show ?case
    by (cases "p x") (auto simp: bool.case_eq_if split: if_splits)
qed

lemma findIndex_None: "findIndex p xs = Inr None \<Longrightarrow> \<forall>x \<in> set xs. p x = Inr False"
  by (simp add: findIndex_def findIndex_from_None)

lemma slotMatches_cong:
  "date b2 = date b \<Longrightarrow> time b2 = time b \<Longrightarrow> slotMatches L b2 = slotMatches L b"
  by (rule ext) (simp add: slotMatches_def split: option.splits)

section \<open>Facts about the booking-status-update handler\<close>

lemma attach_result:
  "attachMeetingLink L E req b doc pat w = (Inr b2, w1) \<Longrightarrow>
     b2 = b \<or> (\<exists>l. b2 = b\<lparr>meetingLink := l\<rparr>)"
  by (auto simp: attachMeetingLink_def bnd_def ret_def split: if_splits prod.splits sum.splits)

lemma attach_fields:
  assumes "attachMeetingLink L E req b doc pat w = (Inr b2, w1)"
  shows "date b2 = date b" "time b2 = time b" "status b2 = status b"
    "booking_doctor b2 = booking_doctor b" "booking_patient b2 = booking_patient b"
    "consultationType b2 = consultationType b" "booking_hospital b2 = booking_hospital b"
  using attach_result[OF assms] by auto

lemma assign_fields:
  "date (assignStatus L now req b) = date b" "time (assignStatus L now req b) = time b"
  "booking_doctor (assignStatus L now req b) = booking_doctor b"
  "booking_patient (assignStatus L now req b) = booking_patient b"
  "consultationType (assignStatus L now req b) = consultationType b"
  "meetingLink (assignStatus L now req b) = meetingLink b"
  "booking_hospital (assignStatus L now req b) = booking_hospital b"
  by (simp_all add: assignStatus_def)

lemma updateBooking_found:
  assumes "findBooking_err E = None" "bookings w bookingId = Some b"
  shows "updateBooking L E now bookingId requested w =
     tryCatch (bnd (attachMeetingLink L E requested (assignStatus L now requested b)
                      (doctors w (booking_doctor b)) (patients w (booking_patient b)))
                (\<lambda>booking2. bnd (saveBooking E bookingId booking2)
                (\<lambda>_. reconcileAndNotify L E (status b) requested booking2
                        (doctors w (booking_doctor b)) (patients w (booking_patient b)))))
       serverError w"
  using assms
  by (simp add: updateBooking_def updateBookingBody_def findBookingPopulated_def await_def
      bnd_def tryCatch_def Let_def)

lemma updateBooking_saved:
  assumes "findBooking_err E = None" "bookings w bookingId = Some b"
    and "attachMeetingLink L E requested (assignStatus L now requested b)
           (doctors w (booking_doctor b)) (patients w (booking_patient b)) w = (Inr b2, w1)"
    and "bookingSave_err E = None"
  shows "updateBooking L E now bookingId requested w =
     tryCatch (reconcileAndNotify L E (status b) requested b2
                 (doctors w (booking_doctor b)) (patients w (booking_patient b)))
       serverError (w1\<lparr>bookings := (bookings w1)(bookingId \<mapsto> b2)\<rparr>)"
  using assms(3,4)
  by (simp add: updateBooking_found[OF assms(1,2)] bnd_def tryCatch_def saveBooking_def await_def)

lemma reconcile_found_doctors:
  assumes "findIndex (slotMatches L b) (timeSlots d) = Inr (Some i)"
    and "doctorSave_err E = None"
  shows "doctors (snd (reconcileAndNotify L E cur req b (Some d) pat w))
     = (doctors w)(booking_doctor b \<mapsto> setSlotStatus d i (reconcileSlotStatus cur req))"
proof -
  let ?d' = "setSlotStatus d i (reconcileSlotStatus cur req)"
  let ?w' = "w\<lparr>doctors := (doctors w)(booking_doctor b \<mapsto> ?d')\<rparr>"
  have "reconcileAndNotify L E cur req b (Some d) pat w
      = bnd (notify L E req b ?d' pat) (\<lambda>_. ret (Redirect ''/doctor/bookings'')) ?w'"
    using assms by (simp add: reconcileAndNotify_def Let_def bnd_def saveDoctor_def await_def)
  moreover have "keeps doctors
      (bnd (notify L E req b ?d' pat) (\<lambda>_. ret (Redirect ''/doctor/bookings'')))"
    by (intro keeps_bnd keeps_doctors_notify keeps_ret)
  ultimately show ?thesis by (simp add: keeps_def)
qed

lemma saved_status:
  assumes "findBooking_err E = None" "bookings w bookingId = Some b"
    and "attachMeetingLink L E requested (assignStatus L now requested b)
           (doctors w (booking_doctor b)) (patients w (booking_patient b)) w = (Inr b2, w1)"
    and "bookingSave_err E = None"
  shows "map_option status (bookings (snd (updateBooking L E now bookingId requested w)) bookingId)
     = Some (status (assignStatus L now requested b))"
proof -
  have "status b2 = status (assignStatus L now requested b)"
    using attach_result[OF assms(3)] by auto
  then show ?thesis
    by (simp add: updateBooking_saved[OF assms] tryCatch_serverError_bookings
        keeps_bookings_reconcile)
qed

lemma saved_slot:
  assumes "findBooking_err E = None" "bookings w bookingId = Some b"
    and "attachMeetingLink L E requested (assignStatus L now requested b)
           (doctors w (booking_doctor b)) (patients w (booking_patient b)) w = (Inr b2, w1)"
    and "bookingSave_err E = None"
    and "doctors w (booking_doctor b) = Some d"
    and "findIndex (slotMatches L b) (timeSlots d) = Inr (Some i)"
    and "doctorSave_err E = None"
  shows "doctors (snd (updateBooking L E now bookingId requested w))
     = (doctors w1)(booking_doctor b \<mapsto>
         setSlotStatus d i (reconcileSlotStatus (status b) requested))"
proof -
  have sm: "slotMatches L b2 = slotMatches L b"
    using attach_fields[OF assms(3)] by (intro slotMatches_cong) (simp_all add: assign_fields)
  have bd: "booking_doctor b2 = booking_doctor b"
    using attach_fields[OF assms(3)] by (simp add: assign_fields)
  have found: "findIndex (slotMatches L b2) (timeSlots d) = Inr (Some i)"
    using assms(6) sm by simp
  let ?w2 = "w1\<lparr>bookings := (bookings w1)(bookingId \<mapsto> b2)\<rparr>"
  have "doctors (snd (updateBooking L E now bookingId requested w))
      = doctors (snd (reconcileAndNotify L E (status b) requested b2 (Some d)
                       (patients w (booking_patient b)) ?w2))"
    by (simp only: updateBooking_saved[OF assms(1-4)] tryCatch_serverError_doctors assms(5))
  also have "\<dots> = (doctors ?w2)(booking_doctor b2 \<mapsto>
       setSlotStatus d i (reconcileSlotStatus (status b) requested))"
    by (rule reconcile_found_doctors[OF found assms(7)])
  finally show ?thesis
    by (simp add: bd)
qed

section \<open>Facts about the fixture\<close>

lemma sample_end: "bookingEndDateTime juneLib (sampleBooking st ct) = 13590"
  by (simp add: bookingEndDateTime_def juneLib_def sampleBooking_def split_dash_def at_index_def
      read_two_def digit_value_def)

lemma sample_after: "isAfter juneLib afterEnd (bookingEndDateTime juneLib (sampleBooking st ct))"
  by (simp add: sample_end afterEnd_def) (simp add: juneLib_def)

lemma sample_before:
  "\<not> isAfter juneLib beforeEnd (bookingEndDateTime juneLib (sampleBooking st ct))"
  by (simp add: sample_end beforeEnd_def) (simp add: juneLib_def)

lemma sample_found: "bookings (sampleWorld b) ''booking1'' = Some b"
  by (simp add: sampleWorld_def)

lemma calm [simp]:
  "findBooking_err calmEnv = None" "findDoctor_err calmEnv = None"
  "findPatient_err calmEnv = None" "bookingSave_err calmEnv = None"
  "doctorSave_err calmEnv = None" "patientSave_err calmEnv = None"
  "chatUpdate_err calmEnv = None" "sendMail_err calmEnv r = None"
  "calendarInsert calmEnv = Inr (Some ''https://meet.google.com/abc-defg-hij'')"
  "newId calmEnv = ''booking2''"
  by (simp_all add: calmEnv_def)

lemma attach_not_needed:
  "\<not> needsMeetingLink requested b \<Longrightarrow> attachMeetingLink L E requested b doc pat w = (Inr b, w)"
  by (simp add: attachMeetingLink_def ret_def)

section \<open>The split of a time of the form start, separator, end\<close>

lemma split_dash_acc_plain:
  "CHR ''-'' \<notin> set s \<Longrightarrow> split_dash_acc acc s = [rev acc @ s]"
proof (induction s arbitrary: acc)
  case Nil
  then show ?case by simp
next
  case (Cons c cs)
  have "take 3 (c # cs) \<noteq> '' - ''"
  proof
    assume "take 3 (c # cs) = '' - ''"
    then have "CHR ''-'' \<in> set (take 3 (c # cs))" by simp
    then have "CHR ''-'' \<in> set (c # cs)" by (rule in_set_takeD)
    with Cons.prems show False by simp
  qed
  with Cons show ?case by simp
qed

lemma split_dash_acc_pair:
  "CHR ''-'' \<notin> set s \<Longrightarrow>
     split_dash_acc acc (s @ '' - '' @ e) = (rev acc @ s) # split_dash_acc [] e"
proof (induction s arbitrary: acc)
  case Nil
  then show ?case by simp
next
  case (Cons c cs)
  have "take 3 ((c # cs) @ '' - '' @ e) \<noteq> '' - ''"
  proof
    assume t: "take 3 ((c # cs) @ '' - '' @ e) = '' - ''"
    show False
    proof (cases cs)
      case Nil
      with t show False by simp
    next
      case (Cons x xs)
      with t have "x = CHR ''-''" by simp
      with Cons Cons.prems show False by simp
    qed
  qed
  with Cons show ?case by simp
qed

lemma split_dash_start_end:
  "CHR ''-'' \<notin> set s \<Longrightarrow> CHR ''-'' \<notin> set e \<Longrightarrow> split_dash (s @ '' - '' @ e) = [s, e]"
  using split_dash_acc_pair[of s "[]" e] split_dash_acc_plain[of e "[]"]
  by (simp add: split_dash_def)

lemma split_dash_acc_nonempty: "split_dash_acc acc s \<noteq> []"
  by (induction acc s rule: split_dash_acc.induct) auto

lemma at_index_split_dash_0: "at_index (split_dash s) 0 = Some (hd (split_dash s))"
  using split_dash_acc_nonempty[of "[]" s]
  by (cases "split_dash s") (auto simp: at_index_def split_dash_def)

section \<open>The search finds the first match and only that\<close>

lemma findIndex_from_first:
  "i < length xs \<Longrightarrow> p (xs ! i) = Inr True \<Longrightarrow> (\<forall>j < i. p (xs ! j) = Inr False) \<Longrightarrow>
     findIndex_from p xs k = Inr (Some (k + i))"
proof (induction xs arbitrary: i k)
  case Nil
  then show ?case by simp
next
  case (Cons x xs)
  show ?case
  proof (cases i)
    case 0
    with Cons.prems show ?thesis by simp
  next
    case (Suc i')
    from Cons.prems(3) Suc have x: "p x = Inr False" by auto
    have "\<forall>j < i'. p (xs ! j) = Inr False"
      using Cons.prems(3) Suc by auto
    with Cons.IH[of i' "Suc k"] Cons.prems Suc
    have "findIndex_from p xs (Suc k) = Inr (Some (Suc k + i'))" by simp
    with x Suc show ?thesis by simp
  qed
qed

lemma findIndex_iff:
  "findIndex p xs = Inr (Some i) \<longleftrightarrow>
     i < length xs \<and> p (xs ! i) = Inr True \<and> (\<forall>j < i. p (xs ! j) = Inr False)"
  using findIndex_Some[of p xs i] findIndex_from_first[of i xs p 0]
  by (auto simp: findIndex_def)

section \<open>The sample doctor and the sample booking\<close>

lemma sample_index:
  "findIndex (slotMatches juneLib (sampleBooking st ct)) (timeSlots sampleDoctor) = Inr (Some 1)"
  by (simp add: findIndex_def slotMatches_def juneLib_def sampleBooking_def sampleDoctor_def
      sampleSlots_def two_digits_def split_dash_def at_index_def)

lemma sample_doctor: "doctors (sampleWorld b) ''doctor1'' = Some sampleDoctor"
  by (simp add: sampleWorld_def)

lemma sample_fields:
  "booking_doctor (sampleBooking st ct) = ''doctor1''"
  "booking_patient (sampleBooking st ct) = ''patient1''"
  "status (sampleBooking st ct) = st" "consultationType (sampleBooking st ct) = ct"
  "meetingLink (sampleBooking st ct) = None"
  by (simp_all add: sampleBooking_def)

lemma sample_saved_status:
  assumes "\<not> needsMeetingLink requested (assignStatus juneLib now requested (sampleBooking st ct))"
  shows "map_option status
     (bookings (snd (updateBooking juneLib calmEnv now ''booking1'' requested
        (sampleWorld (sampleBooking st ct)))) ''booking1'')
     = Some (status (assignStatus juneLib now requested (sampleBooking st ct)))"
  by (rule saved_status[OF calm(1) sample_found attach_not_needed[OF assms] calm(4)])

section \<open>What the booking-status-update handler does to the doctors\<close>

lemma reconcile_doctors_cases:
  "doctors (snd (reconcileAndNotify L E cur req b (Some d) pat w)) = doctors w
   \<or> (\<exists>i. findIndex (slotMatches L b) (timeSlots d) = Inr (Some i)
        \<and> doctors (snd (reconcileAndNotify L E cur req b (Some d) pat w))
          = (doctors w)(booking_doctor b \<mapsto> setSlotStatus d i (reconcileSlotStatus cur req)))"
proof (cases "findIndex (slotMatches L b) (timeSlots d)")
  case (Inl e)
  then show ?thesis by (simp add: reconcileAndNotify_def throw_def)
next
  case (Inr r)
  show ?thesis
  proof (cases r)
    case None
    with Inr show ?thesis
      by (simp add: reconcileAndNotify_def bnd_def console_error_def ret_def)
  next
    case (Some i)
    show ?thesis
    proof (cases "doctorSave_err E")
      case None
      from reconcile_found_doctors[OF _ None, of L b d i cur req pat w] Inr Some
      show ?thesis by simp
    next
      case (Some e)
      with Inr \<open>r = Some i\<close> show ?thesis
        by (simp add: reconcileAndNotify_def Let_def bnd_def saveDoctor_def await_def)
    qed
  qed
qed

lemma updateBooking_doctors_cases:
  assumes "findBooking_err E = None" "bookings w bookingId = Some b"
    and "doctors w (booking_doctor b) = Some d"
  shows "doctors (snd (updateBooking L E now bookingId requested w)) = doctors w
   \<or> (\<exists>i. findIndex (slotMatches L b) (timeSlots d) = Inr (Some i)
        \<and> doctors (snd (updateBooking L E now bookingId requested w))
          = (doctors w)(booking_doctor b \<mapsto>
              setSlotStatus d i (reconcileSlotStatus (status b) requested)))"
proof -
  let ?attach = "attachMeetingLink L E requested (assignStatus L now requested b)
      (doctors w (booking_doctor b)) (patients w (booking_patient b))"
  obtain r w1 where a: "?attach w = (r, w1)" by (cases "?attach w")
  have k: "doctors w1 = doctors w"
    using keeps_doctors_attach[of L E requested "assignStatus L now requested b"
        "doctors w (booking_doctor b)" "patients w (booking_patient b)"] a
    by (auto simp: keeps_def dest: spec[of _ w])
  show ?thesis
  proof (cases r)
    case (Inl e)
    with a k show ?thesis
      by (simp add: updateBooking_found[OF assms(1,2)] tryCatch_serverError_doctors bnd_def)
  next
    case (Inr b2)
    show ?thesis
    proof (cases "bookingSave_err E")
      case (Some e)
      with a k Inr show ?thesis
        by (simp add: updateBooking_found[OF assms(1,2)] tryCatch_serverError_doctors bnd_def
            saveBooking_def await_def)
    next
      case None
      from a Inr have a': "?attach w = (Inr b2, w1)" by simp
      have sm: "slotMatches L b2 = slotMatches L b"
        using attach_fields[OF a'] by (intro slotMatches_cong) (simp_all add: assign_fields)
      have bd: "booking_doctor b2 = booking_doctor b"
        using attach_fields[OF a'] by (simp add: assign_fields)
      let ?w2 = "w1\<lparr>bookings := (bookings w1)(bookingId \<mapsto> b2)\<rparr>"
      have eq: "doctors (snd (updateBooking L E now bookingId requested w))
          = doctors (snd (reconcileAndNotify L E (status b) requested b2 (Some d)
                           (patients w (booking_patient b)) ?w2))"
        by (simp only: updateBooking_saved[OF assms(1,2) a' None] tryCatch_serverError_doctors
            assms(3))
      from reconcile_doctors_cases[of L E "status b" requested b2 d
          "patients w (booking_patient b)" ?w2]
      show ?thesis
        unfolding eq sm bd using k by simp
    qed
  qed
qed

lemma slotMatches_True:
  "slotMatches L b slot = Inr True \<longleftrightarrow>
     (\<exists>dt. slot_date slot = Some dt \<and> toISOString L dt = toISOString L (date b)
        \<and> startTime slot = hd (split_dash (time b)))"
  by (auto simp: slotMatches_def at_index_split_dash_0 split: option.splits)

section \<open>What the booking-status-update handler sends\<close>

lemma bnd_Inr:
  "bnd m f w = (Inr y, w') \<Longrightarrow> \<exists>x w1. m w = (Inr x, w1) \<and> f x w1 = (Inr y, w')"
  by (auto simp: bnd_def split: prod.splits sum.splits)

lemma mail_effect:
  "sendAppointmentEmail E r n s c w = (Inr u, w') \<Longrightarrow>
     outbox w' = outbox w @ [\<lparr>mail_to = r, mail_subject = s, mail_html = c\<rparr>]
     \<and> chats w' = chats w \<and> calendar w' = calendar w"
  by (auto simp: sendAppointmentEmail_def bnd_def console_error_def throw_def
      split: option.splits)

lemma chat_effect:
  "pushChat E d p t w = (Inr u, w') \<Longrightarrow>
     outbox w' = outbox w \<and> calendar w' = calendar w \<and> chats w' \<noteq> chats w"
proof -
  assume a: "pushChat E d p t w = (Inr u, w')"
  then have w': "w' = w\<lparr>chats := (chats w)((d, p) \<mapsto>
      (case chats w (d, p) of None \<Rightarrow> [] | Some ms \<Rightarrow> ms) @ [\<lparr>senderId = d, msg_text = t\<rparr>])\<rparr>"
    by (auto simp: pushChat_def await_def split: option.splits)
  have "chats w' (d, p) \<noteq> chats w (d, p)"
    unfolding w' by (cases "chats w (d, p)") auto
  then have "chats w' \<noteq> chats w" by metis
  with w' show ?thesis by simp
qed

lemma notify_effect:
  assumes "notify L E req b d pat w = (Inr u, w')"
  shows "calendar w' = calendar w
     \<and> (\<exists>ms. outbox w' = outbox w @ ms \<and> map mail_subject ms = noticeSubjects req b)
     \<and> (chats w' \<noteq> chats w \<longleftrightarrow> notifies req b)"
proof -
  consider (video) "req = ''accepted''" "consultationType b = ''Video call''"
    | (person) "req = ''accepted''" "consultationType b \<noteq> ''Video call''"
        "consultationType b = ''In-person''"
    | (other) "req = ''accepted''" "consultationType b \<noteq> ''Video call''"
        "consultationType b \<noteq> ''In-person''"
    | (rejected) "req = ''rejected''"
    | (none) "req \<noteq> ''accepted''" "req \<noteq> ''rejected''"
    by blast
  then show ?thesis
  proof cases
    case video
    with assms obtain p where p: "pat = Some p"
      by (cases pat) (auto simp: notify_def notifyVideoCall_def throw_def)
    from assms video p obtain w1 w2 u1 u2 c1 c2 t where
      m1: "sendAppointmentEmail E (patient_email p) (patient_name p)
             ''Appointment Confirmation'' c1 w = (Inr u1, w1)" and
      m2: "sendAppointmentEmail E (doctor_email d) (doctor_name d)
             ''Appointment Confirmation Notification'' c2 w1 = (Inr u2, w2)" and
      ch: "pushChat E (booking_doctor b) (booking_patient b) t w2 = (Inr u, w')"
      by (auto simp: notify_def notifyVideoCall_def Let_def dest!: bnd_Inr)
    from mail_effect[OF m1] mail_effect[OF m2] chat_effect[OF ch] video
    show ?thesis by (simp add: noticeSubjects_def notifies_def)
  next
    case person
    with assms obtain p where p: "pat = Some p"
      by (cases pat) (auto simp: notify_def notifyInPerson_def throw_def)
    with assms person obtain h where h: "booking_hospital b = Some h"
      by (cases "booking_hospital b") (auto simp: notify_def notifyInPerson_def throw_def)
    from assms person p h obtain w1 u1 c1 t where
      m1: "sendAppointmentEmail E (patient_email p) (patient_name p)
             ''Appointment Confirmation'' c1 w = (Inr u1, w1)" and
      ch: "pushChat E (booking_doctor b) (booking_patient b) t w1 = (Inr u, w')"
      by (auto simp: notify_def notifyInPerson_def Let_def dest!: bnd_Inr)
    from mail_effect[OF m1] chat_effect[OF ch] person
    show ?thesis by (simp add: noticeSubjects_def notifies_def)
  next
    case other
    with assms show ?thesis
      by (simp add: notify_def ret_def noticeSubjects_def notifies_def)
  next
    case rejected
    with assms obtain p where p: "pat = Some p"
      by (cases pat) (auto simp: notify_def notifyRejected_def throw_def)
    from assms rejected p obtain w1 u1 c1 t where
      m1: "sendAppointmentEmail E (patient_email p) (patient_name p)
             ''Appointment Rejection'' c1 w = (Inr u1, w1)" and
      ch: "pushChat E (booking_doctor b) (booking_patient b) t w1 = (Inr u, w')"
      by (auto simp: notify_def notifyRejected_def Let_def dest!: bnd_Inr)
    from mail_effect[OF m1] chat_effect[OF ch] rejected
    show ?thesis by (simp add: noticeSubjects_def notifies_def)
  next
    case none
    with assms show ?thesis
      by (simp add: notify_def ret_def noticeSubjects_def notifies_def)
  qed
qed


lemma reconcile_effect:
  assumes "reconcileAndNotify L E cur req b (Some d) pat w = (Inr r, w')"
  shows "calendar w' = calendar w
     \<and> (\<exists>ms. outbox w' = outbox w @ ms
           \<and> map mail_subject ms = (if slotFound L b d then noticeSubjects req b else []))
     \<and> (chats w' \<noteq> chats w \<longleftrightarrow> slotFound L b d \<and> notifies req b)"
proof (cases "findIndex (slotMatches L b) (timeSlots d)")
  case (Inl e)
  with assms show ?thesis by (simp add: reconcileAndNotify_def throw_def)
next
  case (Inr found)
  show ?thesis
  proof (cases found)
    case None
    with Inr assms show ?thesis
      by (auto simp: reconcileAndNotify_def bnd_def console_error_def ret_def slotFound_def)
  next
    case (Some i)
    let ?d' = "setSlotStatus d i (reconcileSlotStatus cur req)"
    from assms Inr Some obtain u w1 u' w2 where
      s: "saveDoctor E (booking_doctor b) ?d' w = (Inr u, w1)" and
      n: "notify L E req b ?d' pat w1 = (Inr u', w2)" and
      r: "ret (Redirect ''/doctor/bookings'') w2 = (Inr r, w')"
      by (auto simp: reconcileAndNotify_def Let_def dest!: bnd_Inr)
    from s have w1: "outbox w1 = outbox w" "chats w1 = chats w" "calendar w1 = calendar w"
      by (auto simp: saveDoctor_def await_def split: option.splits)
    from r have "w' = w2" by (simp add: ret_def)
    with notify_effect[OF n] w1 Inr Some show ?thesis
      by (simp add: slotFound_def)
  qed
qed

lemma meet_effect:
  assumes "createGoogleMeetLink L E b doc pat w = (Inr l, w')"
  shows "outbox w' = outbox w \<and> chats w' = chats w \<and> calendar w' \<noteq> calendar w"
proof -
  from assms obtain d p where d: "doc = Some d" and p: "pat = Some p"
    by (cases doc; cases pat) (auto simp: createGoogleMeetLink_def throw_def)
  from assms d p obtain link where "calendarInsert E = Inr link"
    by (cases "calendarInsert E")
       (auto simp: createGoogleMeetLink_def Let_def bnd_def console_error_def throw_def)
  with assms d p show ?thesis
    by (auto simp: createGoogleMeetLink_def Let_def)
qed

lemma attach_effect:
  assumes "attachMeetingLink L E req b doc pat w = (Inr b2, w1)"
  shows "outbox w1 = outbox w \<and> chats w1 = chats w
     \<and> (calendar w1 \<noteq> calendar w \<longleftrightarrow> needsMeetingLink req b)"
proof (cases "needsMeetingLink req b")
  case True
  with assms obtain l w0 where "createGoogleMeetLink L E b doc pat w = (Inr l, w0)"
    and "ret (b\<lparr>meetingLink := l\<rparr>) w0 = (Inr b2, w1)"
    by (auto simp: attachMeetingLink_def dest!: bnd_Inr)
  with meet_effect[of L E b doc pat w l w0] True show ?thesis
    by (simp add: ret_def)
next
  case False
  with assms show ?thesis by (simp add: attachMeetingLink_def ret_def)
qed

lemma tryCatch_Redirect:
  "tryCatch body serverError w = (Redirect u, w') \<Longrightarrow> body w = (Inr (Redirect u), w')"
  by (auto simp: tryCatch_def serverError_def split: prod.splits sum.splits)

lemma needsMeetingLink_assign:
  "needsMeetingLink req (assignStatus L now req b) = needsMeetingLink req b"
  by (simp add: needsMeetingLink_def assign_fields)

lemma notifies_cong:
  "consultationType b2 = consultationType b \<Longrightarrow> notifies req b2 = notifies req b"
  "consultationType b2 = consultationType b \<Longrightarrow> noticeSubjects req b2 = noticeSubjects req b"
  by (simp_all add: notifies_def noticeSubjects_def)

lemma slotFound_cong:
  "date b2 = date b \<Longrightarrow> time b2 = time b \<Longrightarrow> slotFound L b2 d = slotFound L b d"
  using slotMatches_cong[of b2 b L] by (simp add: slotFound_def)

lemma updateBooking_effects:
  assumes "findBooking_err E = None" "bookings w bookingId = Some b"
    and "doctors w (booking_doctor b) = Some d"
    and "updateBooking L E now bookingId requested w = (Redirect u, w')"
  shows "(\<exists>ms. outbox w' = outbox w @ ms
           \<and> map mail_subject ms = (if slotFound L b d then noticeSubjects requested b else []))
     \<and> (chats w' \<noteq> chats w \<longleftrightarrow> slotFound L b d \<and> notifies requested b)
     \<and> (calendar w' \<noteq> calendar w \<longleftrightarrow> needsMeetingLink requested b)"
proof -
  let ?b1 = "assignStatus L now requested b"
  from assms(4) have "bnd (attachMeetingLink L E requested ?b1
                      (doctors w (booking_doctor b)) (patients w (booking_patient b)))
                (\<lambda>booking2. bnd (saveBooking E bookingId booking2)
                (\<lambda>_. reconcileAndNotify L E (status b) requested booking2
                        (doctors w (booking_doctor b)) (patients w (booking_patient b)))) w
      = (Inr (Redirect u), w')"
    unfolding updateBooking_found[OF assms(1,2)] by (rule tryCatch_Redirect)
  then obtain b2 w1 x w2 where
    a: "attachMeetingLink L E requested ?b1 (doctors w (booking_doctor b))
          (patients w (booking_patient b)) w = (Inr b2, w1)" and
    s: "saveBooking E bookingId b2 w1 = (Inr x, w2)" and
    r: "reconcileAndNotify L E (status b) requested b2 (Some d)
          (patients w (booking_patient b)) w2 = (Inr (Redirect u), w')"
    unfolding assms(3) by (auto dest!: bnd_Inr)
  from s have w2: "outbox w2 = outbox w1" "chats w2 = chats w1" "calendar w2 = calendar w1"
    by (auto simp: saveBooking_def await_def split: option.splits)
  have f: "slotFound L b2 d = slotFound L b d"
    using attach_fields[OF a] by (intro slotFound_cong) (simp_all add: assign_fields)
  have c: "consultationType b2 = consultationType b"
    using attach_fields[OF a] by (simp add: assign_fields)
  from attach_effect[OF a] reconcile_effect[OF r] w2
  show ?thesis
    by (simp add: f notifies_cong[OF c] needsMeetingLink_assign cong: if_cong)
qed

section \<open>Runs on the fixture\<close>

lemmas run_defs = updateBooking_def updateBookingBody_def findBookingPopulated_def
  attachMeetingLink_def needsMeetingLink_def createGoogleMeetLink_def saveBooking_def
  reconcileAndNotify_def saveDoctor_def notify_def notifyVideoCall_def notifyInPerson_def
  notifyRejected_def sendAppointmentEmail_def pushChat_def tryCatch_def serverError_def
  await_def bnd_def ret_def throw_def console_error_def assignStatus_def truthy_def

lemma sample_index_any:
  "date b = 10 \<Longrightarrow> time b = ''10:00 - 10:30'' \<Longrightarrow>
     findIndex (slotMatches juneLib b) (timeSlots sampleDoctor) = Inr (Some 1)"
  by (simp add: findIndex_def slotMatches_def juneLib_def sampleDoctor_def
      sampleSlots_def two_digits_def split_dash_def at_index_def)

lemma sample_date_time [simp]:
  "date (sampleBooking st ct) = 10" "time (sampleBooking st ct) = ''10:00 - 10:30''"
  "booking_hospital (sampleBooking st ct) = Some sampleHospital"
  by (simp_all add: sampleBooking_def)

lemma run_audio:
  "fst (updateBooking juneLib calmEnv beforeEnd ''booking1'' ''accepted''
       (sampleWorld (sampleBooking ''waiting'' ''Audio call''))) = Redirect ''/doctor/bookings''"
  by (simp add: run_defs sample_index_any sample_fields sample_before
      Let_def sampleWorld_def)


lemma run_video:
  "fst (updateBooking juneLib calmEnv beforeEnd ''booking1'' ''accepted''
       (sampleWorld (sampleBooking ''waiting'' ''Video call''))) = Redirect ''/doctor/bookings''"
  by (simp add: run_defs sample_index_any sample_fields sample_before
      Let_def sampleWorld_def)

section \<open>Facts about the catch blocks\<close>

lemma serve_caught:
  "body w = (Inl e, w1) \<Longrightarrow>
     serve (Some cb) body w = (Inr (answer cb), w1\<lparr>console := console w1 @ [logged (logs cb) e]\<rparr>)"
  by (simp add: serve_def tryCatch_def runCatch_def)

lemma serve_returned:
  "body w = (Inr r, w1) \<Longrightarrow> serve (Some cb) body w = (Inr r, w1)"
  by (simp add: serve_def tryCatch_def)

lemma serve_never_escapes: "\<exists>r w'. serve (Some cb) body w = (Inr r, w')"
  by (auto simp: serve_def split: prod.splits)

lemma logged_mentions: "mentions e (logged l e)"
  by (cases l) (simp_all add: logged_def mentions_def)

lemma doctor_routes_guarded:
  "\<forall>(verb, path, c) \<in> set doctorRoutes.
      (verb, path) \<notin> set staticPages \<longrightarrow> (\<exists>cb. c = Some cb \<and> genericAnswer (answer cb))"
  by (simp add: doctorRoutes_def staticPages_def genericAnswer_def messageThenServerError_def
      errorThenServerError_def labelThenServerError_def)

lemma patient_routes_guarded:
  "\<forall>(verb, path, c) \<in> set patientRoutes.
      (verb, path) \<notin> set staticPages \<longrightarrow> (\<exists>cb. c = Some cb \<and> genericAnswer (answer cb))"
  by (simp add: patientRoutes_def staticPages_def genericAnswer_def messageThenServerError_def
      errorThenServerError_def labelThenServerError_def)

lemma static_pages_unguarded:
  "\<forall>(verb, path) \<in> set staticPages. (verb, path, None) \<in> set doctorRoutes"
  by (simp add: doctorRoutes_def staticPages_def)

lemma serverError_runCatch:
  "serverError = runCatch \<lparr>logs = LogMessage, answer = Send 500 ''Server Error''\<rparr>"
  by (intro ext) (simp add: serverError_def runCatch_def logged_def)

lemma favoritesError_runCatch:
  "favoritesError
     = runCatch \<lparr>logs = LogLabelled ''Error adding to favorites:'', answer = Send 500 ''Server error''\<rparr>"
  by (intro ext) (simp add: favoritesError_def runCatch_def logged_def)

lemma serve_updateBooking:
  "serve messageThenServerError (updateBookingBody L E now bookingId requested) w
     = (Inr (fst (updateBooking L E now bookingId requested w)),
        snd (updateBooking L E now bookingId requested w))"
  by (simp add: serve_def messageThenServerError_def updateBooking_def serverError_runCatch
      split: prod.splits)

lemma serve_addToFavorites:
  "patientLoggedIn (Some u) \<Longrightarrow>
   serve (labelThenServerError ''Error adding to favorites:'')
       (addToFavoritesBody E (user_id u) doctorId) w
     = (Inr (fst (addToFavorites E (Some u) doctorId w)),
        snd (addToFavorites E (Some u) doctorId w))"
  by (simp add: serve_def labelThenServerError_def addToFavorites_def favoritesError_runCatch
      split: prod.splits)

lemma serve_book:
  "patientLoggedIn (Some u) \<Longrightarrow>
   serve messageThenServerError (bookBody L E (user_id u) req) w
     = (Inr (fst (book L E (Some u) req w)), snd (book L E (Some u) req w))"
  by (simp add: serve_def messageThenServerError_def book_def serverError_runCatch
      split: prod.splits)

lemma save_fails_run:
  "updateBookingBody juneLib saveFailsEnv beforeEnd ''booking1'' ''rejected''
     (sampleWorld (sampleBooking ''waiting'' ''Video call''))
   = (Inl (Error ''write failed''), sampleWorld (sampleBooking ''waiting'' ''Video call''))"
  by (simp add: saveFailsEnv_def run_defs sample_fields sample_before Let_def sampleWorld_def
      calmEnv_def)

section \<open>Facts about the search query\<close>

lemma assign_assign: "assign k v2 (assign k v1 q) = assign k v2 q"
  by (induction q) auto

lemma assign_fresh: "k \<notin> fst ` set q \<Longrightarrow> assign k v q = q @ [(k, v)]"
  by (induction q) auto

lemma map_of_assign: "map_of (assign k v q) k = Some v"
  by (induction q) auto

lemma andThen_simps [simp]: "andThen (Inl e) f = Inl e" "andThen (Inr x) f = f x"
  by (simp_all add: andThen_def)

lemma andThen_assoc: "andThen (andThen r f) g = andThen r (\<lambda>x. andThen (f x) g)"
  by (cases r) simp_all

lemma whenGivenPattern_None [simp]: "whenGivenPattern validPattern None k f q = Inr q"
  by (simp add: whenGivenPattern_def)

lemma where_overwrites:
  assumes "s \<noteq> []" and "case v of None \<Rightarrow> True | Some t \<Rightarrow> t = [] \<or> validPattern t"
  shows "andThen (whenGivenPattern validPattern v ''$or'' whatClauses q)
           (\<lambda>q9. whenGivenPattern validPattern (Some s) ''$or'' whereClauses q9)
     = whenGivenPattern validPattern (Some s) ''$or'' whereClauses q"
  using assms
  by (auto simp: whenGivenPattern_def newRegExp_def assign_assign split: option.splits)

lemma searchQuery_without_what:
  assumes "q_where p = Some s" and "s \<noteq> []"
    and "case v of None \<Rightarrow> True | Some t \<Rightarrow> t = [] \<or> validPattern t"
  shows "searchQuery validPattern (p\<lparr>q_what := v\<rparr>) = searchQuery validPattern (p\<lparr>q_what := None\<rparr>)"
proof -
  have n: "case None :: string option of None \<Rightarrow> True | Some t \<Rightarrow> t = [] \<or> validPattern t"
    by simp
  show ?thesis
    using assms(1)
    by (simp add: searchQuery_def where_overwrites[OF assms(2,3)] where_overwrites[OF assms(2) n])
qed

lemma searchQuery_location_only:
  assumes "q_where p = Some s" and "s \<noteq> []" and "validPattern s"
    and "case q_what p of None \<Rightarrow> True | Some t \<Rightarrow> t = [] \<or> validPattern t"
    and "q_country p = None \<and> q_state p = None \<and> q_city p = None \<and> q_speciality p = None
        \<and> q_languages p = None \<and> q_gender p = None \<and> q_hospitals p = None
        \<and> q_availability p = None"
  shows "searchQuery validPattern p
     = Inr [(''role'', Eq ''doctor''), (''verified'', Eq ''Verified''),
            (''timeSlots.status'', Eq ''free''), (''$or'', whereClauses s)]"
proof -
  have "searchQuery validPattern p
      = andThen (whenGivenPattern validPattern (q_what p) ''$or'' whatClauses baseQuery)
          (\<lambda>q9. whenGivenPattern validPattern (Some s) ''$or'' whereClauses q9)"
    using assms(1,5) by (simp add: searchQuery_def whenGivenPattern_def whenGiven_def)
  also have "\<dots> = whenGivenPattern validPattern (Some s) ''$or'' whereClauses baseQuery"
    by (rule where_overwrites[OF assms(2,4)])
  also have "\<dots> = Inr [(''role'', Eq ''doctor''), (''verified'', Eq ''Verified''),
            (''timeSlots.status'', Eq ''free''), (''$or'', whereClauses s)]"
    using assms(2,3) by (simp add: whenGivenPattern_def newRegExp_def baseQuery_def)
  finally show ?thesis .
qed

lemma sample_search_fields:
  "q_where sampleSearch = Some ''Pune''" "q_what sampleSearch = Some ''cardio''"
  "balancedPattern ''cardio''" "balancedPattern ''Pune''" "balancedPattern ''skin''"
  "q_country sampleSearch = None" "q_state sampleSearch = None" "q_city sampleSearch = None"
  "q_speciality sampleSearch = None" "q_languages sampleSearch = None"
  "q_gender sampleSearch = None" "q_hospitals sampleSearch = None"
  "q_availability sampleSearch = None"
  by (simp_all add: sampleSearch_def balancedPattern_def)

section \<open>Facts about the favorites\<close>

lemma addToFavorites_logged_in:
  "patientLoggedIn (Some u) \<Longrightarrow>
     addToFavorites E (Some u) doctorId w
       = tryCatch (addToFavoritesBody E (user_id u) doctorId) favoritesError w"
  by (simp add: addToFavorites_def)

lemma addToFavorites_patients_cases:
  "patients (snd (addToFavorites E su doctorId w)) = patients w
   \<or> (\<exists>u p. su = Some u \<and> patients w (user_id u) = Some p \<and> doctorId \<notin> set (favoritesOf p)
        \<and> patients (snd (addToFavorites E su doctorId w))
          = (patients w)(user_id u \<mapsto> p\<lparr>favoriteDoctors := Some (favoritesOf p @ [doctorId])\<rparr>))"
  by (auto simp: addToFavorites_def addToFavoritesBody_def tryCatch_def favoritesError_def
      findPatientById_def findDoctorById_def savePatient_def await_def bnd_def ret_def
      split: option.splits)

lemma addToFavorites_keeps_invariant:
  assumes "noDuplicateFavorites w"
  shows "noDuplicateFavorites (snd (addToFavorites E su doctorId w))"
proof -
  from addToFavorites_patients_cases[of E su doctorId w]
  show ?thesis
  proof
    assume "patients (snd (addToFavorites E su doctorId w)) = patients w"
    with assms show ?thesis by (simp add: noDuplicateFavorites_def)
  next
    assume "\<exists>u p. su = Some u \<and> patients w (user_id u) = Some p
        \<and> doctorId \<notin> set (favoritesOf p)
        \<and> patients (snd (addToFavorites E su doctorId w))
          = (patients w)(user_id u \<mapsto> p\<lparr>favoriteDoctors := Some (favoritesOf p @ [doctorId])\<rparr>)"
    then obtain u :: user and p where p: "patients w (user_id u) = Some p"
      "doctorId \<notin> set (favoritesOf p)"
      "patients (snd (addToFavorites E su doctorId w))
          = (patients w)(user_id u \<mapsto> p\<lparr>favoriteDoctors := Some (favoritesOf p @ [doctorId])\<rparr>)"
      by blast
    from assms p(1) have "distinct (favoritesOf p)" by (auto simp: noDuplicateFavorites_def)
    with p(2) have "distinct (favoritesOf (p\<lparr>favoriteDoctors := Some (favoritesOf p @ [doctorId])\<rparr>))"
      by (simp add: favoritesOf_def)
    with assms show ?thesis
      unfolding noDuplicateFavorites_def p(3) by auto
  qed
qed

lemma sample_user: "patientLoggedIn (Some sampleUser)" "user_id sampleUser = ''patient1''"
  by (simp_all add: patientLoggedIn_def sampleUser_def)

lemma sample_patient: "patients (sampleWorld b) ''patient1'' = Some samplePatient"
  by (simp add: sampleWorld_def)

section \<open>Facts about the booking request\<close>

lemma find_from_Some:
  "find_from p xs k = Some i \<Longrightarrow>
     k \<le> i \<and> i - k < length xs \<and> p (xs ! (i - k)) \<and> (\<forall>j < i - k. \<not> p (xs ! j))"
proof (induction xs arbitrary: k)
  case Nil
  then show ?case by simp
next
  case (Cons x xs)
  show ?case
  proof (cases "p x")
    case True
    with Cons.prems show ?thesis by simp
  next
    case False
    with Cons.prems have rec: "find_from p xs (Suc k) = Some i" by simp
    from Cons.IH[OF rec] have ih: "Suc k \<le> i" "i - Suc k < length xs"
      "p (xs ! (i - Suc k))" "\<forall>j < i - Suc k. \<not> p (xs ! j)"
      by auto
    from ih(1) have eq: "i - k = Suc (i - Suc k)" by arith
    have "\<forall>j < i - k. \<not> p ((x # xs) ! j)"
    proof (intro allI impI)
      fix j assume "j < i - k"
      then show "\<not> p ((x # xs) ! j)"
        using ih(4) False eq by (cases j) auto
    qed
    with ih eq show ?thesis by simp
  qed
qed

lemma find_first_Some:
  "find_first p xs = Some i \<Longrightarrow>
     i < length xs \<and> p (xs ! i) \<and> (\<forall>j < i. \<not> p (xs ! j))"
  using find_from_Some[of p xs 0 i] by (simp add: find_first_def)

lemma find_from_None: "find_from p xs k = None \<longleftrightarrow> (\<forall>x \<in> set xs. \<not> p x)"
  by (induction xs arbitrary: k) auto

lemma find_first_None: "find_first p xs = None \<longleftrightarrow> (\<forall>x \<in> set xs. \<not> p x)"
  by (simp add: find_first_def find_from_None)

lemma slotRequested_iff:
  "slotRequested L req slot \<longleftrightarrow>
     (\<exists>dt. slot_date slot = Some dt \<and> toISOString L dt = req_date req
        \<and> startTime slot = hd (split_dash (req_time req)))"
  by (auto simp: slotRequested_def at_index_split_dash_0 split: option.splits)

lemma book_logged_in:
  "patientLoggedIn (Some u) \<Longrightarrow>
     book L E (Some u) req w = tryCatch (bookBody L E (user_id u) req) serverError w"
  by (simp add: book_def)

lemma book_saved:
  assumes "patientLoggedIn (Some u)" and "bookingSave_err E = None"
  shows "bookings (snd (book L E (Some u) req w))
     = (bookings w)(newId E \<mapsto> newBooking L (user_id u) req)"
  using assms
  by (auto simp: book_logged_in bookBody_def tryCatch_def serverError_def saveBooking_def
      findDoctorById_def saveDoctor_def await_def bnd_def ret_def
      split: option.splits)

lemma book_slot:
  assumes "patientLoggedIn (Some u)" and "bookingSave_err E = None"
    and "findDoctor_err E = None" and "doctors w (req_doctorId req) = Some d"
    and "find_first (slotRequested L req) (timeSlots d) = Some i"
    and "doctorSave_err E = None"
  shows "book L E (Some u) req w
     = (Redirect ''/patient/bookings'',
        w\<lparr>bookings := (bookings w)(newId E \<mapsto> newBooking L (user_id u) req),
          doctors := (doctors w)(req_doctorId req \<mapsto> setSlotStatus d i ''booked'')\<rparr>)"
  using assms
  by (simp add: book_logged_in bookBody_def tryCatch_def saveBooking_def
      findDoctorById_def saveDoctor_def await_def bnd_def ret_def)

lemma book_no_slot:
  assumes "patientLoggedIn (Some u)" and "bookingSave_err E = None"
    and "findDoctor_err E \<noteq> None \<or> doctors w (req_doctorId req) = None
       \<or> (\<exists>d. doctors w (req_doctorId req) = Some d
             \<and> find_first (slotRequested L req) (timeSlots d) = None)"
  shows "doctors (snd (book L E (Some u) req w)) = doctors w"
  using assms
  by (auto simp: book_logged_in bookBody_def tryCatch_def serverError_def saveBooking_def
      findDoctorById_def saveDoctor_def await_def bnd_def ret_def
      split: option.splits)

lemma sample_requested:
  "find_first (slotRequested juneLib sampleRequest) (timeSlots sampleDoctor) = Some 1"
  by (simp add: find_first_def slotRequested_def juneLib_def sampleRequest_def sampleDoctor_def
      sampleSlots_def two_digits_def split_dash_def at_index_def)

lemma find_from_first:
  "\<lbrakk>i < length xs; p (xs ! i); \<forall>j < i. \<not> p (xs ! j)\<rbrakk> \<Longrightarrow> find_from p xs k = Some (k + i)"
proof (induction xs arbitrary: i k)
  case Nil
  then show ?case by simp
next
  case (Cons x xs)
  show ?case
  proof (cases i)
    case 0
    with Cons.prems show ?thesis by simp
  next
    case (Suc i')
    with Cons.prems have nx: "\<not> p x" by auto
    from Cons.prems Suc have "i' < length xs" "p (xs ! i')" "\<forall>j < i'. \<not> p (xs ! j)"
      by auto
    from Cons.IH[OF this, of "Suc k"] nx Suc show ?thesis by simp
  qed
qed

lemma find_first_iff:
  "find_first p xs = Some i \<longleftrightarrow> i < length xs \<and> p (xs ! i) \<and> (\<forall>j < i. \<not> p (xs ! j))"
  using find_first_Some[of p xs i] find_from_first[of i xs p 0]
  by (auto simp: find_first_def)

lemma find_first_exists:
  "(\<exists>x \<in> set xs. p x) \<Longrightarrow> \<exists>i. find_first p xs = Some i"
  using find_first_None[of p xs] by (cases "find_first p xs") auto

lemma book_save_rejected:
  assumes "patientLoggedIn (Some u)" and "bookingSave_err E = Some e"
  shows "book L E (Some u) req w = serverError e w"
  using assms
  by (simp add: book_logged_in bookBody_def tryCatch_def saveBooking_def await_def bnd_def)

lemma book_lookup_rejected:
  assumes "patientLoggedIn (Some u)" and "bookingSave_err E = None"
    and "findDoctor_err E = Some e"
  shows "book L E (Some u) req w
     = serverError e (w\<lparr>bookings := (bookings w)(newId E \<mapsto> newBooking L (user_id u) req)\<rparr>)"
  using assms
  by (simp add: book_logged_in bookBody_def tryCatch_def saveBooking_def findDoctorById_def
      await_def bnd_def)

lemma book_no_doctor:
  assumes "patientLoggedIn (Some u)" and "bookingSave_err E = None"
    and "findDoctor_err E = None" and "doctors w (req_doctorId req) = None"
  shows "book L E (Some u) req w
     = (Send 404 ''Doctor not found'',
        w\<lparr>bookings := (bookings w)(newId E \<mapsto> newBooking L (user_id u) req)\<rparr>)"
  using assms
  by (simp add: book_logged_in bookBody_def tryCatch_def saveBooking_def findDoctorById_def
      await_def bnd_def ret_def)

lemma book_no_match:
  assumes "patientLoggedIn (Some u)" and "bookingSave_err E = None"
    and "findDoctor_err E = None" and "doctors w (req_doctorId req) = Some d"
    and "find_first (slotRequested L req) (timeSlots d) = None"
  shows "book L E (Some u) req w
     = (Redirect ''/patient/bookings'',
        w\<lparr>bookings := (bookings w)(newId E \<mapsto> newBooking L (user_id u) req)\<rparr>)"
  using assms
  by (simp add: book_logged_in bookBody_def tryCatch_def saveBooking_def findDoctorById_def
      await_def bnd_def ret_def)

lemma book_doctor_save_rejected:
  assumes "patientLoggedIn (Some u)" and "bookingSave_err E = None"
    and "findDoctor_err E = None" and "doctors w (req_doctorId req) = Some d"
    and "find_first (slotRequested L req) (timeSlots d) = Some i"
    and "doctorSave_err E = Some e"
  shows "book L E (Some u) req w
     = serverError e (w\<lparr>bookings := (bookings w)(newId E \<mapsto> newBooking L (user_id u) req)\<rparr>)"
  using assms
  by (simp add: book_logged_in bookBody_def tryCatch_def saveBooking_def findDoctorById_def
      saveDoctor_def await_def bnd_def ret_def)

lemma sample_requested_free:
  "find_first (slotRequested juneLib (sampleRequest\<lparr>req_date := ''2024-06-09T00:00:00.000Z''\<rparr>))
     (timeSlots sampleDoctor) = Some 0"
  by (simp add: find_first_def slotRequested_def juneLib_def sampleRequest_def sampleDoctor_def
      sampleSlots_def two_digits_def split_dash_def at_index_def)

lemma sample_slot_statuses:
  "map slot_status (timeSlots sampleDoctor) = [''free'', ''booked'', ''free'']"
  "length (timeSlots sampleDoctor) = 3"
  by (simp_all add: sampleDoctor_def sampleSlots_def)

lemma find_first_in_set: "find_first p xs = Some i \<Longrightarrow> \<exists>x \<in> set xs. p x"
  using find_first_None[of p xs] by auto

lemma saved_slot_written:
  assumes "findBooking_err E = None" "bookings w bookingId = Some b"
    and "attachMeetingLink L E requested (assignStatus L now requested b)
           (doctors w (booking_doctor b)) (patients w (booking_patient b)) w = (Inr b2, w1)"
    and "bookingSave_err E = None"
    and "doctors w (booking_doctor b) = Some d"
    and "findIndex (slotMatches L b) (timeSlots d) = Inr (Some i)"
    and "doctorSave_err E = None"
  shows "doctors (snd (updateBooking L E now bookingId requested w))
     = (doctors w)(booking_doctor b \<mapsto>
         d\<lparr>timeSlots := (timeSlots d)
              [i := (timeSlots d ! i)
                 \<lparr>slot_status := reconcileSlotStatus (status b) requested\<rparr>]\<rparr>)"
proof -
  have k: "doctors w1 = doctors w"
    using keeps_doctors_attach[of L E requested "assignStatus L now requested b"
        "doctors w (booking_doctor b)" "patients w (booking_patient b)"] assms(3)
    by (auto simp: keeps_def dest: spec[where x = w])
  show ?thesis
    using saved_slot[OF assms] by (simp add: k setSlotStatus_def)
qed

lemma conj_append6:
  "A1 \<and> A2 \<and> A3 \<and> A4 \<and> A5 \<and> A6 \<Longrightarrow> B \<Longrightarrow> A1 \<and> A2 \<and> A3 \<and> A4 \<and> A5 \<and> A6 \<and> B"
  by blast

lemma rejected_world:
  "bookings rejectedWorld ''booking1'' = Some (sampleBooking ''rejected'' ''In-person'')"
  "doctors rejectedWorld ''doctor1'' = Some freedDoctor"
  "map slot_status (timeSlots freedDoctor) = [''free'', ''free'', ''free'']"
  "findIndex (slotMatches juneLib (sampleBooking st ct)) (timeSlots freedDoctor) = Inr (Some 1)"
  by (simp_all add: rejectedWorld_def sampleWorld_def freedDoctor_def setSlotStatus_def
      sampleDoctor_def sampleSlots_def findIndex_def slotMatches_def juneLib_def
      sampleBooking_def two_digits_def split_dash_def at_index_def)

section \<open>Facts about two requests at a time\<close>

lemma no_steps: "length (filter (\<lambda>x. x) s) = 0 \<Longrightarrow> length (filter Not s) = 0 \<Longrightarrow> s = []"
  by (cases s) (auto split: if_splits)

lemma interleavings_iff:
  "s \<in> set (interleavings m n) \<longleftrightarrow>
     length (filter (\<lambda>x. x) s) = m \<and> length (filter Not s) = n"
proof (induction m n arbitrary: s rule: interleavings.induct)
  case 1
  show ?case using no_steps[of s] by auto
next
  case (2 m)
  show ?case
  proof (cases s)
    case Nil
    then show ?thesis by auto
  next
    case (Cons x t)
    with 2[of t] show ?thesis by (cases x) auto
  qed
next
  case (3 n)
  show ?case
  proof (cases s)
    case Nil
    then show ?thesis by auto
  next
    case (Cons x t)
    with 3[of t] show ?thesis by (cases x) auto
  qed
next
  case (4 m n)
  show ?case
  proof (cases s)
    case Nil
    then show ?thesis by auto
  next
    case (Cons x t)
    with 4(1)[of t] 4(2)[of t] show ?thesis by (cases x) auto
  qed
qed

lemma interleavings_3_3:
  "interleavings 3 3 =
     [[True, True, True, False, False, False],
      [True, True, False, True, False, False],
      [True, True, False, False, True, False],
      [True, True, False, False, False, True],
      [True, False, True, True, False, False],
      [True, False, True, False, True, False],
      [True, False, True, False, False, True],
      [True, False, False, True, True, False],
      [True, False, False, True, False, True],
      [True, False, False, False, True, True],
      [False, True, True, True, False, False],
      [False, True, True, False, True, False],
      [False, True, True, False, False, True],
      [False, True, False, True, True, False],
      [False, True, False, True, False, True],
      [False, True, False, False, True, True],
      [False, False, True, True, True, False],
      [False, False, True, True, False, True],
      [False, False, True, False, True, True],
      [False, False, False, True, True, True]]"
  by (simp add: numeral_3_eq_3)

lemma slotRequested_status [simp]:
  "slotRequested L req (slot\<lparr>slot_status := s\<rparr>) = slotRequested L req slot"
  by (simp add: slotRequested_def split: option.splits)

lemma find_from_update:
  assumes "\<And>x. p (f x) = p x"
  shows "find_from p (xs[i := f (xs ! i)]) k = find_from p xs k"
proof (induction xs arbitrary: i k)
  case Nil
  then show ?case by simp
next
  case (Cons x xs)
  then show ?case by (cases i) (simp_all add: assms)
qed

lemma find_first_setSlotStatus:
  "find_first (slotRequested L req) (timeSlots (setSlotStatus d i s))
     = find_first (slotRequested L req) (timeSlots d)"
  using find_from_update[of "slotRequested L req" "\<lambda>x. x\<lparr>slot_status := s\<rparr>" "timeSlots d" i 0]
  by (simp add: find_first_def setSlotStatus_def)

lemma setSlotStatus_again:
  "setSlotStatus (setSlotStatus d i s) i s = setSlotStatus d i s"
  by (cases "i < length (timeSlots d)") (simp_all add: setSlotStatus_def list_update_beyond)

lemma steps_alone:
  assumes "patientLoggedIn (Some u)"
  shows "runSchedule L (E, user_id u, req) c2 [True, True, True] (AtBookingSave, s2, w)
     = (Answered (fst (book L E (Some u) req w)), s2, snd (book L E (Some u) req w))"
proof -
  obtain E2 p2 r2 where c2: "c2 = (E2, p2, r2)" by (cases c2)
  show ?thesis
    unfolding c2 book_logged_in[OF assms]
    by (auto simp: bookStep_def bookBody_def tryCatch_def serverError_def saveBooking_def
        findDoctorById_def saveDoctor_def await_def bnd_def ret_def answered_def
        split: option.splits)
qed

lemma two_requests_one_slot:
  assumes ids: "newId E2 \<noteq> newId E1"
    and ok1: "bookingSave_err E1 = None" "findDoctor_err E1 = None" "doctorSave_err E1 = None"
    and ok2: "bookingSave_err E2 = None" "findDoctor_err E2 = None" "doctorSave_err E2 = None"
    and same: "req_doctorId r2 = req_doctorId r1"
    and doc: "doctors w (req_doctorId r1) = Some d"
    and slot1: "find_first (slotRequested L r1) (timeSlots d) = Some i"
    and slot2: "find_first (slotRequested L r2) (timeSlots d) = Some i"
  shows "\<forall>s \<in> set (interleavings 3 3).
     runSchedule L (E1, p1, r1) (E2, p2, r2) s (AtBookingSave, AtBookingSave, w)
     = (Answered (Redirect ''/patient/bookings''), Answered (Redirect ''/patient/bookings''),
        w\<lparr>bookings := (bookings w)(newId E1 \<mapsto> newBooking L p1 r1,
                                    newId E2 \<mapsto> newBooking L p2 r2),
          doctors := (doctors w)(req_doctorId r1 \<mapsto> setSlotStatus d i ''booked'')\<rparr>)"
  unfolding interleavings_3_3
  using assms
  by (simp add: bookStep_def saveBooking_def findDoctorById_def saveDoctor_def await_def
      find_first_setSlotStatus setSlotStatus_again fun_upd_twist[of "newId E2" "newId E1"])

lemma updateBooking_doctor_save_rejected:
  assumes "findBooking_err E = None" "bookings w bookingId = Some b"
    and "attachMeetingLink L E requested (assignStatus L now requested b)
           (doctors w (booking_doctor b)) (patients w (booking_patient b)) w = (Inr b2, w1)"
    and "bookingSave_err E = None"
    and "doctors w (booking_doctor b) = Some d"
    and "findIndex (slotMatches L b) (timeSlots d) = Inr (Some i)"
    and "doctorSave_err E = Some e"
  shows "updateBooking L E now bookingId requested w
     = (Send 500 ''Server Error'',
        w1\<lparr>bookings := (bookings w1)(bookingId \<mapsto> b2),
           console := console w1 @ [[Str (message e)]]\<rparr>)"
proof -
  have sm: "slotMatches L b2 = slotMatches L b"
    using attach_fields[OF assms(3)] by (intro slotMatches_cong) (simp_all add: assign_fields)
  have found: "findIndex (slotMatches L b2) (timeSlots d) = Inr (Some i)"
    using assms(6) sm by simp
  show ?thesis
    unfolding updateBooking_saved[OF assms(1-4)] assms(5)
    using found assms(7)
    by (simp add: reconcileAndNotify_def Let_def tryCatch_def bnd_def saveDoctor_def await_def
        serverError_def)
qed

lemma updateBooking_without_rollback:
  assumes "findBooking_err E = None" "bookings w bookingId = Some b"
    and "attachMeetingLink L E requested (assignStatus L now requested b)
           (doctors w (booking_doctor b)) (patients w (booking_patient b)) w = (Inr b2, w1)"
    and "bookingSave_err E = None"
    and "doctors w (booking_doctor b) = Some d"
    and "findIndex (slotMatches L b) (timeSlots d) = Inr (Some i)"
    and "doctorSave_err E = Some e"
  shows "fst (updateBooking L E now bookingId requested w) = Send 500 ''Server Error''
     \<and> map_option status (bookings (snd (updateBooking L E now bookingId requested w)) bookingId)
       = Some (status (assignStatus L now requested b))
     \<and> doctors (snd (updateBooking L E now bookingId requested w)) = doctors w"
proof -
  have k: "doctors w1 = doctors w"
    using keeps_doctors_attach[of L E requested "assignStatus L now requested b"
        "doctors w (booking_doctor b)" "patients w (booking_patient b)"] assms(3)
    by (auto simp: keeps_def dest: spec[where x = w])
  show ?thesis
    unfolding updateBooking_doctor_save_rejected[OF assms]
    using attach_fields(3)[OF assms(3)] by (simp add: k)
qed

lemma second_env:
  "bookingSave_err secondEnv = None" "findDoctor_err secondEnv = None"
  "doctorSave_err secondEnv = None" "newId secondEnv = ''booking3''"
  by (simp_all add: secondEnv_def calmEnv_def)

lemma doctor_save_fails_env:
  "findBooking_err doctorSaveFailsEnv = None" "bookingSave_err doctorSaveFailsEnv = None"
  "findDoctor_err doctorSaveFailsEnv = None"
  "doctorSave_err doctorSaveFailsEnv = Some (Error ''write failed'')"
  "newId doctorSaveFailsEnv = ''booking2''"
  by (simp_all add: doctorSaveFailsEnv_def calmEnv_def)

lemma other_user: "patientLoggedIn (Some otherUser)" "user_id otherUser = ''patient2''"
  by (simp_all add: patientLoggedIn_def otherUser_def)

lemma alternating_schedule:
  "[True, False, True, False, True, False] \<in> set (interleavings 3 3)"
  by (simp add: interleavings_3_3)

section \<open>The claims\<close>

text \<open>
  C1. In the booking-status-update handler, for every existing booking: when the current
  time is after the end of the booking (\<open>bookingEndDateTime\<close>, built from the date and
  from the element after the separator in the split of the time), the status assigned is
  \<^verbatim>\<open>completed\<close>, whatever status is requested; otherwise it is the requested status. The
  assignment is what the handler saves: in a run that reaches \<^verbatim>\<open>booking.save()\<close>, the
  save succeeding, the stored booking carries that status when the handler is done.
\<close>

theorem booking_status_assignment:
  "status (assignStatus L now requested b)
     = (if isAfter L now (bookingEndDateTime L b) then ''completed'' else requested)
   \<and> (\<forall>s e. time b = s @ '' - '' @ e \<and> CHR ''-'' \<notin> set s \<and> CHR ''-'' \<notin> set e \<longrightarrow>
         bookingEndDateTime L b
           = set_hour_minute L (moment_of L (date b))
               (get_hour L (moment_HHmm L (Some e))) (get_minute L (moment_HHmm L (Some e))))
   \<and> (findBooking_err E = None \<longrightarrow> bookings w bookingId = Some b \<longrightarrow>
      attachMeetingLink L E requested (assignStatus L now requested b)
        (doctors w (booking_doctor b)) (patients w (booking_patient b)) w = (Inr b2, w1) \<longrightarrow>
      bookingSave_err E = None \<longrightarrow>
        map_option status
          (bookings (snd (updateBooking L E now bookingId requested w)) bookingId)
        = Some (if isAfter L now (bookingEndDateTime L b) then ''completed'' else requested))"
proof (intro conjI allI impI)
  show st: "status (assignStatus L now requested b)
      = (if isAfter L now (bookingEndDateTime L b) then ''completed'' else requested)"
    by (simp add: assignStatus_def)
  {
    assume h: "findBooking_err E = None" "bookings w bookingId = Some b"
      "attachMeetingLink L E requested (assignStatus L now requested b)
        (doctors w (booking_doctor b)) (patients w (booking_patient b)) w = (Inr b2, w1)"
      "bookingSave_err E = None"
    show "map_option status
          (bookings (snd (updateBooking L E now bookingId requested w)) bookingId)
        = Some (if isAfter L now (bookingEndDateTime L b) then ''completed'' else requested)"
      unfolding saved_status[OF h] st by simp
  }
next
  fix s e
  assume "time b = s @ '' - '' @ e \<and> CHR ''-'' \<notin> set s \<and> CHR ''-'' \<notin> set e"
  then have "split_dash (time b) = [s, e]"
    using split_dash_start_end[of s e] by simp
  then show "bookingEndDateTime L b
      = set_hour_minute L (moment_of L (date b))
          (get_hour L (moment_HHmm L (Some e))) (get_minute L (moment_HHmm L (Some e)))"
    by (simp add: bookingEndDateTime_def at_index_def Let_def)
qed

theorem booking_status_assignment_witness:
  "map_option status
     (bookings (snd (updateBooking juneLib calmEnv afterEnd ''booking1'' ''accepted''
        (sampleWorld (sampleBooking ''waiting'' ''In-person'')))) ''booking1'')
   = Some ''completed''
   \<and> map_option status
     (bookings (snd (updateBooking juneLib calmEnv beforeEnd ''booking1'' ''accepted''
        (sampleWorld (sampleBooking ''waiting'' ''In-person'')))) ''booking1'')
   = Some ''accepted''"
proof -
  let ?b = "sampleBooking ''waiting'' ''In-person''"
  have n: "\<not> needsMeetingLink ''accepted'' (assignStatus juneLib t ''accepted'' ?b)" for t
    by (simp add: needsMeetingLink_def assign_fields sampleBooking_def)
  note t = booking_status_assignment[THEN conjunct2, THEN conjunct2, rule_format,
      OF calm(1) sample_found attach_not_needed[OF n] calm(4)]
  from t[of afterEnd] t[of beforeEnd] sample_after sample_before
  show ?thesis
    by simp
qed

text \<open>
  C2. The three branches of the time-slot reconciliation (\<open>reconcileSlotStatus\<close>, lines
  230 to 236) compute the simpler rule \<open>slotStatusRule\<close> for every current and every
  requested status, so that the first branch never gives another result than the rule.
  And whenever a matching slot is found, in a run that saves the doctor, the slot found
  has the status of the rule when the handler is done: free for a rejection, booked for
  every other requested status.
\<close>

theorem slot_reconciliation_rule:
  "(\<forall>currentStatus req. reconcileSlotStatus currentStatus req = slotStatusRule req)
   \<and> (findBooking_err E = None \<longrightarrow> bookings w bookingId = Some b \<longrightarrow>
      attachMeetingLink L E requested (assignStatus L now requested b)
        (doctors w (booking_doctor b)) (patients w (booking_patient b)) w = (Inr b2, w1) \<longrightarrow>
      bookingSave_err E = None \<longrightarrow>
      doctors w (booking_doctor b) = Some d \<longrightarrow>
      findIndex (slotMatches L b) (timeSlots d) = Inr (Some i) \<longrightarrow>
      doctorSave_err E = None \<longrightarrow>
        doctors (snd (updateBooking L E now bookingId requested w)) (booking_doctor b)
          = Some (setSlotStatus d i (slotStatusRule requested))
        \<and> slot_status (timeSlots (setSlotStatus d i (slotStatusRule requested)) ! i)
          = (if requested = ''rejected'' then ''free'' else ''booked''))"
proof (intro conjI allI impI)
  fix currentStatus req
  show "reconcileSlotStatus currentStatus req = slotStatusRule req"
    by (simp add: reconcileSlotStatus_def slotStatusRule_def)
next
  assume h: "findBooking_err E = None" "bookings w bookingId = Some b"
    "attachMeetingLink L E requested (assignStatus L now requested b)
        (doctors w (booking_doctor b)) (patients w (booking_patient b)) w = (Inr b2, w1)"
    "bookingSave_err E = None" "doctors w (booking_doctor b) = Some d"
    "findIndex (slotMatches L b) (timeSlots d) = Inr (Some i)" "doctorSave_err E = None"
  show "doctors (snd (updateBooking L E now bookingId requested w)) (booking_doctor b)
          = Some (setSlotStatus d i (slotStatusRule requested))"
    by (simp add: saved_slot[OF h] reconcileSlotStatus_def slotStatusRule_def)
  from findIndex_Some[OF h(6)] have "i < length (timeSlots d)" by simp
  then show "slot_status (timeSlots (setSlotStatus d i (slotStatusRule requested)) ! i)
          = (if requested = ''rejected'' then ''free'' else ''booked'')"
    by (simp add: setSlotStatus_def slotStatusRule_def)
qed

theorem slot_reconciliation_rule_witness:
  "map_option (\<lambda>d. map slot_status (timeSlots d))
     (doctors (snd (updateBooking juneLib calmEnv beforeEnd ''booking1'' ''rejected''
        (sampleWorld (sampleBooking ''waiting'' ''Video call'')))) ''doctor1'')
   = Some [''free'', ''free'', ''free'']
   \<and> map_option (\<lambda>d. map slot_status (timeSlots d))
     (doctors (snd (updateBooking juneLib calmEnv beforeEnd ''booking1'' ''waiting''
        (sampleWorld (sampleBooking ''rejected'' ''Video call'')))) ''doctor1'')
   = Some [''free'', ''booked'', ''free'']"
proof -
  have n: "\<not> needsMeetingLink r (assignStatus juneLib t r (sampleBooking st ''Video call''))"
    if "r \<noteq> ''accepted''" for r t st
    using that by (simp add: needsMeetingLink_def)
  have a: "doctors (snd (updateBooking juneLib calmEnv beforeEnd ''booking1'' ''rejected''
        (sampleWorld (sampleBooking ''waiting'' ''Video call'')))) ''doctor1''
      = Some (setSlotStatus sampleDoctor 1 (slotStatusRule ''rejected''))"
    using slot_reconciliation_rule[THEN conjunct2, rule_format, OF calm(1) sample_found
        attach_not_needed[OF n] calm(4) _ sample_index calm(5),
        where requested = "''rejected''" and now = beforeEnd]
    by (simp add: sample_fields sample_doctor)
  have b: "doctors (snd (updateBooking juneLib calmEnv beforeEnd ''booking1'' ''waiting''
        (sampleWorld (sampleBooking ''rejected'' ''Video call'')))) ''doctor1''
      = Some (setSlotStatus sampleDoctor 1 (slotStatusRule ''waiting''))"
    using slot_reconciliation_rule[THEN conjunct2, rule_format, OF calm(1) sample_found
        attach_not_needed[OF n] calm(4) _ sample_index calm(5),
        where requested = "''waiting''" and now = beforeEnd]
    by (simp add: sample_fields sample_doctor)
  show ?thesis
    unfolding a b
    by (simp add: setSlotStatus_def slotStatusRule_def sampleDoctor_def sampleSlots_def)
qed

text \<open>
  C3, as the claim states it, fails: the handler moves a rejected booking back to
  \<^verbatim>\<open>waiting\<close> when \<^verbatim>\<open>waiting\<close> is requested before the end of the booking, a move the
  lifecycle does not have.
\<close>

theorem lifecycle_counterexample:
  "map_option status
     (bookings (sampleWorld (sampleBooking ''rejected'' ''In-person'')) ''booking1'')
   = Some ''rejected''
   \<and> map_option status
     (bookings (snd (updateBooking juneLib calmEnv beforeEnd ''booking1'' ''waiting''
        (sampleWorld (sampleBooking ''rejected'' ''In-person'')))) ''booking1'')
   = Some ''waiting''
   \<and> \<not> lifecycleStep ''rejected'' ''waiting''"
proof -
  have n: "\<not> needsMeetingLink ''waiting''
      (assignStatus juneLib beforeEnd ''waiting'' (sampleBooking ''rejected'' ''In-person''))"
    by (simp add: needsMeetingLink_def)
  show ?thesis
    using sample_saved_status[OF n] sample_before[of "''rejected''" "''In-person''"]
    by (simp add: sample_found sample_fields assignStatus_def lifecycleStep_def)
qed

text \<open>
  C3, amended. The handler enforces no order of the lifecycle: for every booking and
  every requested status, whatever the current status of the booking, the status assigned
  is \<^verbatim>\<open>completed\<close> when the current time is after the end of the booking and the
  requested status otherwise, and the status assigned is the one saved. So a request for
  \<^verbatim>\<open>accepted\<close>, \<^verbatim>\<open>rejected\<close> or \<^verbatim>\<open>completed\<close> never yields \<^verbatim>\<open>waiting\<close>, and a booking
  is moved to \<^verbatim>\<open>waiting\<close> only by a request for \<^verbatim>\<open>waiting\<close> made before its end, which
  the handler accepts from any status; for a rejected booking for which \<^verbatim>\<open>waiting\<close> or
  \<^verbatim>\<open>accepted\<close> is requested, the first matching slot of the doctor is booked again.
\<close>

theorem status_follows_request:
  "status (assignStatus L now requested (b\<lparr>status := current\<rparr>))
     = status (assignStatus L now requested b)
   \<and> (status (assignStatus L now requested b) = ''completed''
      \<or> status (assignStatus L now requested b) = requested)
   \<and> (isAfter L now (bookingEndDateTime L b)
      \<longrightarrow> status (assignStatus L now requested b) = ''completed'')
   \<and> (requested = ''accepted'' \<or> requested = ''rejected'' \<or> requested = ''completed''
      \<longrightarrow> status (assignStatus L now requested b) \<noteq> ''waiting'')
   \<and> (status (assignStatus L now requested b) = ''waiting''
      \<longrightarrow> requested = ''waiting'' \<and> \<not> isAfter L now (bookingEndDateTime L b))
   \<and> (findBooking_err E = None \<longrightarrow> bookings w bookingId = Some b \<longrightarrow>
      attachMeetingLink L E requested (assignStatus L now requested b)
        (doctors w (booking_doctor b)) (patients w (booking_patient b)) w = (Inr b2, w1) \<longrightarrow>
      bookingSave_err E = None \<longrightarrow>
        map_option status
          (bookings (snd (updateBooking L E now bookingId requested w)) bookingId)
        = Some (status (assignStatus L now requested b)))
   \<and> (\<forall>current. status (assignStatus L now requested (b\<lparr>status := current\<rparr>))
         = (if isAfter L now (bookingEndDateTime L b) then ''completed'' else requested))
   \<and> (\<not> isAfter L now (bookingEndDateTime L b)
      \<longrightarrow> status (assignStatus L now requested b) = requested)
   \<and> (findBooking_err E = None \<longrightarrow> bookings w bookingId = Some b \<longrightarrow>
      attachMeetingLink L E requested (assignStatus L now requested b)
        (doctors w (booking_doctor b)) (patients w (booking_patient b)) w = (Inr b2, w1) \<longrightarrow>
      bookingSave_err E = None \<longrightarrow>
        map_option status
          (bookings (snd (updateBooking L E now bookingId requested w)) bookingId)
        = Some (if isAfter L now (bookingEndDateTime L b) then ''completed'' else requested)
        \<and> (\<forall>d i. doctors w (booking_doctor b) = Some d \<longrightarrow>
              findIndex (slotMatches L b) (timeSlots d) = Inr (Some i) \<longrightarrow>
              doctorSave_err E = None \<longrightarrow>
              status b = ''rejected'' \<longrightarrow>
              requested = ''waiting'' \<or> requested = ''accepted'' \<longrightarrow>
                doctors (snd (updateBooking L E now bookingId requested w))
                = (doctors w)(booking_doctor b \<mapsto>
                    d\<lparr>timeSlots := (timeSlots d)
                         [i := (timeSlots d ! i)\<lparr>slot_status := ''booked''\<rparr>]\<rparr>)))"
proof -
  have e: "bookingEndDateTime L (b\<lparr>status := current\<rparr>) = bookingEndDateTime L b"
    by (simp add: bookingEndDateTime_def)
  have old: "status (assignStatus L now requested (b\<lparr>status := current\<rparr>))
       = status (assignStatus L now requested b)
     \<and> (status (assignStatus L now requested b) = ''completed''
        \<or> status (assignStatus L now requested b) = requested)
     \<and> (isAfter L now (bookingEndDateTime L b)
        \<longrightarrow> status (assignStatus L now requested b) = ''completed'')
     \<and> (requested = ''accepted'' \<or> requested = ''rejected'' \<or> requested = ''completed''
        \<longrightarrow> status (assignStatus L now requested b) \<noteq> ''waiting'')
     \<and> (status (assignStatus L now requested b) = ''waiting''
        \<longrightarrow> requested = ''waiting'' \<and> \<not> isAfter L now (bookingEndDateTime L b))
     \<and> (findBooking_err E = None \<longrightarrow> bookings w bookingId = Some b \<longrightarrow>
        attachMeetingLink L E requested (assignStatus L now requested b)
          (doctors w (booking_doctor b)) (patients w (booking_patient b)) w = (Inr b2, w1) \<longrightarrow>
        bookingSave_err E = None \<longrightarrow>
          map_option status
            (bookings (snd (updateBooking L E now bookingId requested w)) bookingId)
          = Some (status (assignStatus L now requested b)))"
    using saved_status[of E w bookingId b L requested now b2 w1]
    by (auto simp: assignStatus_def e)
  have exact: "status (assignStatus L now requested (b\<lparr>status := c\<rparr>))
         = (if isAfter L now (bookingEndDateTime L b) then ''completed'' else requested)" for c
    by (simp add: assignStatus_def bookingEndDateTime_def)
  have before: "\<not> isAfter L now (bookingEndDateTime L b)
      \<longrightarrow> status (assignStatus L now requested b) = requested"
    by (simp add: assignStatus_def)
  have run: "map_option status
          (bookings (snd (updateBooking L E now bookingId requested w)) bookingId)
        = Some (if isAfter L now (bookingEndDateTime L b) then ''completed'' else requested)
        \<and> (\<forall>d i. doctors w (booking_doctor b) = Some d \<longrightarrow>
              findIndex (slotMatches L b) (timeSlots d) = Inr (Some i) \<longrightarrow>
              doctorSave_err E = None \<longrightarrow>
              status b = ''rejected'' \<longrightarrow>
              requested = ''waiting'' \<or> requested = ''accepted'' \<longrightarrow>
                doctors (snd (updateBooking L E now bookingId requested w))
                = (doctors w)(booking_doctor b \<mapsto>
                    d\<lparr>timeSlots := (timeSlots d)
                         [i := (timeSlots d ! i)\<lparr>slot_status := ''booked''\<rparr>]\<rparr>))"
    if h: "findBooking_err E = None" "bookings w bookingId = Some b"
      "attachMeetingLink L E requested (assignStatus L now requested b)
        (doctors w (booking_doctor b)) (patients w (booking_patient b)) w = (Inr b2, w1)"
      "bookingSave_err E = None"
  proof (intro conjI allI impI)
    show "map_option status
          (bookings (snd (updateBooking L E now bookingId requested w)) bookingId)
        = Some (if isAfter L now (bookingEndDateTime L b) then ''completed'' else requested)"
      unfolding saved_status[OF h] by (simp add: assignStatus_def)
  next
    fix d i
    assume g: "doctors w (booking_doctor b) = Some d"
      "findIndex (slotMatches L b) (timeSlots d) = Inr (Some i)" "doctorSave_err E = None"
      and r: "status b = ''rejected''" "requested = ''waiting'' \<or> requested = ''accepted''"
    from r have "reconcileSlotStatus (status b) requested = ''booked''"
      by (auto simp: reconcileSlotStatus_def)
    with saved_slot_written[OF h g]
    show "doctors (snd (updateBooking L E now bookingId requested w))
                = (doctors w)(booking_doctor b \<mapsto>
                    d\<lparr>timeSlots := (timeSlots d)
                         [i := (timeSlots d ! i)\<lparr>slot_status := ''booked''\<rparr>]\<rparr>)"
      by simp
  qed
  have new: "(\<forall>current. status (assignStatus L now requested (b\<lparr>status := current\<rparr>))
         = (if isAfter L now (bookingEndDateTime L b) then ''completed'' else requested))
   \<and> (\<not> isAfter L now (bookingEndDateTime L b)
      \<longrightarrow> status (assignStatus L now requested b) = requested)
   \<and> (findBooking_err E = None \<longrightarrow> bookings w bookingId = Some b \<longrightarrow>
      attachMeetingLink L E requested (assignStatus L now requested b)
        (doctors w (booking_doctor b)) (patients w (booking_patient b)) w = (Inr b2, w1) \<longrightarrow>
      bookingSave_err E = None \<longrightarrow>
        map_option status
          (bookings (snd (updateBooking L E now bookingId requested w)) bookingId)
        = Some (if isAfter L now (bookingEndDateTime L b) then ''completed'' else requested)
        \<and> (\<forall>d i. doctors w (booking_doctor b) = Some d \<longrightarrow>
              findIndex (slotMatches L b) (timeSlots d) = Inr (Some i) \<longrightarrow>
              doctorSave_err E = None \<longrightarrow>
              status b = ''rejected'' \<longrightarrow>
              requested = ''waiting'' \<or> requested = ''accepted'' \<longrightarrow>
                doctors (snd (updateBooking L E now bookingId requested w))
                = (doctors w)(booking_doctor b \<mapsto>
                    d\<lparr>timeSlots := (timeSlots d)
                         [i := (timeSlots d ! i)\<lparr>slot_status := ''booked''\<rparr>]\<rparr>)))"
  proof (intro conjI)
    show "\<forall>current. status (assignStatus L now requested (b\<lparr>status := current\<rparr>))
         = (if isAfter L now (bookingEndDateTime L b) then ''completed'' else requested)"
      using exact by (rule allI)
    show "\<not> isAfter L now (bookingEndDateTime L b)
      \<longrightarrow> status (assignStatus L now requested b) = requested"
      by (rule before)
    show "findBooking_err E = None \<longrightarrow> bookings w bookingId = Some b \<longrightarrow>
      attachMeetingLink L E requested (assignStatus L now requested b)
        (doctors w (booking_doctor b)) (patients w (booking_patient b)) w = (Inr b2, w1) \<longrightarrow>
      bookingSave_err E = None \<longrightarrow>
        map_option status
          (bookings (snd (updateBooking L E now bookingId requested w)) bookingId)
        = Some (if isAfter L now (bookingEndDateTime L b) then ''completed'' else requested)
        \<and> (\<forall>d i. doctors w (booking_doctor b) = Some d \<longrightarrow>
              findIndex (slotMatches L b) (timeSlots d) = Inr (Some i) \<longrightarrow>
              doctorSave_err E = None \<longrightarrow>
              status b = ''rejected'' \<longrightarrow>
              requested = ''waiting'' \<or> requested = ''accepted'' \<longrightarrow>
                doctors (snd (updateBooking L E now bookingId requested w))
                = (doctors w)(booking_doctor b \<mapsto>
                    d\<lparr>timeSlots := (timeSlots d)
                         [i := (timeSlots d ! i)\<lparr>slot_status := ''booked''\<rparr>]\<rparr>))"
      using run by (intro impI)
  qed
  show ?thesis
    by (rule conj_append6[OF old new])
qed

theorem status_follows_request_witness:
  "status (assignStatus juneLib beforeEnd ''waiting'' (sampleBooking ''accepted'' ''In-person''))
     = ''waiting''
   \<and> status (assignStatus juneLib afterEnd ''waiting'' (sampleBooking ''accepted'' ''In-person''))
     = ''completed''
   \<and> map_option status
     (bookings (snd (updateBooking juneLib calmEnv beforeEnd ''booking1'' ''accepted''
        (sampleWorld (sampleBooking ''rejected'' ''In-person'')))) ''booking1'')
     = Some ''accepted''
   \<and> map_option status (bookings rejectedWorld ''booking1'') = Some ''rejected''
   \<and> map_option (\<lambda>d. map slot_status (timeSlots d)) (doctors rejectedWorld ''doctor1'')
     = Some [''free'', ''free'', ''free'']
   \<and> map_option status
     (bookings (snd (updateBooking juneLib calmEnv beforeEnd ''booking1'' ''waiting''
        rejectedWorld)) ''booking1'')
     = Some ''waiting''
   \<and> map_option (\<lambda>d. map slot_status (timeSlots d))
     (doctors (snd (updateBooking juneLib calmEnv beforeEnd ''booking1'' ''waiting''
        rejectedWorld)) ''doctor1'')
     = Some [''free'', ''booked'', ''free'']
   \<and> map_option status
     (bookings (snd (updateBooking juneLib calmEnv afterEnd ''booking1'' ''waiting''
        rejectedWorld)) ''booking1'')
     = Some ''completed''"
proof -
  let ?b = "sampleBooking ''rejected'' ''In-person''"
  have n: "\<not> needsMeetingLink ''accepted'' (assignStatus juneLib beforeEnd ''accepted'' ?b)"
    "\<not> needsMeetingLink ''waiting'' (assignStatus juneLib beforeEnd ''waiting'' ?b)"
    "\<not> needsMeetingLink ''waiting'' (assignStatus juneLib afterEnd ''waiting'' ?b)"
    by (simp_all add: needsMeetingLink_def assign_fields sample_fields)
  note t = status_follows_request[where L = juneLib and E = calmEnv]
  note c6 = conjunct2[THEN conjunct2, THEN conjunct2, THEN conjunct2, THEN conjunct2]
  have a: "status (assignStatus juneLib afterEnd ''waiting'' (sampleBooking ''accepted'' ''In-person''))
     = ''completed''"
    using t[THEN conjunct2, THEN conjunct2, THEN conjunct1, rule_format, OF sample_after] .
  have b: "status (assignStatus juneLib beforeEnd ''waiting''
      (sampleBooking ''accepted'' ''In-person'')) = ''waiting''"
    using t[THEN c6, THEN conjunct2, THEN conjunct2, THEN conjunct1, rule_format,
        OF sample_before] .
  have c: "map_option status
     (bookings (snd (updateBooking juneLib calmEnv beforeEnd ''booking1'' ''accepted''
        (sampleWorld ?b))) ''booking1'') = Some ''accepted''"
    using t[THEN c6, THEN conjunct1, rule_format, OF calm(1) sample_found
        attach_not_needed[OF n(1)] calm(4)]
      sample_before[of "''rejected''" "''In-person''"]
    by (simp add: assignStatus_def)
  have db: "doctors rejectedWorld (booking_doctor ?b) = Some freedDoctor"
    by (simp add: rejected_world sample_fields)
  note run = t[where w = rejectedWorld and bookingId = "''booking1''" and b = ?b
      and now = beforeEnd and requested = "''waiting''",
      THEN c6, THEN conjunct2, THEN conjunct2, THEN conjunct2, rule_format,
      OF calm(1) rejected_world(1) attach_not_needed[OF n(2)] calm(4)]
  have d: "map_option status
     (bookings (snd (updateBooking juneLib calmEnv beforeEnd ''booking1'' ''waiting''
        rejectedWorld)) ''booking1'') = Some ''waiting''"
    using run[THEN conjunct1] sample_before[of "''rejected''" "''In-person''"] by simp
  have "doctors (snd (updateBooking juneLib calmEnv beforeEnd ''booking1'' ''waiting''
        rejectedWorld))
      = (doctors rejectedWorld)(booking_doctor ?b \<mapsto>
          freedDoctor\<lparr>timeSlots := (timeSlots freedDoctor)
            [1 := (timeSlots freedDoctor ! 1)\<lparr>slot_status := ''booked''\<rparr>]\<rparr>)"
    using run[THEN conjunct2, rule_format, OF db rejected_world(4) calm(5)]
    by (simp add: sample_fields)
  then have e: "map_option (\<lambda>d. map slot_status (timeSlots d))
     (doctors (snd (updateBooking juneLib calmEnv beforeEnd ''booking1'' ''waiting''
        rejectedWorld)) ''doctor1'') = Some [''free'', ''booked'', ''free'']"
    by (simp add: sample_fields freedDoctor_def setSlotStatus_def sampleDoctor_def
        sampleSlots_def)
  have f: "map_option status
     (bookings (snd (updateBooking juneLib calmEnv afterEnd ''booking1'' ''waiting''
        rejectedWorld)) ''booking1'') = Some ''completed''"
    using t[where w = rejectedWorld and bookingId = "''booking1''" and b = ?b
      and now = afterEnd and requested = "''waiting''",
      THEN c6, THEN conjunct2, THEN conjunct2, THEN conjunct2, rule_format,
      OF calm(1) rejected_world(1) attach_not_needed[OF n(3)] calm(4), THEN conjunct1]
      sample_after[of "''rejected''" "''In-person''"] by simp
  have g: "map_option status (bookings rejectedWorld ''booking1'') = Some ''rejected''"
    "map_option (\<lambda>d. map slot_status (timeSlots d)) (doctors rejectedWorld ''doctor1'')
     = Some [''free'', ''free'', ''free'']"
    by (simp_all add: rejected_world sample_fields)
  show ?thesis
    by (intro conjI a b c d e f g)
qed

text \<open>
  C4. The matching time-slot entry is located by linear search. A slot matches when the
  ISO string of its date is the ISO string of the booking's date and its start time is
  the first element of the split of the booking's time (for a time of the form
  \<^verbatim>\<open>start - end\<close>, the part before the separator). \<^verbatim>\<open>findIndex\<close> returns an index
  exactly when that index is the lowest one whose slot matches, every slot before it
  having been compared without a match. For every existing booking with its doctor, the
  handler either leaves the doctors as they are or changes, in the booking's doctor, the
  status of the slot at that first index and of no other slot; in a run in which no call
  throws and a slot matches, the entry acted on is the one at that first index: it is
  given its new status, and every other slot and every other doctor is as before; and
  when no slot matches, the doctors, hence the time slots, are left as they are.
\<close>

theorem first_matching_slot:
  "(\<forall>slot. slotMatches L b slot = Inr True \<longleftrightarrow>
       (\<exists>dt. slot_date slot = Some dt \<and> toISOString L dt = toISOString L (date b)
          \<and> startTime slot = hd (split_dash (time b))))
   \<and> (\<forall>s e. CHR ''-'' \<notin> set s \<longrightarrow> CHR ''-'' \<notin> set e \<longrightarrow>
         split_dash (s @ '' - '' @ e) = [s, e])
   \<and> (\<forall>i. findIndex (slotMatches L b) (timeSlots d) = Inr (Some i) \<longleftrightarrow>
         i < length (timeSlots d) \<and> slotMatches L b (timeSlots d ! i) = Inr True
         \<and> (\<forall>j < i. slotMatches L b (timeSlots d ! j) = Inr False))
   \<and> (\<forall>i s j. j \<noteq> i \<longrightarrow> timeSlots (setSlotStatus d i s) ! j = timeSlots d ! j)
   \<and> (findBooking_err E = None \<longrightarrow> bookings w bookingId = Some b \<longrightarrow>
      doctors w (booking_doctor b) = Some d \<longrightarrow>
        (doctors (snd (updateBooking L E now bookingId requested w)) = doctors w
         \<or> (\<exists>i. findIndex (slotMatches L b) (timeSlots d) = Inr (Some i)
              \<and> doctors (snd (updateBooking L E now bookingId requested w))
                = (doctors w)(booking_doctor b \<mapsto>
                    setSlotStatus d i (reconcileSlotStatus (status b) requested))))
        \<and> ((\<forall>slot \<in> set (timeSlots d). slotMatches L b slot \<noteq> Inr True)
             \<longrightarrow> doctors (snd (updateBooking L E now bookingId requested w)) = doctors w))
   \<and> (\<forall>i s. length (timeSlots (setSlotStatus d i s)) = length (timeSlots d)
         \<and> (i < length (timeSlots d) \<longrightarrow>
              timeSlots (setSlotStatus d i s) ! i = (timeSlots d ! i)\<lparr>slot_status := s\<rparr>))
   \<and> (\<forall>b2 w1 i. findBooking_err E = None \<longrightarrow> bookings w bookingId = Some b \<longrightarrow>
        attachMeetingLink L E requested (assignStatus L now requested b)
          (doctors w (booking_doctor b)) (patients w (booking_patient b)) w = (Inr b2, w1) \<longrightarrow>
        bookingSave_err E = None \<longrightarrow>
        doctors w (booking_doctor b) = Some d \<longrightarrow>
        findIndex (slotMatches L b) (timeSlots d) = Inr (Some i) \<longrightarrow>
        doctorSave_err E = None \<longrightarrow>
          doctors (snd (updateBooking L E now bookingId requested w))
          = (doctors w)(booking_doctor b \<mapsto>
              d\<lparr>timeSlots := (timeSlots d)
                   [i := (timeSlots d ! i)
                      \<lparr>slot_status := reconcileSlotStatus (status b) requested\<rparr>]\<rparr>))"
proof (intro conjI allI impI)
  fix slot
  show "slotMatches L b slot = Inr True \<longleftrightarrow>
       (\<exists>dt. slot_date slot = Some dt \<and> toISOString L dt = toISOString L (date b)
          \<and> startTime slot = hd (split_dash (time b)))"
    by (rule slotMatches_True)
next
  fix s e :: string
  assume "CHR ''-'' \<notin> set s" "CHR ''-'' \<notin> set e"
  then show "split_dash (s @ '' - '' @ e) = [s, e]"
    by (rule split_dash_start_end)
next
  fix i
  show "findIndex (slotMatches L b) (timeSlots d) = Inr (Some i) \<longleftrightarrow>
         i < length (timeSlots d) \<and> slotMatches L b (timeSlots d ! i) = Inr True
         \<and> (\<forall>j < i. slotMatches L b (timeSlots d ! j) = Inr False)"
    by (rule findIndex_iff)
next
  fix i j :: nat and s :: string
  assume "j \<noteq> i"
  then show "timeSlots (setSlotStatus d i s) ! j = timeSlots d ! j"
    by (simp add: setSlotStatus_def)
next
  assume h: "findBooking_err E = None" "bookings w bookingId = Some b"
    "doctors w (booking_doctor b) = Some d"
  show c: "doctors (snd (updateBooking L E now bookingId requested w)) = doctors w
         \<or> (\<exists>i. findIndex (slotMatches L b) (timeSlots d) = Inr (Some i)
              \<and> doctors (snd (updateBooking L E now bookingId requested w))
                = (doctors w)(booking_doctor b \<mapsto>
                    setSlotStatus d i (reconcileSlotStatus (status b) requested)))"
    by (rule updateBooking_doctors_cases[OF h])
  assume no: "\<forall>slot \<in> set (timeSlots d). slotMatches L b slot \<noteq> Inr True"
  have "findIndex (slotMatches L b) (timeSlots d) \<noteq> Inr (Some i)" for i
  proof
    assume "findIndex (slotMatches L b) (timeSlots d) = Inr (Some i)"
    from findIndex_Some[OF this] no show False by (metis nth_mem)
  qed
  with c show "doctors (snd (updateBooking L E now bookingId requested w)) = doctors w"
    by blast
next
  fix i s
  show "length (timeSlots (setSlotStatus d i s)) = length (timeSlots d)"
    by (simp add: setSlotStatus_def)
next
  fix i s
  assume "i < length (timeSlots d)"
  then show "timeSlots (setSlotStatus d i s) ! i = (timeSlots d ! i)\<lparr>slot_status := s\<rparr>"
    by (simp add: setSlotStatus_def)
next
  fix b2 w1 i
  assume "findBooking_err E = None" "bookings w bookingId = Some b"
    "attachMeetingLink L E requested (assignStatus L now requested b)
       (doctors w (booking_doctor b)) (patients w (booking_patient b)) w = (Inr b2, w1)"
    "bookingSave_err E = None" "doctors w (booking_doctor b) = Some d"
    "findIndex (slotMatches L b) (timeSlots d) = Inr (Some i)" "doctorSave_err E = None"
  then show "doctors (snd (updateBooking L E now bookingId requested w))
          = (doctors w)(booking_doctor b \<mapsto>
              d\<lparr>timeSlots := (timeSlots d)
                   [i := (timeSlots d ! i)
                      \<lparr>slot_status := reconcileSlotStatus (status b) requested\<rparr>]\<rparr>)"
    by (rule saved_slot_written)
qed


theorem first_matching_slot_witness:
  "map slot_status (timeSlots sampleDoctor) = [''free'', ''booked'', ''free'']
   \<and> slotMatches juneLib (sampleBooking ''waiting'' ''Video call'') (timeSlots sampleDoctor ! 1)
     = Inr True
   \<and> slotMatches juneLib (sampleBooking ''waiting'' ''Video call'') (timeSlots sampleDoctor ! 2)
     = Inr True
   \<and> doctors (snd (updateBooking juneLib calmEnv beforeEnd ''booking1'' ''rejected''
        (sampleWorld (sampleBooking ''waiting'' ''Video call''))))
     = (doctors (sampleWorld (sampleBooking ''waiting'' ''Video call'')))
         (''doctor1'' \<mapsto> setSlotStatus sampleDoctor 1 ''free'')
   \<and> map_option (\<lambda>d. map slot_status (timeSlots d))
       (doctors (snd (updateBooking juneLib calmEnv beforeEnd ''booking1'' ''rejected''
          (sampleWorld (sampleBooking ''waiting'' ''Video call'')))) ''doctor1'')
     = Some [''free'', ''free'', ''free'']
   \<and> map_option (\<lambda>d. map slot_status (timeSlots d))
       (doctors (snd (updateBooking juneLib calmEnv beforeEnd ''booking1'' ''accepted''
          (sampleWorld (sampleBooking ''waiting'' ''In-person'')))) ''doctor1'')
     = Some [''free'', ''booked'', ''free'']
   \<and> doctors (snd (updateBooking juneLib calmEnv beforeEnd ''booking1'' ''rejected''
        (sampleWorld ((sampleBooking ''waiting'' ''Video call'')\<lparr>time := ''12:00 - 12:30''\<rparr>))))
     = doctors (sampleWorld ((sampleBooking ''waiting'' ''Video call'')\<lparr>time := ''12:00 - 12:30''\<rparr>))"
proof -
  let ?b = "sampleBooking ''waiting'' ''Video call''"
  let ?a = "sampleBooking ''waiting'' ''In-person''"
  let ?c = "?b\<lparr>time := ''12:00 - 12:30''\<rparr>"
  note c5 = conjunct2[THEN conjunct2, THEN conjunct2, THEN conjunct2]
  note t = first_matching_slot[where L = juneLib and E = calmEnv and now = beforeEnd
      and bookingId = "''booking1''" and d = sampleDoctor]
  have nomatch: "\<forall>slot \<in> set (timeSlots sampleDoctor). slotMatches juneLib ?c slot \<noteq> Inr True"
    by (simp add: slotMatches_def juneLib_def sampleBooking_def sampleDoctor_def
        sampleSlots_def two_digits_def split_dash_def at_index_def)
  have dc: "doctors (sampleWorld ?c) (booking_doctor ?c) = Some sampleDoctor"
    by (simp add: sample_doctor sample_fields)
  have second: "doctors (snd (updateBooking juneLib calmEnv beforeEnd ''booking1'' ''rejected''
        (sampleWorld ?c))) = doctors (sampleWorld ?c)"
    using t[where requested = "''rejected''", THEN c5, THEN conjunct1, rule_format,
        OF calm(1) sample_found dc, THEN conjunct2, THEN mp, OF nomatch] .
  have db: "doctors (sampleWorld ?b) (booking_doctor ?b) = Some sampleDoctor"
    "doctors (sampleWorld ?a) (booking_doctor ?a) = Some sampleDoctor"
    by (simp_all add: sample_doctor sample_fields)
  have n: "\<not> needsMeetingLink ''rejected'' (assignStatus juneLib beforeEnd ''rejected'' ?b)"
    "\<not> needsMeetingLink ''accepted'' (assignStatus juneLib beforeEnd ''accepted'' ?a)"
    by (simp_all add: needsMeetingLink_def assignStatus_def sample_fields)
  have m: "slotMatches juneLib ?b (timeSlots sampleDoctor ! 1) = Inr True"
    "slotMatches juneLib ?b (timeSlots sampleDoctor ! 2) = Inr True"
    by (simp_all add: slotMatches_def juneLib_def sampleBooking_def sampleDoctor_def
        sampleSlots_def two_digits_def split_dash_def at_index_def)
  have rej: "doctors (snd (updateBooking juneLib calmEnv beforeEnd ''booking1'' ''rejected''
        (sampleWorld ?b)))
      = (doctors (sampleWorld ?b))(booking_doctor ?b \<mapsto>
          sampleDoctor\<lparr>timeSlots := (timeSlots sampleDoctor)
            [1 := (timeSlots sampleDoctor ! 1)
               \<lparr>slot_status := reconcileSlotStatus (status ?b) ''rejected''\<rparr>]\<rparr>)"
    using t[where requested = "''rejected''", THEN c5, THEN conjunct2, THEN conjunct2,
        rule_format, OF calm(1) sample_found attach_not_needed[OF n(1)] calm(4) db(1)
        sample_index calm(5)] .
  have acc: "doctors (snd (updateBooking juneLib calmEnv beforeEnd ''booking1'' ''accepted''
        (sampleWorld ?a)))
      = (doctors (sampleWorld ?a))(booking_doctor ?a \<mapsto>
          sampleDoctor\<lparr>timeSlots := (timeSlots sampleDoctor)
            [1 := (timeSlots sampleDoctor ! 1)
               \<lparr>slot_status := reconcileSlotStatus (status ?a) ''accepted''\<rparr>]\<rparr>)"
    using t[where requested = "''accepted''", THEN c5, THEN conjunct2, THEN conjunct2,
        rule_format, OF calm(1) sample_found attach_not_needed[OF n(2)] calm(4) db(2)
        sample_index calm(5)] .
  have r1: "doctors (snd (updateBooking juneLib calmEnv beforeEnd ''booking1'' ''rejected''
        (sampleWorld ?b)))
     = (doctors (sampleWorld ?b))(''doctor1'' \<mapsto> setSlotStatus sampleDoctor 1 ''free'')"
    unfolding rej by (simp add: sample_fields reconcileSlotStatus_def setSlotStatus_def)
  have r2: "map_option (\<lambda>d. map slot_status (timeSlots d))
       (doctors (snd (updateBooking juneLib calmEnv beforeEnd ''booking1'' ''rejected''
          (sampleWorld ?b))) ''doctor1'') = Some [''free'', ''free'', ''free'']"
    unfolding rej
    by (simp add: sample_fields reconcileSlotStatus_def sampleDoctor_def sampleSlots_def)
  have r3: "map_option (\<lambda>d. map slot_status (timeSlots d))
       (doctors (snd (updateBooking juneLib calmEnv beforeEnd ''booking1'' ''accepted''
          (sampleWorld ?a))) ''doctor1'') = Some [''free'', ''booked'', ''free'']"
    unfolding acc
    by (simp add: sample_fields reconcileSlotStatus_def sampleDoctor_def sampleSlots_def)
  have s0: "map slot_status (timeSlots sampleDoctor) = [''free'', ''booked'', ''free'']"
    by (simp add: sampleDoctor_def sampleSlots_def)
  show ?thesis
    by (intro conjI s0 m r1 r2 r3 second)
qed

text \<open>
  C5, as the claim states it, fails: with a matching slot and \<^verbatim>\<open>accepted\<close> requested, a
  booking whose consultation type is neither \<^verbatim>\<open>Video call\<close> nor \<^verbatim>\<open>In-person\<close> is
  answered with the redirect and neither a mail nor a chat message is produced.
\<close>

theorem notification_counterexample:
  "findIndex (slotMatches juneLib (sampleBooking ''waiting'' ''Audio call''))
     (timeSlots sampleDoctor) = Inr (Some 1)
   \<and> fst (updateBooking juneLib calmEnv beforeEnd ''booking1'' ''accepted''
        (sampleWorld (sampleBooking ''waiting'' ''Audio call''))) = Redirect ''/doctor/bookings''
   \<and> outbox (snd (updateBooking juneLib calmEnv beforeEnd ''booking1'' ''accepted''
        (sampleWorld (sampleBooking ''waiting'' ''Audio call''))))
     = outbox (sampleWorld (sampleBooking ''waiting'' ''Audio call''))
   \<and> chats (snd (updateBooking juneLib calmEnv beforeEnd ''booking1'' ''accepted''
        (sampleWorld (sampleBooking ''waiting'' ''Audio call''))))
     = chats (sampleWorld (sampleBooking ''waiting'' ''Audio call''))"
proof -
  let ?b = "sampleBooking ''waiting'' ''Audio call''"
  let ?r = "updateBooking juneLib calmEnv beforeEnd ''booking1'' ''accepted'' (sampleWorld ?b)"
  have d: "doctors (sampleWorld ?b) (booking_doctor ?b) = Some sampleDoctor"
    by (simp add: sample_doctor sample_fields)
  have r: "?r = (Redirect ''/doctor/bookings'', snd ?r)"
    using run_audio by (simp add: prod_eq_iff)
  have no: "\<not> notifies ''accepted'' ?b" "noticeSubjects ''accepted'' ?b = []"
    by (simp_all add: notifies_def noticeSubjects_def sample_fields)
  from updateBooking_effects[OF calm(1) sample_found d r] no
  have "outbox (snd ?r) = outbox (sampleWorld ?b)" "chats (snd ?r) = chats (sampleWorld ?b)"
    by (auto split: if_splits)
  with run_audio sample_index show ?thesis by simp
qed

text \<open>
  C5, amended. In every run of the handler that ends with its redirect (no call threw),
  for an existing booking with its doctor: a mail is sent, and a chat message appended,
  exactly when a matching slot was found and the requested status is \<^verbatim>\<open>rejected\<close>, or
  \<^verbatim>\<open>accepted\<close> for a booking whose consultation type is \<^verbatim>\<open>Video call\<close> or
  \<^verbatim>\<open>In-person\<close>; the mails sent are those of \<open>noticeSubjects\<close>, chosen by the
  consultation type for an acceptance. The calendar event is created exactly when the
  requested status is \<^verbatim>\<open>accepted\<close>, the booking has no meeting link and its consultation
  type is \<^verbatim>\<open>Video call\<close>, whether a slot matches or not.
\<close>

theorem notifications_and_calendar:
  assumes "findBooking_err E = None" and "bookings w bookingId = Some b"
    and "doctors w (booking_doctor b) = Some d"
    and "fst (updateBooking L E now bookingId requested w) = Redirect ''/doctor/bookings''"
  shows "(outbox (snd (updateBooking L E now bookingId requested w)) \<noteq> outbox w
          \<longleftrightarrow> (\<exists>i. findIndex (slotMatches L b) (timeSlots d) = Inr (Some i))
              \<and> (requested = ''rejected''
                 \<or> requested = ''accepted''
                   \<and> (consultationType b = ''Video call'' \<or> consultationType b = ''In-person'')))
     \<and> (\<exists>ms. outbox (snd (updateBooking L E now bookingId requested w)) = outbox w @ ms
           \<and> map mail_subject ms
             = (if \<exists>i. findIndex (slotMatches L b) (timeSlots d) = Inr (Some i)
                then noticeSubjects requested b else []))
     \<and> (chats (snd (updateBooking L E now bookingId requested w)) \<noteq> chats w
          \<longleftrightarrow> (\<exists>i. findIndex (slotMatches L b) (timeSlots d) = Inr (Some i))
              \<and> (requested = ''rejected''
                 \<or> requested = ''accepted''
                   \<and> (consultationType b = ''Video call'' \<or> consultationType b = ''In-person'')))
     \<and> (calendar (snd (updateBooking L E now bookingId requested w)) \<noteq> calendar w
          \<longleftrightarrow> requested = ''accepted'' \<and> \<not> truthy (meetingLink b)
              \<and> consultationType b = ''Video call'')"
proof -
  let ?r = "updateBooking L E now bookingId requested w"
  have r: "?r = (Redirect ''/doctor/bookings'', snd ?r)"
    using assms(4) by (simp add: prod_eq_iff)
  note e = updateBooking_effects[OF assms(1-3) r]
  from e obtain ms where ms: "outbox (snd ?r) = outbox w @ ms"
    "map mail_subject ms = (if slotFound L b d then noticeSubjects requested b else [])"
    by blast
  have "outbox (snd ?r) \<noteq> outbox w \<longleftrightarrow> ms \<noteq> []" using ms(1) by simp
  also have "\<dots> \<longleftrightarrow> slotFound L b d \<and> notifies requested b"
    using ms(2) by (auto simp: notifies_def noticeSubjects_def split: if_splits)
  finally have o: "outbox (snd ?r) \<noteq> outbox w \<longleftrightarrow> slotFound L b d \<and> notifies requested b" .
  from o e ms show ?thesis
    unfolding slotFound_def notifies_def needsMeetingLink_def by blast
qed

theorem notifications_and_calendar_witness:
  "map mail_subject (outbox (snd (updateBooking juneLib calmEnv beforeEnd ''booking1''
       ''accepted'' (sampleWorld (sampleBooking ''waiting'' ''Video call'')))))
     = [''Appointment Confirmation'', ''Appointment Confirmation Notification'']
   \<and> chats (snd (updateBooking juneLib calmEnv beforeEnd ''booking1''
       ''accepted'' (sampleWorld (sampleBooking ''waiting'' ''Video call''))))
     \<noteq> chats (sampleWorld (sampleBooking ''waiting'' ''Video call''))
   \<and> calendar (snd (updateBooking juneLib calmEnv beforeEnd ''booking1''
       ''accepted'' (sampleWorld (sampleBooking ''waiting'' ''Video call''))))
     \<noteq> calendar (sampleWorld (sampleBooking ''waiting'' ''Video call''))"
proof -
  let ?b = "sampleBooking ''waiting'' ''Video call''"
  have d: "doctors (sampleWorld ?b) (booking_doctor ?b) = Some sampleDoctor"
    by (simp add: sample_doctor sample_fields)
  have i: "\<exists>i. findIndex (slotMatches juneLib ?b) (timeSlots sampleDoctor) = Inr (Some i)"
    using sample_index by blast
  have o: "outbox (sampleWorld ?b) = []"
    by (simp add: sampleWorld_def)
  from notifications_and_calendar[OF calm(1) sample_found d run_video] i o
  show ?thesis
    by (auto simp: sample_fields noticeSubjects_def truthy_def)
qed

text \<open>
  C6, as the claim states it, fails: the handler of \<^verbatim>\<open>GET /doctor/subscribe\<close> has no
  \<^verbatim>\<open>try\<close>, so an exception thrown while it renders the form leaves the handler.
\<close>

theorem unguarded_handler_counterexample:
  "(''GET'', ''/doctor/subscribe'', None) \<in> set doctorRoutes
   \<and> serve None (throw (Error ''Cannot find module ejs'')) (sampleWorld (sampleBooking ''waiting'' ''Video call''))
     = (Inl (Error ''Cannot find module ejs''), sampleWorld (sampleBooking ''waiting'' ''Video call''))"
  by (simp add: doctorRoutes_def serve_def throw_def)

text \<open>
  C6, amended. For every route handler of the doctor and patient routers other than the
  three static pages (\<^verbatim>\<open>GET /doctor/subscribe\<close>, \<^verbatim>\<open>GET /doctor/subscription-failure\<close>,
  \<^verbatim>\<open>GET /doctor/blog\<close>, whose handlers have no \<^verbatim>\<open>try\<close>): an exception thrown by the body
  is caught in the handler, an entry that holds the message of the error or the error
  itself is logged, and the answer is status 500 with a generic body; a body that returns
  is answered as it returns; and no run of the handler lets an exception out.
\<close>

theorem exceptions_are_caught:
  "\<forall>(verb, path, c) \<in> set (doctorRoutes @ patientRoutes).
     (verb, path) \<notin> set staticPages \<longrightarrow>
       (\<exists>cb. c = Some cb \<and> genericAnswer (answer cb)
          \<and> (\<forall>body e w w1. body w = (Inl e, w1) \<longrightarrow>
                serve c body w
                  = (Inr (answer cb), w1\<lparr>console := console w1 @ [logged (logs cb) e]\<rparr>)
                \<and> mentions e (logged (logs cb) e))
          \<and> (\<forall>body r w w1. body w = (Inr r, w1) \<longrightarrow> serve c body w = (Inr r, w1))
          \<and> (\<forall>body w. \<exists>r w'. serve c body w = (Inr r, w')))"
proof -
  have "\<forall>(verb, path, c) \<in> set (doctorRoutes @ patientRoutes).
      (verb, path) \<notin> set staticPages \<longrightarrow> (\<exists>cb. c = Some cb \<and> genericAnswer (answer cb))"
    using doctor_routes_guarded patient_routes_guarded by auto
  then show ?thesis
    using serve_caught serve_returned serve_never_escapes logged_mentions
    by (fastforce simp: split_def)
qed

theorem exceptions_are_caught_witness:
  "serve messageThenServerError
     (updateBookingBody juneLib saveFailsEnv beforeEnd ''booking1'' ''rejected'')
     (sampleWorld (sampleBooking ''waiting'' ''Video call''))
   = (Inr (Send 500 ''Server Error''),
      (sampleWorld (sampleBooking ''waiting'' ''Video call''))\<lparr>console := [[Str ''write failed'']]\<rparr>)"
proof -
  have r: "(''POST'', ''/doctor/bookings/:id'', messageThenServerError)
      \<in> set (doctorRoutes @ patientRoutes)"
    by (simp add: doctorRoutes_def)
  have s: "(''POST'', ''/doctor/bookings/:id'') \<notin> set staticPages"
    by (simp add: staticPages_def)
  from exceptions_are_caught[THEN bspec, OF r] s
  obtain cb where cb: "messageThenServerError = Some cb"
    and c: "\<forall>body e w (w1 :: nat world). body w = (Inl e, w1) \<longrightarrow>
                serve messageThenServerError body w
                  = (Inr (answer cb), w1\<lparr>console := console w1 @ [logged (logs cb) e]\<rparr>)
                \<and> mentions e (logged (logs cb) e)"
    by auto
  from cb have "cb = \<lparr>logs = LogMessage, answer = Send 500 ''Server Error''\<rparr>"
    by (simp add: messageThenServerError_def)
  with c[rule_format,
      where body = "updateBookingBody juneLib saveFailsEnv beforeEnd ''booking1'' ''rejected''"
        and w = "sampleWorld (sampleBooking ''waiting'' ''Video call'')",
      OF save_fails_run]
  show ?thesis
    by (simp add: logged_def sampleWorld_def)
qed

text \<open>
  C7. There is no transaction around the write of the booking and the write of the
  doctor: they are two calls, and nothing undoes the first when the second does not
  happen. In \<^verbatim>\<open>POST /patient/book\<close>, when the booking is saved and then the save of the
  doctor rejects, or the lookup of the doctor throws, the answer is status 500, the
  booking is stored and no slot is marked; in \<^verbatim>\<open>POST /doctor/bookings/:id\<close>, when the
  booking is saved and then the save of the doctor rejects, the answer is status 500, the
  new status of the booking is stored and the doctors are as they were. Three steps of a
  request to \<^verbatim>\<open>POST /patient/book\<close> that runs alone give what the handler gives. For two
  requests of logged-in patients whose calls all succeed and which ask for the same first
  matching slot of the same doctor, in every order in which their three steps each can
  interleave (every schedule with three steps of each), both are answered with the redirect and both bookings are stored with the
  status \<^verbatim>\<open>waiting\<close>, while the doctor has that one slot marked \<^verbatim>\<open>booked\<close>: two
  bookings hold the same slot.
\<close>

theorem two_writes_without_transaction:
  assumes "patientLoggedIn (Some u)"
  shows "(\<forall>d i e. bookingSave_err E = None \<longrightarrow> findDoctor_err E = None \<longrightarrow>
            doctors w (req_doctorId req) = Some d \<longrightarrow>
            find_first (slotRequested L req) (timeSlots d) = Some i \<longrightarrow>
            doctorSave_err E = Some e \<longrightarrow>
              book L E (Some u) req w
              = (Send 500 ''Server Error'',
                 w\<lparr>bookings := (bookings w)(newId E \<mapsto> newBooking L (user_id u) req),
                   console := console w @ [[Str (message e)]]\<rparr>))
     \<and> (\<forall>e. bookingSave_err E = None \<longrightarrow> findDoctor_err E = Some e \<longrightarrow>
              book L E (Some u) req w
              = (Send 500 ''Server Error'',
                 w\<lparr>bookings := (bookings w)(newId E \<mapsto> newBooking L (user_id u) req),
                   console := console w @ [[Str (message e)]]\<rparr>))
     \<and> (\<forall>now bookingId requested b b2 w1 d i e.
            findBooking_err E = None \<longrightarrow> bookings w bookingId = Some b \<longrightarrow>
            attachMeetingLink L E requested (assignStatus L now requested b)
              (doctors w (booking_doctor b)) (patients w (booking_patient b)) w = (Inr b2, w1) \<longrightarrow>
            bookingSave_err E = None \<longrightarrow>
            doctors w (booking_doctor b) = Some d \<longrightarrow>
            findIndex (slotMatches L b) (timeSlots d) = Inr (Some i) \<longrightarrow>
            doctorSave_err E = Some e \<longrightarrow>
              fst (updateBooking L E now bookingId requested w) = Send 500 ''Server Error''
              \<and> map_option status
                  (bookings (snd (updateBooking L E now bookingId requested w)) bookingId)
                = Some (status (assignStatus L now requested b))
              \<and> doctors (snd (updateBooking L E now bookingId requested w)) = doctors w)
     \<and> (\<forall>c2 s2. runSchedule L (E, user_id u, req) c2 [True, True, True] (AtBookingSave, s2, w)
            = (Answered (fst (book L E (Some u) req w)), s2, snd (book L E (Some u) req w)))
     \<and> (\<forall>s. s \<in> set (interleavings 3 3) \<longleftrightarrow>
            length (filter (\<lambda>first. first) s) = 3 \<and> length (filter Not s) = 3)
     \<and> (\<forall>E2 u2 req2 d i.
            patientLoggedIn (Some u2) \<longrightarrow> newId E2 \<noteq> newId E \<longrightarrow>
            bookingSave_err E = None \<and> findDoctor_err E = None \<and> doctorSave_err E = None \<longrightarrow>
            bookingSave_err E2 = None \<and> findDoctor_err E2 = None \<and> doctorSave_err E2 = None \<longrightarrow>
            req_doctorId req2 = req_doctorId req \<longrightarrow>
            doctors w (req_doctorId req) = Some d \<longrightarrow>
            find_first (slotRequested L req) (timeSlots d) = Some i \<longrightarrow>
            find_first (slotRequested L req2) (timeSlots d) = Some i \<longrightarrow>
              status (newBooking L (user_id u) req) = ''waiting''
              \<and> status (newBooking L (user_id u2) req2) = ''waiting''
              \<and> (\<forall>s \<in> set (interleavings 3 3).
                   runSchedule L (E, user_id u, req) (E2, user_id u2, req2) s
                     (AtBookingSave, AtBookingSave, w)
                   = (Answered (Redirect ''/patient/bookings''),
                      Answered (Redirect ''/patient/bookings''),
                      w\<lparr>bookings := (bookings w)
                            (newId E \<mapsto> newBooking L (user_id u) req,
                             newId E2 \<mapsto> newBooking L (user_id u2) req2),
                        doctors := (doctors w)
                            (req_doctorId req \<mapsto> setSlotStatus d i ''booked'')\<rparr>)))"
proof (intro conjI allI impI ballI)
  fix d i e
  assume "bookingSave_err E = None" "findDoctor_err E = None"
    "doctors w (req_doctorId req) = Some d"
    "find_first (slotRequested L req) (timeSlots d) = Some i" "doctorSave_err E = Some e"
  then show "book L E (Some u) req w
      = (Send 500 ''Server Error'',
         w\<lparr>bookings := (bookings w)(newId E \<mapsto> newBooking L (user_id u) req),
           console := console w @ [[Str (message e)]]\<rparr>)"
    by (simp add: book_doctor_save_rejected[OF assms] serverError_def)
next
  fix e
  assume "bookingSave_err E = None" "findDoctor_err E = Some e"
  then show "book L E (Some u) req w
      = (Send 500 ''Server Error'',
         w\<lparr>bookings := (bookings w)(newId E \<mapsto> newBooking L (user_id u) req),
           console := console w @ [[Str (message e)]]\<rparr>)"
    by (simp add: book_lookup_rejected[OF assms] serverError_def)
next
  fix now bookingId requested b b2 w1 d i e
  assume h: "findBooking_err E = None" "bookings w bookingId = Some b"
    "attachMeetingLink L E requested (assignStatus L now requested b)
       (doctors w (booking_doctor b)) (patients w (booking_patient b)) w = (Inr b2, w1)"
    "bookingSave_err E = None" "doctors w (booking_doctor b) = Some d"
    "findIndex (slotMatches L b) (timeSlots d) = Inr (Some i)" "doctorSave_err E = Some e"
  note r = updateBooking_without_rollback[OF h]
  show "fst (updateBooking L E now bookingId requested w) = Send 500 ''Server Error''"
    by (rule conjunct1[OF r])
  show "map_option status
        (bookings (snd (updateBooking L E now bookingId requested w)) bookingId)
      = Some (status (assignStatus L now requested b))"
    by (rule conjunct1[OF conjunct2[OF r]])
  show "doctors (snd (updateBooking L E now bookingId requested w)) = doctors w"
    by (rule conjunct2[OF conjunct2[OF r]])
next
  fix c2 :: book_call and s2
  show "runSchedule L (E, user_id u, req) c2 [True, True, True] (AtBookingSave, s2, w)
      = (Answered (fst (book L E (Some u) req w)), s2, snd (book L E (Some u) req w))"
    by (rule steps_alone[OF assms])
next
  fix s
  show "s \<in> set (interleavings 3 3) \<longleftrightarrow>
      length (filter (\<lambda>first. first) s) = 3 \<and> length (filter Not s) = 3"
    by (rule interleavings_iff)
next
  fix E2 :: env and u2 :: user and req2 :: book_request and d i
  show "status (newBooking L (user_id u) req) = ''waiting''"
    "status (newBooking L (user_id u2) req2) = ''waiting''"
    by (simp_all add: newBooking_def)
next
  fix E2 :: env and u2 :: user and req2 :: book_request and d i s
  assume ids: "newId E2 \<noteq> newId E"
    and ok1: "bookingSave_err E = None \<and> findDoctor_err E = None \<and> doctorSave_err E = None"
    and ok2: "bookingSave_err E2 = None \<and> findDoctor_err E2 = None \<and> doctorSave_err E2 = None"
    and g: "req_doctorId req2 = req_doctorId req" "doctors w (req_doctorId req) = Some d"
      "find_first (slotRequested L req) (timeSlots d) = Some i"
      "find_first (slotRequested L req2) (timeSlots d) = Some i"
    and s: "s \<in> set (interleavings 3 3)"
  from ok1 have a: "bookingSave_err E = None" "findDoctor_err E = None" "doctorSave_err E = None"
    by simp_all
  from ok2 have b: "bookingSave_err E2 = None" "findDoctor_err E2 = None"
    "doctorSave_err E2 = None"
    by simp_all
  show "runSchedule L (E, user_id u, req) (E2, user_id u2, req2) s
         (AtBookingSave, AtBookingSave, w)
       = (Answered (Redirect ''/patient/bookings''),
          Answered (Redirect ''/patient/bookings''),
          w\<lparr>bookings := (bookings w)
                (newId E \<mapsto> newBooking L (user_id u) req,
                 newId E2 \<mapsto> newBooking L (user_id u2) req2),
            doctors := (doctors w)
                (req_doctorId req \<mapsto> setSlotStatus d i ''booked'')\<rparr>)"
    by (rule two_requests_one_slot[OF ids a b g, THEN bspec, OF s])
qed

theorem two_writes_without_transaction_witness:
  "map slot_status (timeSlots sampleDoctor) = [''free'', ''booked'', ''free'']
   \<and> (let R = book juneLib doctorSaveFailsEnv (Some sampleUser)
                (sampleRequest\<lparr>req_date := ''2024-06-09T00:00:00.000Z''\<rparr>)
                (sampleWorld (sampleBooking ''accepted'' ''Video call''))
      in fst R = Send 500 ''Server Error''
         \<and> map_option (\<lambda>b. (status b, date b, time b)) (bookings (snd R) ''booking2'')
           = Some (''waiting'', 9, ''10:00 - 10:30'')
         \<and> map_option (\<lambda>d. map slot_status (timeSlots d)) (doctors (snd R) ''doctor1'')
           = Some [''free'', ''booked'', ''free''])
   \<and> (let R = runSchedule juneLib
                (calmEnv, ''patient1'', sampleRequest\<lparr>req_date := ''2024-06-09T00:00:00.000Z''\<rparr>)
                (secondEnv, ''patient2'', sampleRequest\<lparr>req_date := ''2024-06-09T00:00:00.000Z''\<rparr>)
                [True, False, True, False, True, False]
                (AtBookingSave, AtBookingSave, sampleWorld (sampleBooking ''accepted'' ''Video call''))
      in fst R = Answered (Redirect ''/patient/bookings'')
         \<and> fst (snd R) = Answered (Redirect ''/patient/bookings'')
         \<and> map_option (\<lambda>b. (booking_patient b, status b, date b, time b))
             (bookings (snd (snd R)) ''booking2'')
           = Some (''patient1'', ''waiting'', 9, ''10:00 - 10:30'')
         \<and> map_option (\<lambda>b. (booking_patient b, status b, date b, time b))
             (bookings (snd (snd R)) ''booking3'')
           = Some (''patient2'', ''waiting'', 9, ''10:00 - 10:30'')
         \<and> map_option (\<lambda>d. map slot_status (timeSlots d)) (doctors (snd (snd R)) ''doctor1'')
           = Some [''booked'', ''booked'', ''free''])
   \<and> (let R = updateBooking juneLib doctorSaveFailsEnv beforeEnd ''booking1'' ''rejected''
                (sampleWorld (sampleBooking ''waiting'' ''Video call''))
      in fst R = Send 500 ''Server Error''
         \<and> map_option status (bookings (snd R) ''booking1'') = Some ''rejected''
         \<and> map_option (\<lambda>d. map slot_status (timeSlots d)) (doctors (snd R) ''doctor1'')
           = Some [''free'', ''booked'', ''free''])"
proof -
  let ?w = "sampleWorld (sampleBooking ''accepted'' ''Video call'')"
  let ?v = "sampleWorld (sampleBooking ''waiting'' ''Video call'')"
  let ?r9 = "sampleRequest\<lparr>req_date := ''2024-06-09T00:00:00.000Z''\<rparr>"
  note t = two_writes_without_transaction[OF sample_user(1), where L = juneLib]
  have d: "doctors ?w (req_doctorId ?r9) = Some sampleDoctor"
    by (simp add: sampleWorld_def sampleRequest_def)
  have nb: "newBooking juneLib p ?r9
      = \<lparr>booking_patient = p, booking_doctor = ''doctor1'', date = 9, time = ''10:00 - 10:30'',
         consultationType = ''Video call'', status = ''waiting'', meetingLink = None,
         booking_hospital = None\<rparr>" for p
    by (simp add: newBooking_def sampleRequest_def juneLib_def read_two_def digit_value_def)
  have s0: "map slot_status (timeSlots sampleDoctor) = [''free'', ''booked'', ''free'']"
    by (simp add: sampleDoctor_def sampleSlots_def)
  have fails: "book juneLib doctorSaveFailsEnv (Some sampleUser) ?r9 ?w
      = (Send 500 ''Server Error'',
         ?w\<lparr>bookings := (bookings ?w)(newId doctorSaveFailsEnv \<mapsto>
                newBooking juneLib (user_id sampleUser) ?r9),
            console := console ?w @ [[Str (message (Error ''write failed''))]]\<rparr>)"
    using t[where E = doctorSaveFailsEnv and w = ?w and req = ?r9, THEN conjunct1, rule_format,
        OF doctor_save_fails_env(2) doctor_save_fails_env(3) d sample_requested_free
        doctor_save_fails_env(4)] .
  have f: "fst (book juneLib doctorSaveFailsEnv (Some sampleUser) ?r9 ?w)
        = Send 500 ''Server Error''"
    "map_option (\<lambda>b. (status b, date b, time b))
        (bookings (snd (book juneLib doctorSaveFailsEnv (Some sampleUser) ?r9 ?w)) ''booking2'')
      = Some (''waiting'', 9, ''10:00 - 10:30'')"
    "map_option (\<lambda>d. map slot_status (timeSlots d))
        (doctors (snd (book juneLib doctorSaveFailsEnv (Some sampleUser) ?r9 ?w)) ''doctor1'')
      = Some [''free'', ''booked'', ''free'']"
    unfolding fails
    by (simp_all add: doctor_save_fails_env nb sample_doctor s0)
  have ok: "bookingSave_err calmEnv = None \<and> findDoctor_err calmEnv = None
      \<and> doctorSave_err calmEnv = None"
    "bookingSave_err secondEnv = None \<and> findDoctor_err secondEnv = None
      \<and> doctorSave_err secondEnv = None"
    by (simp_all add: second_env)
  have ids: "newId secondEnv \<noteq> newId calmEnv"
    by (simp add: second_env)
  have both: "runSchedule juneLib (calmEnv, user_id sampleUser, ?r9)
        (secondEnv, user_id otherUser, ?r9) [True, False, True, False, True, False]
        (AtBookingSave, AtBookingSave, ?w)
      = (Answered (Redirect ''/patient/bookings''), Answered (Redirect ''/patient/bookings''),
         ?w\<lparr>bookings := (bookings ?w)
                (newId calmEnv \<mapsto> newBooking juneLib (user_id sampleUser) ?r9,
                 newId secondEnv \<mapsto> newBooking juneLib (user_id otherUser) ?r9),
            doctors := (doctors ?w)
                (req_doctorId ?r9 \<mapsto> setSlotStatus sampleDoctor 0 ''booked'')\<rparr>)"
    using t[where E = calmEnv and w = ?w and req = ?r9, THEN conjunct2, THEN conjunct2,
        THEN conjunct2, THEN conjunct2, THEN conjunct2, rule_format, OF other_user(1) ids ok refl d
        sample_requested_free sample_requested_free, THEN conjunct2, THEN conjunct2,
        THEN bspec, OF alternating_schedule] .
  have g: "fst (runSchedule juneLib (calmEnv, ''patient1'', ?r9) (secondEnv, ''patient2'', ?r9)
        [True, False, True, False, True, False] (AtBookingSave, AtBookingSave, ?w))
      = Answered (Redirect ''/patient/bookings'')"
    "fst (snd (runSchedule juneLib (calmEnv, ''patient1'', ?r9) (secondEnv, ''patient2'', ?r9)
        [True, False, True, False, True, False] (AtBookingSave, AtBookingSave, ?w)))
      = Answered (Redirect ''/patient/bookings'')"
    "map_option (\<lambda>b. (booking_patient b, status b, date b, time b))
        (bookings (snd (snd (runSchedule juneLib (calmEnv, ''patient1'', ?r9)
          (secondEnv, ''patient2'', ?r9) [True, False, True, False, True, False]
          (AtBookingSave, AtBookingSave, ?w)))) ''booking2'')
      = Some (''patient1'', ''waiting'', 9, ''10:00 - 10:30'')"
    "map_option (\<lambda>b. (booking_patient b, status b, date b, time b))
        (bookings (snd (snd (runSchedule juneLib (calmEnv, ''patient1'', ?r9)
          (secondEnv, ''patient2'', ?r9) [True, False, True, False, True, False]
          (AtBookingSave, AtBookingSave, ?w)))) ''booking3'')
      = Some (''patient2'', ''waiting'', 9, ''10:00 - 10:30'')"
    "map_option (\<lambda>d. map slot_status (timeSlots d))
        (doctors (snd (snd (runSchedule juneLib (calmEnv, ''patient1'', ?r9)
          (secondEnv, ''patient2'', ?r9) [True, False, True, False, True, False]
          (AtBookingSave, AtBookingSave, ?w)))) ''doctor1'')
      = Some [''booked'', ''booked'', ''free'']"
    unfolding both[unfolded sample_user(2) other_user(2)]
    by (simp_all add: second_env newBooking_def juneLib_def read_two_def digit_value_def
        sampleRequest_def setSlotStatus_def sampleDoctor_def sampleSlots_def)
  have n: "\<not> needsMeetingLink ''rejected''
      (assignStatus juneLib beforeEnd ''rejected'' (sampleBooking ''waiting'' ''Video call''))"
    by (simp add: needsMeetingLink_def)
  have dv: "doctors ?v (booking_doctor (sampleBooking ''waiting'' ''Video call''))
      = Some sampleDoctor"
    by (simp add: sample_doctor sample_fields)
  note r = t[where E = doctorSaveFailsEnv and w = ?v, THEN conjunct2, THEN conjunct2,
      THEN conjunct1, rule_format, OF doctor_save_fails_env(1) sample_found
      attach_not_needed[OF n] doctor_save_fails_env(2) dv sample_index
      doctor_save_fails_env(4)]
  have h: "fst (updateBooking juneLib doctorSaveFailsEnv beforeEnd ''booking1'' ''rejected'' ?v)
        = Send 500 ''Server Error''"
    "map_option status (bookings (snd (updateBooking juneLib doctorSaveFailsEnv beforeEnd
        ''booking1'' ''rejected'' ?v)) ''booking1'') = Some ''rejected''"
    "map_option (\<lambda>d. map slot_status (timeSlots d))
        (doctors (snd (updateBooking juneLib doctorSaveFailsEnv beforeEnd
          ''booking1'' ''rejected'' ?v)) ''doctor1'')
      = Some [''free'', ''booked'', ''free'']"
    using r sample_before[of "''waiting''" "''Video call''"]
    by (simp_all add: assignStatus_def sample_doctor s0)
  show ?thesis
    unfolding Let_def
    by (intro conjI s0 f g h)
qed

text \<open>
  C8, as the claim states it, fails: the booking is not always saved. The handler awaits
  \<^verbatim>\<open>booking.save()\<close> inside its \<^verbatim>\<open>try\<close> block, and when that call rejects (the database
  refuses the document or cannot be reached) the request of a logged-in patient is
  answered with status 500 and the collection of bookings is as it was.
\<close>

theorem book_save_rejected_counterexample:
  "patientLoggedIn (Some sampleUser)
   \<and> book juneLib saveFailsEnv (Some sampleUser) sampleRequest
       (sampleWorld (sampleBooking ''accepted'' ''Video call''))
     = (Send 500 ''Server Error'',
        (sampleWorld (sampleBooking ''accepted'' ''Video call''))
          \<lparr>console := [[Str ''write failed'']]\<rparr>)
   \<and> bookings (snd (book juneLib saveFailsEnv (Some sampleUser) sampleRequest
       (sampleWorld (sampleBooking ''accepted'' ''Video call'')))) ''booking2'' = None
   \<and> dom (bookings (snd (book juneLib saveFailsEnv (Some sampleUser) sampleRequest
       (sampleWorld (sampleBooking ''accepted'' ''Video call''))))) = {''booking1''}"
proof -
  have "book juneLib saveFailsEnv (Some sampleUser) sampleRequest
       (sampleWorld (sampleBooking ''accepted'' ''Video call''))
     = serverError (Error ''write failed'')
         (sampleWorld (sampleBooking ''accepted'' ''Video call''))"
    by (rule book_save_rejected[OF sample_user(1)]) (simp add: saveFailsEnv_def)
  then show ?thesis
    by (simp add: sample_user serverError_def sampleWorld_def)
qed

text \<open>
  C8, amended. \<^verbatim>\<open>POST /patient/book\<close>, for a logged-in patient and any strings given as
  doctor id, date, time and consultation type, builds a booking of status \<^verbatim>\<open>waiting\<close>
  for that patient, doctor, date and time, and saves it before anything else, with no
  look at the slot. When \<^verbatim>\<open>booking.save()\<close> resolves, the booking is stored when the
  handler is done, in every run; when it rejects, the answer is status 500 and nothing
  but the log changes. A slot matches when the ISO string of its date is the date string
  of the request and its start time is the part of the time before the separator, and
  \<^verbatim>\<open>find\<close> returns the first such slot and no other. When the doctor is found and some
  slot matches, the save of the doctor resolving, the first matching slot and only that
  one is given the status \<^verbatim>\<open>booked\<close>, whatever its status was, and the answer is the
  redirect. When the lookup of the doctor fails, or there is no such doctor (status
  404), or no slot matches, or the save of the doctor rejects, the doctors are left as
  they are and the booking stays.
\<close>

theorem book_without_availability_check:
  assumes "patientLoggedIn (Some u)"
  shows "status (newBooking L (user_id u) req) = ''waiting''
     \<and> booking_patient (newBooking L (user_id u) req) = user_id u
     \<and> booking_doctor (newBooking L (user_id u) req) = req_doctorId req
     \<and> date (newBooking L (user_id u) req) = newDate L (req_date req)
     \<and> time (newBooking L (user_id u) req) = req_time req
     \<and> (bookingSave_err E = None \<longrightarrow>
          bookings (snd (book L E (Some u) req w))
          = (bookings w)(newId E \<mapsto> newBooking L (user_id u) req))
     \<and> (\<forall>e. bookingSave_err E = Some e \<longrightarrow>
          book L E (Some u) req w
          = (Send 500 ''Server Error'', w\<lparr>console := console w @ [[Str (message e)]]\<rparr>))
     \<and> (\<forall>slot. slotRequested L req slot \<longleftrightarrow>
           (\<exists>dt. slot_date slot = Some dt \<and> toISOString L dt = req_date req
              \<and> startTime slot = hd (split_dash (req_time req))))
     \<and> (\<forall>d i. find_first (slotRequested L req) (timeSlots d) = Some i \<longleftrightarrow>
           i < length (timeSlots d) \<and> slotRequested L req (timeSlots d ! i)
           \<and> (\<forall>j < i. \<not> slotRequested L req (timeSlots d ! j)))
     \<and> (\<forall>d. bookingSave_err E = None \<longrightarrow> findDoctor_err E = None \<longrightarrow>
           doctors w (req_doctorId req) = Some d \<longrightarrow>
           (\<exists>slot \<in> set (timeSlots d). slotRequested L req slot) \<longrightarrow>
           doctorSave_err E = None \<longrightarrow>
           (\<exists>i < length (timeSlots d).
               slotRequested L req (timeSlots d ! i)
               \<and> (\<forall>j < i. \<not> slotRequested L req (timeSlots d ! j))
               \<and> book L E (Some u) req w
                 = (Redirect ''/patient/bookings'',
                    w\<lparr>bookings := (bookings w)(newId E \<mapsto> newBooking L (user_id u) req),
                      doctors := (doctors w)(req_doctorId req \<mapsto>
                        d\<lparr>timeSlots := (timeSlots d)
                             [i := (timeSlots d ! i)\<lparr>slot_status := ''booked''\<rparr>]\<rparr>)\<rparr>)))
     \<and> (bookingSave_err E = None \<longrightarrow>
          (findDoctor_err E \<noteq> None \<or> doctors w (req_doctorId req) = None
           \<or> (\<exists>d. doctors w (req_doctorId req) = Some d
                 \<and> ((\<forall>slot \<in> set (timeSlots d). \<not> slotRequested L req slot)
                    \<or> doctorSave_err E \<noteq> None))) \<longrightarrow>
          doctors (snd (book L E (Some u) req w)) = doctors w
          \<and> bookings (snd (book L E (Some u) req w))
            = (bookings w)(newId E \<mapsto> newBooking L (user_id u) req))
     \<and> (bookingSave_err E = None \<longrightarrow> findDoctor_err E = None \<longrightarrow>
          doctors w (req_doctorId req) = None \<longrightarrow>
          fst (book L E (Some u) req w) = Send 404 ''Doctor not found'')"
proof (intro conjI allI impI)
  show "status (newBooking L (user_id u) req) = ''waiting''"
    "booking_patient (newBooking L (user_id u) req) = user_id u"
    "booking_doctor (newBooking L (user_id u) req) = req_doctorId req"
    "date (newBooking L (user_id u) req) = newDate L (req_date req)"
    "time (newBooking L (user_id u) req) = req_time req"
    by (simp_all add: newBooking_def)
next
  assume "bookingSave_err E = None"
  then show "bookings (snd (book L E (Some u) req w))
      = (bookings w)(newId E \<mapsto> newBooking L (user_id u) req)"
    by (rule book_saved[OF assms])
next
  fix e
  assume "bookingSave_err E = Some e"
  then show "book L E (Some u) req w
      = (Send 500 ''Server Error'', w\<lparr>console := console w @ [[Str (message e)]]\<rparr>)"
    by (simp add: book_save_rejected[OF assms] serverError_def)
next
  fix slot
  show "slotRequested L req slot \<longleftrightarrow>
           (\<exists>dt. slot_date slot = Some dt \<and> toISOString L dt = req_date req
              \<and> startTime slot = hd (split_dash (req_time req)))"
    by (rule slotRequested_iff)
next
  fix d i
  show "find_first (slotRequested L req) (timeSlots d) = Some i \<longleftrightarrow>
           i < length (timeSlots d) \<and> slotRequested L req (timeSlots d ! i)
           \<and> (\<forall>j < i. \<not> slotRequested L req (timeSlots d ! j))"
    by (rule find_first_iff)
next
  fix d
  assume h: "bookingSave_err E = None" "findDoctor_err E = None"
    "doctors w (req_doctorId req) = Some d"
    "\<exists>slot \<in> set (timeSlots d). slotRequested L req slot" "doctorSave_err E = None"
  from find_first_exists[OF h(4)] obtain i
    where i: "find_first (slotRequested L req) (timeSlots d) = Some i" ..
  note f = find_first_Some[OF i]
  have "book L E (Some u) req w
      = (Redirect ''/patient/bookings'',
         w\<lparr>bookings := (bookings w)(newId E \<mapsto> newBooking L (user_id u) req),
           doctors := (doctors w)(req_doctorId req \<mapsto>
             d\<lparr>timeSlots := (timeSlots d)
                  [i := (timeSlots d ! i)\<lparr>slot_status := ''booked''\<rparr>]\<rparr>)\<rparr>)"
    by (simp add: book_slot[OF assms h(1,2,3) i h(5)] setSlotStatus_def)
  with f show "\<exists>i < length (timeSlots d).
               slotRequested L req (timeSlots d ! i)
               \<and> (\<forall>j < i. \<not> slotRequested L req (timeSlots d ! j))
               \<and> book L E (Some u) req w
                 = (Redirect ''/patient/bookings'',
                    w\<lparr>bookings := (bookings w)(newId E \<mapsto> newBooking L (user_id u) req),
                      doctors := (doctors w)(req_doctorId req \<mapsto>
                        d\<lparr>timeSlots := (timeSlots d)
                             [i := (timeSlots d ! i)\<lparr>slot_status := ''booked''\<rparr>]\<rparr>)\<rparr>)"
    by blast
next
  assume s: "bookingSave_err E = None"
    and c: "findDoctor_err E \<noteq> None \<or> doctors w (req_doctorId req) = None
           \<or> (\<exists>d. doctors w (req_doctorId req) = Some d
                 \<and> ((\<forall>slot \<in> set (timeSlots d). \<not> slotRequested L req slot)
                    \<or> doctorSave_err E \<noteq> None))"
  show "bookings (snd (book L E (Some u) req w))
      = (bookings w)(newId E \<mapsto> newBooking L (user_id u) req)"
    by (rule book_saved[OF assms s])
  show "doctors (snd (book L E (Some u) req w)) = doctors w"
  proof (cases "findDoctor_err E")
    case (Some e)
    then show ?thesis by (simp add: book_lookup_rejected[OF assms s] serverError_def)
  next
    case None
    show ?thesis
    proof (cases "doctors w (req_doctorId req)")
      case n: None
      then show ?thesis by (simp add: book_no_doctor[OF assms s None])
    next
      case (Some d)
      show ?thesis
      proof (cases "find_first (slotRequested L req) (timeSlots d)")
        case n: None
        then show ?thesis by (simp add: book_no_match[OF assms s None Some])
      next
        case i: (Some i)
        then have "\<not> (\<forall>slot \<in> set (timeSlots d). \<not> slotRequested L req slot)"
          by (simp add: find_first_None[symmetric])
        with c None Some obtain e where "doctorSave_err E = Some e" by auto
        then show ?thesis
          by (simp add: book_doctor_save_rejected[OF assms s None Some i] serverError_def)
      qed
    qed
  qed
next
  assume "bookingSave_err E = None" "findDoctor_err E = None"
    "doctors w (req_doctorId req) = None"
  then show "fst (book L E (Some u) req w) = Send 404 ''Doctor not found''"
    by (simp add: book_no_doctor[OF assms])
qed

theorem book_without_availability_check_witness:
  "map slot_status (timeSlots sampleDoctor) = [''free'', ''booked'', ''free'']
   \<and> (let R = book juneLib calmEnv (Some sampleUser) sampleRequest
                (sampleWorld (sampleBooking ''accepted'' ''Video call''))
      in fst R = Redirect ''/patient/bookings''
         \<and> map_option (\<lambda>b. (status b, time b)) (bookings (snd R) ''booking1'')
           = Some (''accepted'', ''10:00 - 10:30'')
         \<and> map_option (\<lambda>b. (status b, time b)) (bookings (snd R) ''booking2'')
           = Some (''waiting'', ''10:00 - 10:30'')
         \<and> map_option (\<lambda>d. map slot_status (timeSlots d)) (doctors (snd R) ''doctor1'')
           = Some [''free'', ''booked'', ''free''])
   \<and> (let R = book juneLib calmEnv (Some sampleUser)
                (sampleRequest\<lparr>req_date := ''2024-06-09T00:00:00.000Z''\<rparr>)
                (sampleWorld (sampleBooking ''accepted'' ''Video call''))
      in fst R = Redirect ''/patient/bookings''
         \<and> map_option (\<lambda>b. (status b, date b)) (bookings (snd R) ''booking2'')
           = Some (''waiting'', 9)
         \<and> map_option (\<lambda>d. map slot_status (timeSlots d)) (doctors (snd R) ''doctor1'')
           = Some [''booked'', ''booked'', ''free''])
   \<and> (let R = book juneLib calmEnv (Some sampleUser)
                (sampleRequest\<lparr>req_doctorId := ''doctor9''\<rparr>)
                (sampleWorld (sampleBooking ''accepted'' ''Video call''))
      in fst R = Send 404 ''Doctor not found''
         \<and> map_option (\<lambda>b. (status b, booking_doctor b)) (bookings (snd R) ''booking2'')
           = Some (''waiting'', ''doctor9'')
         \<and> doctors (snd R) = doctors (sampleWorld (sampleBooking ''accepted'' ''Video call'')))
   \<and> book juneLib saveFailsEnv (Some sampleUser) sampleRequest
        (sampleWorld (sampleBooking ''accepted'' ''Video call''))
      = (Send 500 ''Server Error'',
         (sampleWorld (sampleBooking ''accepted'' ''Video call''))
           \<lparr>console := [[Str ''write failed'']]\<rparr>)"
proof -
  let ?w = "sampleWorld (sampleBooking ''accepted'' ''Video call'')"
  let ?r9 = "sampleRequest\<lparr>req_date := ''2024-06-09T00:00:00.000Z''\<rparr>"
  let ?rd = "sampleRequest\<lparr>req_doctorId := ''doctor9''\<rparr>"
  note t = book_without_availability_check[OF sample_user(1)]
  note t10 = t[where L = juneLib and E = calmEnv and req = sampleRequest and w = ?w]
  note t9 = t[where L = juneLib and E = calmEnv and req = ?r9 and w = ?w]
  note td = t[where L = juneLib and E = calmEnv and req = ?rd and w = ?w]
  note tf = t[where L = juneLib and E = saveFailsEnv and req = sampleRequest and w = ?w]
  note c6 = conjunct2[THEN conjunct2, THEN conjunct2, THEN conjunct2, THEN conjunct2]
  have d: "doctors ?w (req_doctorId sampleRequest) = Some sampleDoctor"
    "doctors ?w (req_doctorId ?r9) = Some sampleDoctor"
    "doctors ?w (req_doctorId ?rd) = None"
    by (simp_all add: sampleWorld_def sampleRequest_def)
  have saved10: "bookings (snd (book juneLib calmEnv (Some sampleUser) sampleRequest ?w))
      = (bookings ?w)(newId calmEnv \<mapsto> newBooking juneLib (user_id sampleUser) sampleRequest)"
    using t10[THEN c6, THEN conjunct1] calm(4) by simp
  have saved9: "bookings (snd (book juneLib calmEnv (Some sampleUser) ?r9 ?w))
      = (bookings ?w)(newId calmEnv \<mapsto> newBooking juneLib (user_id sampleUser) ?r9)"
    using t9[THEN c6, THEN conjunct1] calm(4) by simp
  have savedd: "bookings (snd (book juneLib calmEnv (Some sampleUser) ?rd ?w))
      = (bookings ?w)(newId calmEnv \<mapsto> newBooking juneLib (user_id sampleUser) ?rd)"
    using td[THEN c6, THEN conjunct1] calm(4) by simp
  have failed: "book juneLib saveFailsEnv (Some sampleUser) sampleRequest ?w
      = (Send 500 ''Server Error'', ?w\<lparr>console := [[Str ''write failed'']]\<rparr>)"
    using tf[THEN c6, THEN conjunct2, THEN conjunct1, THEN spec, of "Error ''write failed''"]
    by (simp add: saveFailsEnv_def sampleWorld_def)
  have run10: "fst (book juneLib calmEnv (Some sampleUser) sampleRequest ?w)
        = Redirect ''/patient/bookings''
      \<and> doctors (snd (book juneLib calmEnv (Some sampleUser) sampleRequest ?w)) ''doctor1''
        = Some (sampleDoctor\<lparr>timeSlots := (timeSlots sampleDoctor)
             [1 := (timeSlots sampleDoctor ! 1)\<lparr>slot_status := ''booked''\<rparr>]\<rparr>)"
  proof -
    from t10[THEN c6, THEN conjunct2, THEN conjunct2, THEN conjunct2, THEN conjunct2,
        THEN conjunct1, rule_format, OF calm(4) calm(2) d(1)
        find_first_in_set[OF sample_requested] calm(5)]
    obtain i where i: "i < length (timeSlots sampleDoctor)"
      "slotRequested juneLib sampleRequest (timeSlots sampleDoctor ! i)"
      "\<forall>j < i. \<not> slotRequested juneLib sampleRequest (timeSlots sampleDoctor ! j)"
      and r: "book juneLib calmEnv (Some sampleUser) sampleRequest ?w
            = (Redirect ''/patient/bookings'',
               ?w\<lparr>bookings := (bookings ?w)(newId calmEnv \<mapsto>
                      newBooking juneLib (user_id sampleUser) sampleRequest),
                  doctors := (doctors ?w)(req_doctorId sampleRequest \<mapsto>
                    sampleDoctor\<lparr>timeSlots := (timeSlots sampleDoctor)
                      [i := (timeSlots sampleDoctor ! i)\<lparr>slot_status := ''booked''\<rparr>]\<rparr>)\<rparr>)"
      by blast
    from t10[THEN c6, THEN conjunct2, THEN conjunct2, THEN conjunct2, THEN conjunct1,
        rule_format, THEN iffD2, of i sampleDoctor] i
    have "find_first (slotRequested juneLib sampleRequest) (timeSlots sampleDoctor) = Some i"
      by blast
    with sample_requested have "i = 1" by simp
    with r show ?thesis by (simp add: sampleRequest_def)
  qed
  have run9: "fst (book juneLib calmEnv (Some sampleUser) ?r9 ?w)
        = Redirect ''/patient/bookings''
      \<and> doctors (snd (book juneLib calmEnv (Some sampleUser) ?r9 ?w)) ''doctor1''
        = Some (sampleDoctor\<lparr>timeSlots := (timeSlots sampleDoctor)
             [0 := (timeSlots sampleDoctor ! 0)\<lparr>slot_status := ''booked''\<rparr>]\<rparr>)"
  proof -
    from t9[THEN c6, THEN conjunct2, THEN conjunct2, THEN conjunct2, THEN conjunct2,
        THEN conjunct1, rule_format, OF calm(4) calm(2) d(2)
        find_first_in_set[OF sample_requested_free] calm(5)]
    obtain i where i: "i < length (timeSlots sampleDoctor)"
      "slotRequested juneLib ?r9 (timeSlots sampleDoctor ! i)"
      "\<forall>j < i. \<not> slotRequested juneLib ?r9 (timeSlots sampleDoctor ! j)"
      and r: "book juneLib calmEnv (Some sampleUser) ?r9 ?w
            = (Redirect ''/patient/bookings'',
               ?w\<lparr>bookings := (bookings ?w)(newId calmEnv \<mapsto>
                      newBooking juneLib (user_id sampleUser) ?r9),
                  doctors := (doctors ?w)(req_doctorId ?r9 \<mapsto>
                    sampleDoctor\<lparr>timeSlots := (timeSlots sampleDoctor)
                      [i := (timeSlots sampleDoctor ! i)\<lparr>slot_status := ''booked''\<rparr>]\<rparr>)\<rparr>)"
      by blast
    from t9[THEN c6, THEN conjunct2, THEN conjunct2, THEN conjunct2, THEN conjunct1,
        rule_format, THEN iffD2, of i sampleDoctor] i
    have "find_first (slotRequested juneLib ?r9) (timeSlots sampleDoctor) = Some i"
      by blast
    with sample_requested_free have "i = 0" by simp
    with r show ?thesis by (simp add: sampleRequest_def)
  qed
  have rund: "fst (book juneLib calmEnv (Some sampleUser) ?rd ?w) = Send 404 ''Doctor not found''
      \<and> doctors (snd (book juneLib calmEnv (Some sampleUser) ?rd ?w)) = doctors ?w"
    using td[THEN c6, THEN conjunct2, THEN conjunct2, THEN conjunct2, THEN conjunct2,
        THEN conjunct2, THEN conjunct1, rule_format, OF calm(4), THEN conjunct1]
      td[THEN c6, THEN conjunct2, THEN conjunct2, THEN conjunct2, THEN conjunct2,
        THEN conjunct2, THEN conjunct2, rule_format, OF calm(4) calm(2) d(3)] d(3)
    by simp
  have b10: "map_option (\<lambda>b. (status b, time b))
        (bookings (snd (book juneLib calmEnv (Some sampleUser) sampleRequest ?w)) ''booking1'')
      = Some (''accepted'', ''10:00 - 10:30'')"
    "map_option (\<lambda>b. (status b, time b))
        (bookings (snd (book juneLib calmEnv (Some sampleUser) sampleRequest ?w)) ''booking2'')
      = Some (''waiting'', ''10:00 - 10:30'')"
    unfolding saved10
    by (simp_all add: calm sample_found sample_fields newBooking_def sampleRequest_def)
  have b9: "map_option (\<lambda>b. (status b, date b))
        (bookings (snd (book juneLib calmEnv (Some sampleUser) ?r9 ?w)) ''booking2'')
      = Some (''waiting'', 9)"
    unfolding saved9
    by (simp add: calm newBooking_def sampleRequest_def juneLib_def read_two_def
        digit_value_def)
  have bd: "map_option (\<lambda>b. (status b, booking_doctor b))
        (bookings (snd (book juneLib calmEnv (Some sampleUser) ?rd ?w)) ''booking2'')
      = Some (''waiting'', ''doctor9'')"
    unfolding savedd
    by (simp add: calm newBooking_def sampleRequest_def)
  have s10: "map_option (\<lambda>d. map slot_status (timeSlots d))
        (doctors (snd (book juneLib calmEnv (Some sampleUser) sampleRequest ?w)) ''doctor1'')
      = Some [''free'', ''booked'', ''free'']"
    unfolding run10[THEN conjunct2] by (simp add: sampleDoctor_def sampleSlots_def)
  have s9: "map_option (\<lambda>d. map slot_status (timeSlots d))
        (doctors (snd (book juneLib calmEnv (Some sampleUser) ?r9 ?w)) ''doctor1'')
      = Some [''booked'', ''booked'', ''free'']"
    unfolding run9[THEN conjunct2] by (simp add: sampleDoctor_def sampleSlots_def)
  show ?thesis
    unfolding Let_def
    by (intro conjI sample_slot_statuses(1) run10[THEN conjunct1] b10 s10
        run9[THEN conjunct1] b9 s9 rund[THEN conjunct1] bd rund[THEN conjunct2] failed)
qed

text \<open>
  C9, as the claim states it, fails: the pattern built from \<^verbatim>\<open>what\<close> is compiled
  (\<^verbatim>\<open>new RegExp(what, 'i')\<close>, line 410) before \<^verbatim>\<open>where\<close> is looked at, so a \<^verbatim>\<open>what\<close>
  that is no regular expression, such as an opening parenthesis alone, makes the handler
  answer from its catch block with an error and without asking the database, while the
  same request without \<^verbatim>\<open>what\<close> is answered with the doctors of the location.
\<close>

theorem what_breaks_search_counterexample:
  "searchDoctors balancedPattern echoFind (sampleSearch\<lparr>q_what := Some ''(''\<rparr>)
     = FetchError (Error ''Invalid regular expression'')
   \<and> searchDoctors balancedPattern echoFind (sampleSearch\<lparr>q_what := None\<rparr>)
     = Doctors [(''role'', Eq ''doctor''), (''verified'', Eq ''Verified''),
                (''timeSlots.status'', Eq ''free''),
                (''$or'', AnyOf [(''city'', RegexI ''Pune''), (''state'', RegexI ''Pune''),
                                 (''country'', RegexI ''Pune'')])]"
  by (simp add: searchDoctors_def searchQuery_def whenGivenPattern_def whenGiven_def
      newRegExp_def balancedPattern_def echoFind_def sampleSearch_def baseQuery_def
      whereClauses_def)

text \<open>
  C9, amended. In \<^verbatim>\<open>GET /auth/search-doctors\<close>, when both \<^verbatim>\<open>what\<close> and \<^verbatim>\<open>where\<close> are
  present and \<^verbatim>\<open>what\<close> is a pattern the constructor \<^verbatim>\<open>RegExp\<close> accepts, the \<^verbatim>\<open>$or\<close>
  filter built from \<^verbatim>\<open>what\<close> is overwritten by the one built from \<^verbatim>\<open>where\<close>: the
  outcome of building the query, and so the answer of the handler, is the same as without
  \<^verbatim>\<open>what\<close> and the same for every other accepted or absent \<^verbatim>\<open>what\<close>; whenever a
  query is built, its \<^verbatim>\<open>$or\<close> is the filter on city, state and country, and the answer
  is what the database returns for that query; and with \<^verbatim>\<open>where\<close> accepted and no other
  parameter the query is the three conditions always applied (role, verified, a free
  slot) and that filter on the location only.
\<close>

theorem what_overwritten_by_where:
  assumes "q_where p = Some s" and "s \<noteq> []"
    and "q_what p = Some t" and "t \<noteq> []" and "validPattern t"
  shows "searchQuery validPattern p = searchQuery validPattern (p\<lparr>q_what := None\<rparr>)
     \<and> (\<forall>v. (case v of None \<Rightarrow> True | Some t' \<Rightarrow> t' = [] \<or> validPattern t')
           \<longrightarrow> searchQuery validPattern (p\<lparr>q_what := v\<rparr>) = searchQuery validPattern p)
     \<and> (\<forall>doctorFind :: query \<Rightarrow> exn + 'r. searchDoctors validPattern doctorFind p
           = searchDoctors validPattern doctorFind (p\<lparr>q_what := None\<rparr>))
     \<and> (\<forall>q. searchQuery validPattern p = Inr q
           \<longrightarrow> map_of q ''$or'' = Some (whereClauses s)
             \<and> (\<forall>doctorFind :: query \<Rightarrow> exn + 'r. searchDoctors validPattern doctorFind p
                   = (case doctorFind q of Inl e \<Rightarrow> FetchError e | Inr found \<Rightarrow> Doctors found)))
     \<and> whereClauses s
       = AnyOf [(''city'', RegexI s), (''state'', RegexI s), (''country'', RegexI s)]
     \<and> (validPattern s \<and> q_country p = None \<and> q_state p = None \<and> q_city p = None
        \<and> q_speciality p = None \<and> q_languages p = None \<and> q_gender p = None
        \<and> q_hospitals p = None \<and> q_availability p = None
        \<longrightarrow> searchQuery validPattern p
            = Inr [(''role'', Eq ''doctor''), (''verified'', Eq ''Verified''),
                   (''timeSlots.status'', Eq ''free''), (''$or'', whereClauses s)]
          \<and> (\<forall>doctorFind :: query \<Rightarrow> exn + 'r. searchDoctors validPattern doctorFind p
                = (case doctorFind [(''role'', Eq ''doctor''), (''verified'', Eq ''Verified''),
                                    (''timeSlots.status'', Eq ''free''), (''$or'', whereClauses s)]
                   of Inl e \<Rightarrow> FetchError e | Inr found \<Rightarrow> Doctors found)))"
proof -
  have u: "case q_what p of None \<Rightarrow> True | Some t' \<Rightarrow> t' = [] \<or> validPattern t'"
    using assms(3,5) by simp
  have same: "searchQuery validPattern (p\<lparr>q_what := v\<rparr>) = searchQuery validPattern (p\<lparr>q_what := None\<rparr>)"
    if "case v of None \<Rightarrow> True | Some t' \<Rightarrow> t' = [] \<or> validPattern t'" for v
    using searchQuery_without_what[OF assms(1,2) that] by simp
  have a: "searchQuery validPattern p = searchQuery validPattern (p\<lparr>q_what := None\<rparr>)"
    using same[OF u] by simp
  have b: "searchQuery validPattern (p\<lparr>q_what := v\<rparr>) = searchQuery validPattern p"
    if "case v of None \<Rightarrow> True | Some t' \<Rightarrow> t' = [] \<or> validPattern t'" for v
    using same[OF that] a by simp
  have m: "map_of q ''$or'' = Some (whereClauses s)" if "searchQuery validPattern p = Inr q" for q
  proof -
    have "searchQuery validPattern p
        = andThen (searchQuery validPattern (p\<lparr>q_where := None\<rparr>))
            (\<lambda>q9. whenGivenPattern validPattern (Some s) ''$or'' whereClauses q9)"
      using assms(1) by (simp add: searchQuery_def andThen_assoc)
    with that obtain q9 where "whenGivenPattern validPattern (Some s) ''$or'' whereClauses q9 = Inr q"
      by (cases "searchQuery validPattern (p\<lparr>q_where := None\<rparr>)") auto
    then show ?thesis
      using assms(2)
      by (auto simp: whenGivenPattern_def newRegExp_def map_of_assign split: if_splits)
  qed
  have l: "searchQuery validPattern p
            = Inr [(''role'', Eq ''doctor''), (''verified'', Eq ''Verified''),
                   (''timeSlots.status'', Eq ''free''), (''$or'', whereClauses s)]"
    if "validPattern s \<and> q_country p = None \<and> q_state p = None \<and> q_city p = None
        \<and> q_speciality p = None \<and> q_languages p = None \<and> q_gender p = None
        \<and> q_hospitals p = None \<and> q_availability p = None"
    using that by (intro searchQuery_location_only[OF assms(1,2) _ u]) auto
  show ?thesis
  proof (intro conjI allI impI)
    show "searchQuery validPattern p = searchQuery validPattern (p\<lparr>q_what := None\<rparr>)"
      by (rule a)
  next
    fix v
    assume "case v of None \<Rightarrow> True | Some t' \<Rightarrow> t' = [] \<or> validPattern t'"
    then show "searchQuery validPattern (p\<lparr>q_what := v\<rparr>) = searchQuery validPattern p"
      by (rule b)
  next
    fix doctorFind :: "query \<Rightarrow> exn + 'r"
    show "searchDoctors validPattern doctorFind p
        = searchDoctors validPattern doctorFind (p\<lparr>q_what := None\<rparr>)"
      by (simp add: searchDoctors_def a)
  next
    fix q
    assume "searchQuery validPattern p = Inr q"
    then show "map_of q ''$or'' = Some (whereClauses s)"
      by (rule m)
  next
    fix q and doctorFind :: "query \<Rightarrow> exn + 'r"
    assume "searchQuery validPattern p = Inr q"
    then show "searchDoctors validPattern doctorFind p
        = (case doctorFind q of Inl e \<Rightarrow> FetchError e | Inr found \<Rightarrow> Doctors found)"
      by (simp add: searchDoctors_def)
  next
    show "whereClauses s
        = AnyOf [(''city'', RegexI s), (''state'', RegexI s), (''country'', RegexI s)]"
      by (simp add: whereClauses_def)
  next
    assume "validPattern s \<and> q_country p = None \<and> q_state p = None \<and> q_city p = None
        \<and> q_speciality p = None \<and> q_languages p = None \<and> q_gender p = None
        \<and> q_hospitals p = None \<and> q_availability p = None"
    then show "searchQuery validPattern p
            = Inr [(''role'', Eq ''doctor''), (''verified'', Eq ''Verified''),
                   (''timeSlots.status'', Eq ''free''), (''$or'', whereClauses s)]"
      by (rule l)
  next
    fix doctorFind :: "query \<Rightarrow> exn + 'r"
    assume "validPattern s \<and> q_country p = None \<and> q_state p = None \<and> q_city p = None
        \<and> q_speciality p = None \<and> q_languages p = None \<and> q_gender p = None
        \<and> q_hospitals p = None \<and> q_availability p = None"
    then show "searchDoctors validPattern doctorFind p
                = (case doctorFind [(''role'', Eq ''doctor''), (''verified'', Eq ''Verified''),
                                    (''timeSlots.status'', Eq ''free''), (''$or'', whereClauses s)]
                   of Inl e \<Rightarrow> FetchError e | Inr found \<Rightarrow> Doctors found)"
      by (simp add: searchDoctors_def l)
  qed
qed

theorem what_overwritten_by_where_witness:
  "searchQuery balancedPattern sampleSearch
     = Inr [(''role'', Eq ''doctor''), (''verified'', Eq ''Verified''),
            (''timeSlots.status'', Eq ''free''),
            (''$or'', AnyOf [(''city'', RegexI ''Pune''), (''state'', RegexI ''Pune''),
                             (''country'', RegexI ''Pune'')])]
   \<and> searchDoctors balancedPattern echoFind sampleSearch
     = Doctors [(''role'', Eq ''doctor''), (''verified'', Eq ''Verified''),
                (''timeSlots.status'', Eq ''free''),
                (''$or'', AnyOf [(''city'', RegexI ''Pune''), (''state'', RegexI ''Pune''),
                                 (''country'', RegexI ''Pune'')])]
   \<and> searchQuery balancedPattern (sampleSearch\<lparr>q_what := Some ''skin''\<rparr>)
     = searchQuery balancedPattern sampleSearch
   \<and> searchQuery balancedPattern (sampleSearch\<lparr>q_what := None\<rparr>)
     = searchQuery balancedPattern sampleSearch"
  using what_overwritten_by_where[where p = sampleSearch and s = "''Pune''" and t = "''cardio''"
      and validPattern = balancedPattern, THEN conjunct2, THEN conjunct2, THEN conjunct2,
      THEN conjunct2, THEN conjunct2, THEN mp, THEN conjunct2, THEN spec, of echoFind]
    what_overwritten_by_where[where p = sampleSearch and s = "''Pune''" and t = "''cardio''"
      and validPattern = balancedPattern, THEN conjunct2, THEN conjunct2, THEN conjunct2,
      THEN conjunct2, THEN conjunct2, THEN mp, THEN conjunct1]
    what_overwritten_by_where[where p = sampleSearch and s = "''Pune''" and t = "''cardio''"
      and validPattern = balancedPattern, THEN conjunct2, THEN conjunct1, THEN spec,
      of "Some ''skin''"]
    what_overwritten_by_where[where p = sampleSearch and s = "''Pune''" and t = "''cardio''"
      and validPattern = balancedPattern, THEN conjunct1]
  by (simp add: sample_search_fields whereClauses_def echoFind_def)

text \<open>
  C10. \<^verbatim>\<open>POST /patient/add-to-favorites\<close> keeps the invariant that no list of favorites
  holds a doctor id twice, in every run. For a logged-in patient and a doctor that both
  exist: when the id is in the list already, the answer is status 400 with
  \<^verbatim>\<open>Doctor already in favorites\<close> and nothing changes; otherwise, the save succeeding,
  the id is appended to the list, where it then stands exactly once.
\<close>

theorem favorites_without_duplicates:
  "(noDuplicateFavorites w \<longrightarrow> noDuplicateFavorites (snd (addToFavorites E su doctorId w)))
   \<and> (patientLoggedIn (Some u) \<longrightarrow> findPatient_err E = None \<longrightarrow> findDoctor_err E = None \<longrightarrow>
      patients w (user_id u) = Some p \<longrightarrow> doctors w doctorId = Some d \<longrightarrow>
        (doctorId \<in> set (favoritesOf p) \<longrightarrow>
           addToFavorites E (Some u) doctorId w = (Send 400 ''Doctor already in favorites'', w))
        \<and> (doctorId \<notin> set (favoritesOf p) \<longrightarrow> patientSave_err E = None \<longrightarrow>
           addToFavorites E (Some u) doctorId w
             = (Redirect ''/patient/doctors'',
                w\<lparr>patients := (patients w)(user_id u \<mapsto>
                     p\<lparr>favoriteDoctors := Some (favoritesOf p @ [doctorId])\<rparr>)\<rparr>)
           \<and> count_list (favoritesOf p @ [doctorId]) doctorId = 1))"
proof (intro conjI impI)
  assume "noDuplicateFavorites w"
  then show "noDuplicateFavorites (snd (addToFavorites E su doctorId w))"
    by (rule addToFavorites_keeps_invariant)
next
  assume h: "patientLoggedIn (Some u)" "findPatient_err E = None" "findDoctor_err E = None"
    "patients w (user_id u) = Some p" "doctors w doctorId = Some d"
  {
    assume "doctorId \<in> set (favoritesOf p)"
    with h show "addToFavorites E (Some u) doctorId w
        = (Send 400 ''Doctor already in favorites'', w)"
      by (simp add: addToFavorites_def addToFavoritesBody_def tryCatch_def
          findPatientById_def findDoctorById_def await_def bnd_def ret_def)
  }
  {
    assume n: "doctorId \<notin> set (favoritesOf p)" and s: "patientSave_err E = None"
    with h show "addToFavorites E (Some u) doctorId w
             = (Redirect ''/patient/doctors'',
                w\<lparr>patients := (patients w)(user_id u \<mapsto>
                     p\<lparr>favoriteDoctors := Some (favoritesOf p @ [doctorId])\<rparr>)\<rparr>)"
      by (simp add: addToFavorites_def addToFavoritesBody_def tryCatch_def
          findPatientById_def findDoctorById_def savePatient_def await_def bnd_def ret_def)
    from n show "count_list (favoritesOf p @ [doctorId]) doctorId = 1"
      by (simp add: count_list_0_iff)
  }
qed

theorem favorites_without_duplicates_witness:
  "map_option favoritesOf
     (patients (snd (addToFavorites calmEnv (Some sampleUser) ''doctor1''
        (sampleWorld (sampleBooking ''waiting'' ''Video call'')))) ''patient1'')
     = Some [''doctor7'', ''doctor1'']
   \<and> fst (addToFavorites calmEnv (Some sampleUser) ''doctor1''
        (snd (addToFavorites calmEnv (Some sampleUser) ''doctor1''
           (sampleWorld (sampleBooking ''waiting'' ''Video call'')))))
     = Send 400 ''Doctor already in favorites''
   \<and> noDuplicateFavorites (snd (addToFavorites calmEnv (Some sampleUser) ''doctor1''
        (sampleWorld (sampleBooking ''waiting'' ''Video call''))))"
proof -
  let ?w = "sampleWorld (sampleBooking ''waiting'' ''Video call'')"
  let ?p' = "samplePatient\<lparr>favoriteDoctors := Some (favoritesOf samplePatient @ [''doctor1''])\<rparr>"
  let ?w' = "?w\<lparr>patients := (patients ?w)(user_id sampleUser \<mapsto> ?p')\<rparr>"
  note t = favorites_without_duplicates[THEN conjunct2, rule_format,
      where E = calmEnv and u = sampleUser and doctorId = "''doctor1''",
      OF sample_user(1) calm(3) calm(2)]
  have p: "patients ?w (user_id sampleUser) = Some samplePatient"
    by (simp add: sample_user sample_patient)
  have n: "''doctor1'' \<notin> set (favoritesOf samplePatient)"
    by (simp add: favoritesOf_def samplePatient_def)
  from t[OF p sample_doctor, THEN conjunct2, rule_format, OF n calm(6)]
  have first: "addToFavorites calmEnv (Some sampleUser) ''doctor1'' ?w
      = (Redirect ''/patient/doctors'', ?w')"
    by simp
  have p': "patients ?w' (user_id sampleUser) = Some ?p'"
    by simp
  have d': "doctors ?w' ''doctor1'' = Some sampleDoctor"
    by (simp add: sample_doctor)
  have i: "''doctor1'' \<in> set (favoritesOf ?p')"
    by (simp add: favoritesOf_def)
  from t[OF p' d', THEN conjunct1, rule_format, OF i]
  have second: "addToFavorites calmEnv (Some sampleUser) ''doctor1'' ?w'
      = (Send 400 ''Doctor already in favorites'', ?w')" .
  have "noDuplicateFavorites ?w"
    by (simp add: noDuplicateFavorites_def sampleWorld_def favoritesOf_def samplePatient_def)
  with favorites_without_duplicates[THEN conjunct1, rule_format,
      of ?w calmEnv "Some sampleUser" "''doctor1''"]
  have inv: "noDuplicateFavorites (snd (addToFavorites calmEnv (Some sampleUser) ''doctor1'' ?w))" .
  have "map_option favoritesOf (patients ?w' ''patient1'') = Some [''doctor7'', ''doctor1'']"
    by (simp add: favoritesOf_def samplePatient_def sample_user)
  with inv second show ?thesis
    by (simp add: first)
qed

end
